(* ===== verification/Prelude.thy ===== *)
theory Prelude
  imports Complex_Main "HOL-Library.Word"
begin

text \<open>
  Shared vocabulary of the development: bytes and big-endian integers (the ARC-4 wire
  format), a bind on the result type \<open>error + 'a\<close> used for every fallible operation,
  and the few JavaScript value conventions the frontend relies on (string truthiness in
  \<open>a || b\<close> and \<open>Math.round\<close>).
\<close>

named_theorems wire_simps "equations that evaluate the wire format on concrete bytes"
named_theorems js_simps "equations of the JavaScript value conventions"

type_synonym byte = "8 word"

section \<open>Results with errors\<close>

definition bind_res :: "'e + 'a \<Rightarrow> ('a \<Rightarrow> 'e + 'b) \<Rightarrow> 'e + 'b" where
  "bind_res x f = (case x of Inl e \<Rightarrow> Inl e | Inr a \<Rightarrow> f a)"

section \<open>Big-endian unsigned integers\<close>

text \<open>
  \<open>be_nat n x\<close> is Python's \<open>x.to_bytes(n, 'big')\<close> with the value taken modulo
  \<open>256 ^ n\<close>; \<open>nat_of_be\<close> is \<open>int.from_bytes(bs, 'big')\<close>.
\<close>

fun be_nat :: "nat \<Rightarrow> nat \<Rightarrow> byte list" where
  "be_nat 0 x = []"
| "be_nat (Suc n) x = be_nat n (x div 256) @ [word_of_nat (x mod 256)]"

definition nat_of_be :: "byte list \<Rightarrow> nat" where
  "nat_of_be bs = foldl (\<lambda>a b. a * 256 + unat b) 0 bs"

section \<open>JavaScript value conventions\<close>

text \<open>
  \<open>a || b\<close> on strings yields \<open>a\<close> when \<open>a\<close> is truthy (non-empty) and \<open>b\<close> otherwise;
  \<open>Math.round x\<close> is \<open>floor (x + 1/2)\<close> (ties go up).
\<close>

definition js_or :: "string \<Rightarrow> string \<Rightarrow> string" where
  "js_or a b = (if a \<noteq> [] then a else b)"

definition js_round :: "real \<Rightarrow> int" where
  "js_round x = \<lfloor>x + 1 / 2\<rfloor>"

text \<open>\<open>String.prototype.toLowerCase\<close> on the ASCII letters.\<close>

definition to_lower :: "string \<Rightarrow> string" where
  "to_lower = map (\<lambda>c. let n = of_char c :: nat in if 65 \<le> n \<and> n \<le> 90 then char_of (n + 32) else c)"

text \<open>\<open>x.toFixed(0)\<close>: the integer nearest to \<open>|x|\<close>, the larger one on a tie, with the sign
  of \<open>x\<close>.\<close>

definition to_fixed0 :: "real \<Rightarrow> int" where
  "to_fixed0 x = (if x < 0 then - \<lfloor>- x + 1 / 2\<rfloor> else \<lfloor>x + 1 / 2\<rfloor>)"

section \<open>Requests in flight\<close>

text \<open>The ghost identifiers of the requests a page has in flight: distinct, and all
  below the next identifier it will hand out.\<close>

definition fresh_ids :: "(nat \<times> 'a) list \<Rightarrow> nat \<Rightarrow> bool" where
  "fresh_ids ps n \<longleftrightarrow> distinct (map fst ps) \<and> (\<forall>p \<in> set ps. fst p < n)"

section \<open>Lemmas\<close>

lemma bind_res_Inl [simp]: "bind_res (Inl e) f = Inl e"
  by (simp add: bind_res_def)

lemma bind_res_Inr [simp]: "bind_res (Inr a) f = f a"
  by (simp add: bind_res_def)

lemma bind_res_eq_Inr:
  "bind_res x f = Inr b \<longleftrightarrow> (\<exists>a. x = Inr a \<and> f a = Inr b)"
  by (cases x) (simp_all add: bind_res_def)

lemma bind_res_cong [fundef_cong]:
  "x = y \<Longrightarrow> (\<And>a. y = Inr a \<Longrightarrow> f a = g a) \<Longrightarrow> bind_res x f = bind_res y g"
  by (cases y) simp_all

lemma length_be_nat [simp, wire_simps]: "length (be_nat n x) = n"
  by (induction n arbitrary: x) simp_all

lemma nat_of_be_Nil [simp]: "nat_of_be [] = 0"
  by (simp add: nat_of_be_def)

lemma nat_of_be_snoc [simp]: "nat_of_be (bs @ [b]) = nat_of_be bs * 256 + unat b"
  by (simp add: nat_of_be_def)

lemma unat_byte_of_mod [simp]: "unat (word_of_nat (x mod 256) :: byte) = x mod 256"
  by (simp add: unat_of_nat)

lemma nat_of_be_be_nat [simp, wire_simps]: "nat_of_be (be_nat n x) = x mod 256 ^ n"
proof (induction n arbitrary: x)
  case 0
  then show ?case by simp
next
  case (Suc n)
  have "x mod 256 ^ Suc n = 256 * (x div 256 mod 256 ^ n) + x mod 256"
    by (simp add: mod_mult2_eq)
  with Suc show ?case by simp
qed

lemma nat_of_be_be_nat_small [wire_simps]: "x < 256 ^ n \<Longrightarrow> nat_of_be (be_nat n x) = x"
  by simp

lemma nat_of_be_less: "nat_of_be bs < 256 ^ length bs"
proof (induction bs rule: rev_induct)
  case Nil
  then show ?case by simp
next
  case (snoc b bs)
  have "unat b < 256"
    using unsigned_less [of b] by simp
  with snoc show ?case by simp
qed

lemma js_or_Nil [simp, js_simps]: "js_or [] b = b"
  by (simp add: js_or_def)

lemma js_or_Cons [simp, js_simps]: "js_or (c # cs) b = c # cs"
  by (simp add: js_or_def)

lemma js_or_empty_iff [simp]: "js_or a b = [] \<longleftrightarrow> a = [] \<and> b = []"
  by (simp add: js_or_def)

lemma js_round_mono: "x \<le> y \<Longrightarrow> js_round x \<le> js_round y"
  by (simp add: js_round_def floor_mono)

lemma js_round_of_int [simp, js_simps]: "js_round (of_int k) = k"
  by (simp add: js_round_def floor_eq_iff)

lemma js_round_0 [simp, js_simps]: "js_round 0 = 0"
  by (simp add: js_round_def)

lemma js_round_numeral [simp, js_simps]: "js_round (numeral n) = numeral n"
  using js_round_of_int [of "numeral n"] by simp

lemma js_round_bounds:
  assumes "of_int lo \<le> x" and "x \<le> of_int hi"
  shows "lo \<le> js_round x \<and> js_round x \<le> hi"
proof -
  have "js_round (of_int lo) \<le> js_round x" and "js_round x \<le> js_round (of_int hi)"
    using assms by (simp_all only: js_round_mono)
  then show ?thesis by simp
qed

lemma fresh_ids_Nil [simp]: "fresh_ids [] n"
  by (simp add: fresh_ids_def)

lemma fresh_ids_snoc: "fresh_ids ps n \<Longrightarrow> fresh_ids (ps @ [(n, x)]) (Suc n)"
  by (auto simp: fresh_ids_def)

lemma fresh_ids_filter: "fresh_ids ps n \<Longrightarrow> fresh_ids (filter P ps) n"
  by (auto simp: fresh_ids_def distinct_map_filter)

lemma to_fixed0_mono: "0 \<le> x \<Longrightarrow> x \<le> y \<Longrightarrow> to_fixed0 x \<le> to_fixed0 y"
  by (simp add: to_fixed0_def floor_mono)

lemma to_fixed0_nonneg: "0 \<le> x \<Longrightarrow> 0 \<le> to_fixed0 x"
  by (simp add: to_fixed0_def)

lemma to_fixed0_100: "to_fixed0 100 = 100"
  by (simp add: to_fixed0_def)

lemma fresh_map_of_snoc: "fresh_ids ps n \<Longrightarrow> map_of (ps @ [(n, x)]) n = Some x"
  by (auto simp: fresh_ids_def map_add_def split: option.split dest: map_of_SomeD)

end
