(* ===== verification/Codec.thy ===== *)
theory Codec
  imports Prelude
begin

text \<open>
  The record codec of the ledger boundary (backend/core/arc4_decoder.py and the
  contract's ARC-4 encoding; that code is not in the repository, so it is modelled from
  the specification, section 4.1, and the wire format of ARCHITECTURE.md). A SkillRecord
  is a five-field struct; on the wire a record is \<open>[2B length][struct]\<close>, the struct a
  22-byte head of two-byte offsets and eight-byte integers followed by three
  length-prefixed strings. A wallet's box is the concatenation of its encoded records.
  Field strings are represented by their UTF-8 bytes (an Isabelle \<open>string\<close> is a
  list of 8-bit characters), so a Python \<open>str\<close> is the string of its UTF-8 encoding.
\<close>

section \<open>Records and errors\<close>

record skill_record =
  mode :: string
  domain :: string
  score :: "64 word"
  artifact_hash :: string
  timestamp :: "64 word"

datatype decode_error =
  TruncatedRecordError
| InvalidOffsetError
| Utf8DecodeError
| FieldBoundsError

section \<open>UTF-8 validity\<close>

text \<open>
  Python's strict \<open>bytes.decode('utf-8')\<close>: a lead byte fixes the width of the sequence;
  overlong forms, surrogates and code points above U+10FFFF are refused through the
  allowed range of the second byte; every further byte is a continuation byte.
\<close>

definition utf8_width :: "nat \<Rightarrow> nat" where
  "utf8_width b =
     (if b < 128 then 1
      else if 194 \<le> b \<and> b \<le> 223 then 2
      else if 224 \<le> b \<and> b \<le> 239 then 3
      else if 240 \<le> b \<and> b \<le> 244 then 4
      else 0)"

definition utf8_cont :: "nat \<Rightarrow> bool" where
  "utf8_cont c \<longleftrightarrow> 128 \<le> c \<and> c \<le> 191"

definition utf8_second_ok :: "nat \<Rightarrow> nat \<Rightarrow> bool" where
  "utf8_second_ok b c =
     (if b = 224 then 160 \<le> c \<and> c \<le> 191
      else if b = 237 then 128 \<le> c \<and> c \<le> 159
      else if b = 240 then 144 \<le> c \<and> c \<le> 191
      else if b = 244 then 128 \<le> c \<and> c \<le> 143
      else utf8_cont c)"

function utf8_valid :: "nat list \<Rightarrow> bool" where
  "utf8_valid [] = True"
| "utf8_valid (b # bs) =
     (let w = utf8_width b in
      w \<noteq> 0 \<and> w - 1 \<le> length bs
      \<and> (w = 1 \<or> (utf8_second_ok b (hd bs) \<and> list_all utf8_cont (take (w - 2) (tl bs))))
      \<and> utf8_valid (drop (w - 1) bs))"
  by pat_completeness auto
termination
  by (relation "measure length") auto

definition utf8_string :: "string \<Rightarrow> bool" where
  "utf8_string s \<longleftrightarrow> utf8_valid (map of_char s)"

section \<open>Encoding\<close>

definition bytes_of_string :: "string \<Rightarrow> byte list" where
  "bytes_of_string s = map (\<lambda>c. word_of_nat (of_char c)) s"

definition string_of_bytes :: "byte list \<Rightarrow> string" where
  "string_of_bytes bs = map (\<lambda>b. char_of (unat b)) bs"

definition u16_be :: "nat \<Rightarrow> byte list" where
  "u16_be n = be_nat 2 n"

definition u64_be :: "64 word \<Rightarrow> byte list" where
  "u64_be w = be_nat 8 (unat w)"

definition head_size :: nat where
  "head_size = 22"

definition encode_string :: "string \<Rightarrow> byte list" where
  "encode_string s = u16_be (length s) @ bytes_of_string s"

definition encode_struct :: "skill_record \<Rightarrow> byte list" where
  "encode_struct r =
     (let m = encode_string (mode r); d = encode_string (domain r);
          a = encode_string (artifact_hash r);
          om = head_size; od = om + length m; oa = od + length d
      in u16_be om @ u16_be od @ u64_be (score r) @ u16_be oa @ u64_be (timestamp r)
         @ m @ d @ a)"

definition encode_record :: "skill_record \<Rightarrow> byte list" where
  "encode_record r = (let s = encode_struct r in u16_be (length s) @ s)"

definition encode_records :: "skill_record list \<Rightarrow> byte list" where
  "encode_records rs = concat (map encode_record rs)"

section \<open>Decoding\<close>

definition read_u16 :: "byte list \<Rightarrow> nat \<Rightarrow> nat" where
  "read_u16 s i = nat_of_be (take 2 (drop i s))"

definition read_u64 :: "byte list \<Rightarrow> nat \<Rightarrow> 64 word" where
  "read_u64 s i = word_of_nat (nat_of_be (take 8 (drop i s)))"

definition read_string :: "byte list \<Rightarrow> nat \<Rightarrow> decode_error + string" where
  "read_string s off =
     (if length s < off + 2 then Inl InvalidOffsetError
      else let n = read_u16 s off in
        if length s < off + 2 + n then Inl InvalidOffsetError
        else let p = take n (drop (off + 2) s) in
          if utf8_valid (map unat p) then Inr (string_of_bytes p) else Inl Utf8DecodeError)"

definition decode_struct :: "byte list \<Rightarrow> decode_error + skill_record" where
  "decode_struct s =
     (if length s < head_size then Inl TruncatedRecordError
      else bind_res (read_string s (read_u16 s 0)) (\<lambda>m.
           bind_res (read_string s (read_u16 s 2)) (\<lambda>d.
           let sc = read_u64 s 4 in
           if 100 < sc then Inl FieldBoundsError
           else bind_res (read_string s (read_u16 s 12)) (\<lambda>a.
             Inr \<lparr>mode = m, domain = d, score = sc, artifact_hash = a,
                  timestamp = read_u64 s 14\<rparr>))))"

text \<open>
  The decoder's loop: \<open>off\<close> walks the blob; each iteration reads a two-byte length and
  the struct it announces, and appends the decoded record (oldest first).
\<close>

function decode_loop :: "byte list \<Rightarrow> nat \<Rightarrow> skill_record list \<Rightarrow> decode_error + skill_record list" where
  "decode_loop bs off acc =
     (if length bs \<le> off then Inr acc
      else if length bs < off + 2 then Inl TruncatedRecordError
      else let n = read_u16 bs off in
        if length bs < off + 2 + n then Inl TruncatedRecordError
        else case decode_struct (take n (drop (off + 2) bs)) of
               Inl e \<Rightarrow> Inl e
             | Inr r \<Rightarrow> decode_loop bs (off + 2 + n) (acc @ [r]))"
  by pat_completeness auto
termination
  by (relation "measure (\<lambda>(bs, off, acc). length bs - off)") auto

declare decode_loop.simps [simp del]

definition decode_records :: "byte list \<Rightarrow> decode_error + skill_record list" where
  "decode_records bs = decode_loop bs 0 []"

section \<open>Well-formed and encodable records\<close>

text \<open>
  The specification's invariant of a SkillRecord (section 3), and what the codec needs:
  the decoder accepts the record (\<open>decodable\<close>) and the 16-bit length and offset fields
  hold the struct's size (\<open>encodable\<close>).
\<close>

definition is_hex_char :: "char \<Rightarrow> bool" where
  "is_hex_char c \<longleftrightarrow> c \<in> set ''0123456789abcdefABCDEF''"

definition skill_record_wf :: "skill_record \<Rightarrow> bool" where
  "skill_record_wf r \<longleftrightarrow>
     score r \<le> 100 \<and> 0 < timestamp r \<and> length (artifact_hash r) = 64
     \<and> list_all is_hex_char (artifact_hash r) \<and> utf8_string (mode r) \<and> utf8_string (domain r)"

definition decodable :: "skill_record \<Rightarrow> bool" where
  "decodable r \<longleftrightarrow>
     score r \<le> 100 \<and> utf8_string (mode r) \<and> utf8_string (domain r)
     \<and> utf8_string (artifact_hash r)"

definition struct_size :: "skill_record \<Rightarrow> nat" where
  "struct_size r = head_size + 6 + length (mode r) + length (domain r) + length (artifact_hash r)"

definition encodable :: "skill_record \<Rightarrow> bool" where
  "encodable r \<longleftrightarrow> struct_size r < 2 ^ 16"

text \<open>
  The contract's \<open>submit_skill_record\<close> appends the encoded record to the sender's box
  (the ledger side of a submission).
\<close>

definition append_record :: "byte list \<Rightarrow> skill_record \<Rightarrow> byte list" where
  "append_record box r = box @ encode_record r"

definition sample_record :: skill_record where
  "sample_record = \<lparr>mode = ''ai-graded'', domain = ''python'', score = 85,
     artifact_hash = ''9f86d081884c7d659a2feaa0c55ad015a3bf4f1b2b0b822cd15d6c15b0f00a08'',
     timestamp = 1700000000\<rparr>"

section \<open>Codec lemmas\<close>

lemma length_bytes_of_string [simp]: "length (bytes_of_string s) = length s"
  by (simp add: bytes_of_string_def)

lemma unat_byte_of_char [simp]: "unat (word_of_nat (of_char c) :: byte) = of_char c"
  by (simp add: unat_of_nat)

lemma map_unat_bytes_of_string [simp]: "map unat (bytes_of_string s) = map of_char s"
  by (simp add: bytes_of_string_def)

lemma string_of_bytes_of_string [simp]: "string_of_bytes (bytes_of_string s) = s"
  by (simp add: string_of_bytes_def bytes_of_string_def map_idI)

lemma length_u16_be [simp, wire_simps]: "length (u16_be n) = 2"
  by (simp add: u16_be_def)

lemma length_u64_be [simp, wire_simps]: "length (u64_be w) = 8"
  by (simp add: u64_be_def)

lemma nat_of_be_u16_be [wire_simps]: "n < 2 ^ 16 \<Longrightarrow> nat_of_be (u16_be n) = n"
  by (simp add: u16_be_def)

lemma word_of_nat_u64_be [simp, wire_simps]: "word_of_nat (nat_of_be (u64_be w)) = w"
proof -
  have "unat w < 256 ^ 8"
    using unsigned_less [of w] by simp
  then show ?thesis by (simp add: u64_be_def)
qed

lemma length_encode_string [simp]: "length (encode_string s) = 2 + length s"
  by (simp add: encode_string_def)

lemma length_encode_struct [simp]: "length (encode_struct r) = struct_size r"
  by (simp add: encode_struct_def struct_size_def head_size_def Let_def)

lemma decodable_if_wf: "skill_record_wf r \<Longrightarrow> decodable r"
proof -
  have hex_ascii: "is_hex_char c \<Longrightarrow> of_char c < (128::nat)" for c
    by (auto simp: is_hex_char_def)
  have ascii: "\<forall>c\<in>set s. of_char c < (128::nat) \<Longrightarrow> utf8_string s" for s
    by (induction s) (simp_all add: utf8_string_def utf8_width_def)
  assume "skill_record_wf r"
  then show ?thesis
    by (auto simp: skill_record_wf_def decodable_def list_all_iff intro!: ascii hex_ascii)
qed

text \<open>Reading at an offset of a concatenation, the shape every field read has.\<close>

lemma read_u16_at [wire_simps]:
  "length pre = i \<Longrightarrow> n < 2 ^ 16 \<Longrightarrow> read_u16 (pre @ u16_be n @ post) i = n"
  by (simp add: read_u16_def nat_of_be_u16_be)

lemma read_u64_at [wire_simps]:
  "length pre = i \<Longrightarrow> read_u64 (pre @ u64_be w @ post) i = w"
  by (simp add: read_u64_def)

lemma read_string_at [wire_simps]:
  assumes "length pre = off" and "length x < 2 ^ 16" and "utf8_string x"
  shows "read_string (pre @ encode_string x @ post) off = Inr x"
  using assms
  by (simp add: read_string_def encode_string_def read_u16_def nat_of_be_u16_be utf8_string_def)

lemma decode_encode_struct:
  assumes "decodable r" and "encodable r"
  shows "decode_struct (encode_struct r) = Inr r"
proof -
  have lens: "length (mode r) < 2 ^ 16" "length (domain r) < 2 ^ 16" "length (artifact_hash r) < 2 ^ 16"
    "22 + 2 + length (mode r) < 2 ^ 16" "22 + 2 + length (mode r) + 2 + length (domain r) < 2 ^ 16"
    using assms(2) by (simp_all add: encodable_def struct_size_def head_size_def)
  have sc: "\<not> 100 < score r" and u: "utf8_string (mode r)" "utf8_string (domain r)" "utf8_string (artifact_hash r)"
    using assms(1) by (auto simp: decodable_def)
  show ?thesis
    using lens sc u
    by (simp add: decode_struct_def encode_struct_def Let_def head_size_def read_u16_def read_u64_def
        read_string_def encode_string_def nat_of_be_u16_be utf8_string_def)
qed

lemma length_encode_record [simp]: "length (encode_record r) = 2 + struct_size r"
  by (simp add: encode_record_def)

lemma encode_records_Nil [simp]: "encode_records [] = []"
  by (simp add: encode_records_def)

lemma encode_records_Cons [simp]: "encode_records (r # rs) = encode_record r @ encode_records rs"
  by (simp add: encode_records_def)

lemma decode_loop_end: "length bs \<le> off \<Longrightarrow> decode_loop bs off acc = Inr acc"
  by (simp add: decode_loop.simps)

lemma decode_loop_step:
  assumes "length pre = off" and "length s < 2 ^ 16" and "decode_struct s = Inr r"
  shows "decode_loop (pre @ u16_be (length s) @ s @ post) off acc
         = decode_loop (pre @ u16_be (length s) @ s @ post) (off + 2 + length s) (acc @ [r])"
  using assms
  by (simp add: decode_loop.simps [of _ off] read_u16_def nat_of_be_u16_be Let_def)

lemma decode_loop_fail:
  assumes "length pre = off" and "length s < 2 ^ 16" and "decode_struct s = Inl e"
  shows "decode_loop (pre @ u16_be (length s) @ s @ post) off acc = Inl e"
  using assms
  by (simp add: decode_loop.simps [of _ off] read_u16_def nat_of_be_u16_be Let_def)

lemma decode_loop_records:
  assumes "\<forall>r\<in>set rs. decodable r \<and> encodable r"
  shows "decode_loop (pre @ encode_records rs @ post) (length pre) acc
       = decode_loop (pre @ encode_records rs @ post) (length pre + length (encode_records rs)) (acc @ rs)"
  using assms
proof (induction rs arbitrary: pre acc)
  case Nil
  then show ?case by simp
next
  case (Cons r rs)
  let ?s = "encode_struct r"
  let ?pre = "pre @ u16_be (length ?s) @ ?s"
  have ok: "decodable r" "encodable r" and rest: "\<forall>r\<in>set rs. decodable r \<and> encodable r"
    using Cons.prems by auto
  have small: "length ?s < 2 ^ 16"
    using ok(2) by (simp add: encodable_def)
  have "decode_loop (pre @ u16_be (length ?s) @ ?s @ encode_records rs @ post) (length pre) acc
      = decode_loop (?pre @ encode_records rs @ post) (length ?pre) (acc @ [r])"
    using decode_loop_step [OF refl small decode_encode_struct [OF ok]] by simp
  also have "\<dots> = decode_loop (?pre @ encode_records rs @ post)
                    (length ?pre + length (encode_records rs)) ((acc @ [r]) @ rs)"
    using rest by (rule Cons.IH)
  finally show ?case by (simp add: encode_record_def add.assoc)
qed

theorem decode_records_roundtrip:
  assumes "\<forall>r\<in>set rs. decodable r \<and> encodable r"
  shows "decode_records (encode_records rs) = Inr rs"
  using decode_loop_records [OF assms, of "[]" "[]" "[]"]
  by (simp add: decode_records_def decode_loop_end)

theorem decode_truncated:
  assumes "\<forall>r\<in>set rs. decodable r \<and> encodable r" and "length tail < n" and "n < 2 ^ 16"
  shows "decode_records (encode_records rs @ u16_be n @ tail) = Inl TruncatedRecordError"
proof -
  let ?bs = "encode_records rs @ u16_be n @ tail"
  have "decode_records ?bs = decode_loop ?bs (length (encode_records rs)) rs"
    using decode_loop_records [OF assms(1), of "[]" "u16_be n @ tail" "[]"]
    by (simp add: decode_records_def)
  also have "\<dots> = Inl TruncatedRecordError"
    using assms(2,3)
    by (simp add: decode_loop.simps [of ?bs] read_u16_def nat_of_be_u16_be)
  finally show ?thesis .
qed


lemma append_records_box:
  "append_record (encode_records rs) r = encode_records (rs @ [r])"
  by (simp add: append_record_def encode_records_def)

lemma decode_struct_bad_score:
  assumes "100 < score r" and "utf8_string (mode r)" and "utf8_string (domain r)" and "encodable r"
  shows "decode_struct (encode_struct r) = Inl FieldBoundsError"
proof -
  have lens: "length (mode r) < 2 ^ 16" "length (domain r) < 2 ^ 16"
    "22 + 2 + length (mode r) < 2 ^ 16"
    using assms(4) by (simp_all add: encodable_def struct_size_def head_size_def)
  then show ?thesis
    using assms(1-3)
    by (simp add: decode_struct_def encode_struct_def Let_def head_size_def read_u16_def read_u64_def
        read_string_def encode_string_def nat_of_be_u16_be utf8_string_def)
qed

lemma decode_records_poisoned:
  assumes "\<forall>r\<in>set rs. decodable r \<and> encodable r"
    and "100 < score b" and "utf8_string (mode b)" and "utf8_string (domain b)" and "encodable b"
  shows "decode_records (encode_records rs @ encode_record b @ rest) = Inl FieldBoundsError"
proof -
  let ?bs = "encode_records rs @ encode_record b @ rest"
  have small: "length (encode_struct b) < 2 ^ 16"
    using assms(5) by (simp add: encodable_def)
  have "decode_records ?bs = decode_loop ?bs (length (encode_records rs)) rs"
    using decode_loop_records [OF assms(1), of "[]" "encode_record b @ rest" "[]"]
    by (simp add: decode_records_def)
  also have "\<dots> = Inl FieldBoundsError"
    using decode_loop_fail [OF refl small decode_struct_bad_score [OF assms(2-5)]]
    by (simp add: encode_record_def)
  finally show ?thesis .
qed

lemma sample_record_ok: "skill_record_wf sample_record \<and> encodable sample_record"
  by (simp add: sample_record_def skill_record_wf_def is_hex_char_def utf8_string_def utf8_width_def
      encodable_def struct_size_def head_size_def)

lemma decode_struct_length: "decode_struct s = Inr r \<Longrightarrow> head_size \<le> length s"
  by (auto simp: decode_struct_def split: if_splits)

lemma decode_loop_consumes:
  "decode_loop bs off acc = Inr rs \<Longrightarrow> length acc \<le> length rs \<and> 24 * (length rs - length acc) + off \<le> max off (length bs)"
proof (induction bs off acc rule: decode_loop.induct)
  case (1 bs off acc)
  show ?case
  proof (cases "length bs \<le> off")
    case True
    then show ?thesis
      using "1.prems" by (simp add: decode_loop_end)
  next
    case False
    let ?n = "read_u16 bs off"
    have fits: "off + 2 + ?n \<le> length bs"
      using "1.prems" False by (auto simp: decode_loop.simps [of bs off] Let_def split: if_splits)
    obtain r where r: "decode_struct (take ?n (drop (off + 2) bs)) = Inr r"
      and rec: "decode_loop bs (off + 2 + ?n) (acc @ [r]) = Inr rs"
      using "1.prems" False fits
      by (auto simp: decode_loop.simps [of bs off] Let_def split: if_splits sum.splits)
    have "head_size \<le> ?n"
      using decode_struct_length [OF r] fits by simp
    then have "off + 24 \<le> off + 2 + ?n"
      by (simp add: head_size_def)
    moreover have "length (acc @ [r]) \<le> length rs
        \<and> 24 * (length rs - length (acc @ [r])) + (off + 2 + ?n) \<le> max (off + 2 + ?n) (length bs)"
    proof -
      have a: "\<not> length bs < off + 2" and b: "\<not> length bs < off + 2 + ?n"
        using fits by simp_all
      show ?thesis
        by (rule "1.IH" [OF False a refl b r rec])
    qed
    ultimately show ?thesis
      using fits False by auto
  qed
qed

text \<open>What the decoder reads is typed: a string it returns is valid UTF-8, and a struct it
  accepts is a record of the schema.\<close>

lemma of_char_of_unat [simp]: "of_char (char_of (unat (b :: byte))) = unat b"
proof -
  have "unat b < 2 ^ LENGTH(8)"
    by (rule unsigned_less)
  then show ?thesis
    by (simp add: of_char_of)
qed

lemma utf8_string_of_bytes: "utf8_valid (map unat p) \<Longrightarrow> utf8_string (string_of_bytes p)"
  by (simp add: utf8_string_def string_of_bytes_def comp_def del: of_char_of)

lemma read_string_utf8: "read_string s off = Inr x \<Longrightarrow> utf8_string x"
  by (auto simp: read_string_def Let_def utf8_string_of_bytes split: if_splits)

lemma decode_struct_typed: "decode_struct s = Inr r \<Longrightarrow> decodable r"
  by (auto simp: decode_struct_def decodable_def Let_def bind_res_eq_Inr read_string_utf8 not_less
      split: if_splits)

lemma decode_loop_typed:
  "decode_loop bs off acc = Inr rs \<Longrightarrow> \<forall>r\<in>set acc. decodable r \<Longrightarrow> \<forall>r\<in>set rs. decodable r"
proof (induction bs off acc rule: decode_loop.induct)
  case (1 bs off acc)
  show ?case
  proof (cases "length bs \<le> off")
    case True
    then show ?thesis
      using "1.prems" by (simp add: decode_loop_end)
  next
    case False
    let ?n = "read_u16 bs off"
    have fits: "off + 2 + ?n \<le> length bs"
      using "1.prems"(1) False by (auto simp: decode_loop.simps [of bs off] Let_def split: if_splits)
    obtain r where r: "decode_struct (take ?n (drop (off + 2) bs)) = Inr r"
      and rec: "decode_loop bs (off + 2 + ?n) (acc @ [r]) = Inr rs"
      using "1.prems"(1) False fits
      by (auto simp: decode_loop.simps [of bs off] Let_def split: if_splits sum.splits)
    have a: "\<not> length bs < off + 2" and b: "\<not> length bs < off + 2 + ?n"
      using fits by simp_all
    have "\<forall>x\<in>set (acc @ [r]). decodable x"
      using "1.prems"(2) decode_struct_typed [OF r] by simp
    then show ?thesis
      by (rule "1.IH" [OF False a refl b r rec])
  qed
qed

text \<open>
  C20. Whatever bytes a box holds, every record the decoder returns is typed as the schema
  says: its score is at most 100 and its mode, domain and artifact hash are valid UTF-8.
  The pages that read a box (Dashboard, Verifier, reputation engine) therefore never see a
  score above 100, whichever client wrote the box.
\<close>

theorem decode_records_typed:
  assumes "decode_records bs = Inr rs"
  shows "\<forall>r\<in>set rs. decodable r \<and> score r \<le> 100"
  using decode_loop_typed [of bs 0 "[]" rs] assms by (simp add: decode_records_def decodable_def)

theorem decode_records_typed_witness:
  "decodable sample_record \<and> score sample_record \<le> 100"
proof -
  have "decodable sample_record \<and> encodable sample_record"
    using sample_record_ok decodable_if_wf by blast
  then have "decode_records (encode_records [sample_record]) = Inr [sample_record]"
    using decode_records_roundtrip [of "[sample_record]"] by simp
  then show ?thesis
    using decode_records_typed by simp
qed

text \<open>
  C31. The decoder's loop consumes at least 24 bytes per iteration (the two-byte length and
  a struct of at least the 22-byte head), so on a blob of \<open>n\<close> bytes it stops after at
  most \<open>n / 24\<close> records.
\<close>

theorem decode_records_consumes:
  assumes "decode_records bs = Inr rs"
  shows "24 * length rs \<le> length bs"
  using decode_loop_consumes [of bs 0 "[]" rs] assms by (simp add: decode_records_def)

theorem decode_records_consumes_witness:
  "24 * length [sample_record] \<le> length (encode_records [sample_record])"
proof -
  have "decodable sample_record \<and> encodable sample_record"
    using sample_record_ok decodable_if_wf by blast
  then have "decode_records (encode_records [sample_record]) = Inr [sample_record]"
    using decode_records_roundtrip [of "[sample_record]"] by simp
  then show ?thesis
    by (rule decode_records_consumes)
qed

end
