(* ===== verification/Submit.thy ===== *)
theory Submit
  imports Codec
begin

text \<open>
  The Submit page (\<open>SubmitPage\<close>, src/unnamed/part_001, lines 147--783): the analysis
  the backend returned, the record \<open>handleSubmit\<close> composes from it for the
  \<open>submit_skill_record(string,string,uint64,string,uint64)\<close> application call, and the
  page state after the call. Absent JSON fields are the empty string, since the code only
  reads them through \<open>||\<close> and \<open>?.\<close>, which treat \<open>undefined\<close> and \<open>''\<close> alike. The
  outcomes of the network and wallet calls are the fields of \<open>submit_env\<close>.
\<close>

record domain_guess =
  dg_domain :: string
  dg_subdomain :: string

record analysis =
  overall_score :: real
  meta_artifact_hash :: string
  meta_sha256 :: string
  meta_project_hash :: string
  domains :: "domain_guess list"
  source_type :: string

text \<open>
  The environment of one submission: \<open>None\<close> where a call resolves, \<open>Some msg\<close> where it
  throws with that message.
\<close>

record submit_env =
  prepare_error :: "string option"
  params_error :: "string option"
  address_error :: "string option"
  pera_present :: bool
  execute_result :: "string + string"
  now_ms :: nat
  abi_error_msg :: string

record submit_result =
  transaction_id :: string
  skill_id :: string
  result_score :: int
  result_status :: string
  explorer_url :: string

record submit_state =
  sp_analysis :: "analysis option"
  submitting :: bool
  sp_error :: string
  sp_result :: "submit_result option"

definition default_hash :: string where
  "default_hash = replicate 64 (CHR ''0'')"

definition submit_artifact_hash :: "analysis \<Rightarrow> string" where
  "submit_artifact_hash a =
     js_or (meta_artifact_hash a) (js_or (meta_sha256 a) (js_or (meta_project_hash a) default_hash))"

definition submit_domain :: "analysis \<Rightarrow> string" where
  "submit_domain a =
     (case domains a of
        [] \<Rightarrow> ''general''
      | d # _ \<Rightarrow> js_or (dg_domain d) ''general''
                @ (if dg_subdomain d \<noteq> [] then CHR '':'' # dg_subdomain d else []))"

definition submit_mode :: "analysis \<Rightarrow> string" where
  "submit_mode a = js_or (source_type a) ''ai-graded''"

definition submit_score :: "analysis \<Rightarrow> int" where
  "submit_score a = js_round (overall_score a * 100)"

definition submit_timestamp :: "submit_env \<Rightarrow> nat" where
  "submit_timestamp env = now_ms env div 1000"

text \<open>algosdk's ABI encoding of a \<open>uint64\<close> argument throws outside \<open>[0, 2^64)\<close>.\<close>

definition abi_uint64 :: "string \<Rightarrow> int \<Rightarrow> string + 64 word" where
  "abi_uint64 msg x = (if 0 \<le> x \<and> x < 2 ^ 64 then Inr (word_of_int x) else Inl msg)"

definition method_args :: "submit_env \<Rightarrow> analysis \<Rightarrow> string + skill_record" where
  "method_args env a =
     bind_res (abi_uint64 (abi_error_msg env) (submit_score a)) (\<lambda>sc.
     bind_res (abi_uint64 (abi_error_msg env) (int (submit_timestamp env))) (\<lambda>ts.
     Inr \<lparr>mode = submit_mode a, domain = submit_domain a, score = sc,
          artifact_hash = submit_artifact_hash a, timestamp = ts\<rparr>))"

definition no_signer_msg :: string where
  "no_signer_msg = ''Wallet not connected or Pera Wallet SDK not initialized. Please reconnect.''"

definition connect_first_msg :: string where
  "connect_first_msg = ''Please connect your wallet first.''"

definition submission_failed_msg :: string where
  "submission_failed_msg = ''Submission failed''"

definition explorer_base :: string where
  "explorer_base = ''https://testnet.explorer.perawallet.app/tx/''"

text \<open>
  The \<open>try\<close> block of \<open>handleSubmit\<close>, in the code's order: the prepare request (its
  HTTP status is not inspected), the suggested parameters, the box reference (which
  decodes the sender's address), the encoding of the method arguments, and the execution,
  whose signer throws when the wallet context holds no Pera instance.
\<close>

definition submit_chain :: "submit_env \<Rightarrow> analysis \<Rightarrow> string + skill_record \<times> string" where
  "submit_chain env a =
     (case prepare_error env of Some m \<Rightarrow> Inl m | None \<Rightarrow>
      case params_error env of Some m \<Rightarrow> Inl m | None \<Rightarrow>
      case address_error env of Some m \<Rightarrow> Inl m | None \<Rightarrow>
      bind_res (method_args env a) (\<lambda>r.
        if \<not> pera_present env then Inl no_signer_msg
        else case execute_result env of
               Inl m \<Rightarrow> Inl m
             | Inr tx \<Rightarrow> Inr (r, tx)))"

text \<open>
  \<open>handleSubmit\<close>: the page state when the handler has finished, with the record of the
  confirmed application call (\<open>None\<close> when no call was executed).
\<close>

definition handle_submit ::
  "submit_env \<Rightarrow> string \<Rightarrow> string \<Rightarrow> submit_state \<Rightarrow> submit_state \<times> skill_record option" where
  "handle_submit env address wallet_input s =
     (case sp_analysis s of
        None \<Rightarrow> (s, None)
      | Some a \<Rightarrow>
          let wallet = js_or address wallet_input in
          if length wallet < 58 then (s\<lparr>sp_error := connect_first_msg\<rparr>, None)
          else case submit_chain env a of
                 Inl m \<Rightarrow> (s\<lparr>submitting := False, sp_error := js_or m submission_failed_msg\<rparr>, None)
               | Inr (r, tx) \<Rightarrow>
                   (s\<lparr>submitting := False, sp_error := [],
                      sp_result := Some \<lparr>transaction_id = tx, skill_id = domain r,
                                         result_score = submit_score a, result_status = ''confirmed'',
                                         explorer_url = explorer_base @ tx\<rparr>\<rparr>, Some r))"

definition analysis_text_ok :: "analysis \<Rightarrow> bool" where
  "analysis_text_ok a \<longleftrightarrow>
     utf8_string (submit_mode a) \<and> utf8_string (submit_domain a)
     \<and> utf8_string (submit_artifact_hash a)
     \<and> length (submit_mode a) + length (submit_domain a) + length (submit_artifact_hash a) < 2 ^ 16 - 28"

definition sample_analysis :: analysis where
  "sample_analysis = \<lparr>overall_score = 0.85, meta_artifact_hash = [],
     meta_sha256 = ''9f86d081884c7d659a2feaa0c55ad015a3bf4f1b2b0b822cd15d6c15b0f00a08'',
     meta_project_hash = [], domains = [\<lparr>dg_domain = ''python'', dg_subdomain = ''web3''\<rparr>],
     source_type = ''certificate''\<rparr>"

definition sample_env :: submit_env where
  "sample_env = \<lparr>prepare_error = None, params_error = None, address_error = None,
     pera_present = True, execute_result = Inr ''TX1'', now_ms = 1700000000123,
     abi_error_msg = ''out of range''\<rparr>"

definition sample_wallet :: string where
  "sample_wallet = replicate 58 (CHR ''A'')"

definition sample_bad_analysis :: analysis where
  "sample_bad_analysis = sample_analysis\<lparr>overall_score := 1.01\<rparr>"

section \<open>Lemmas\<close>

lemma submit_score_bounds:
  assumes "0 \<le> overall_score a" and "overall_score a \<le> 1"
  shows "0 \<le> submit_score a \<and> submit_score a \<le> 100"
  unfolding submit_score_def
  by (rule js_round_bounds) (use assms in simp_all)

lemma abi_uint64_Inr: "abi_uint64 m x = Inr w \<Longrightarrow> uint w = x"
  by (auto simp: abi_uint64_def uint_word_of_int split: if_splits)

lemma method_args_Inr:
  assumes "method_args env a = Inr r"
  shows "mode r = submit_mode a \<and> domain r = submit_domain a
    \<and> artifact_hash r = submit_artifact_hash a \<and> uint (score r) = submit_score a
    \<and> uint (timestamp r) = int (submit_timestamp env)"
  using assms
  by (auto simp: method_args_def bind_res_eq_Inr dest: abi_uint64_Inr)

lemma handle_submit_Some:
  assumes "handle_submit env address wallet_input s = (s', Some r)"
  shows "\<exists>a. sp_analysis s = Some a \<and> method_args env a = Inr r"
  using assms
  by (auto simp: handle_submit_def submit_chain_def Let_def bind_res_eq_Inr
      split: option.splits if_splits sum.splits)

lemma handle_submit_Some_result:
  assumes "handle_submit env address wallet_input s = (s', Some r)"
  shows "\<exists>a tx. sp_analysis s = Some a \<and> 58 \<le> length (js_or address wallet_input)
    \<and> pera_present env \<and> execute_result env = Inr tx \<and> method_args env a = Inr r
    \<and> sp_result s' = Some \<lparr>transaction_id = tx, skill_id = submit_domain a,
                            result_score = submit_score a, result_status = ''confirmed'',
                            explorer_url = explorer_base @ tx\<rparr>
    \<and> sp_error s' = [] \<and> \<not> submitting s'"
  using assms
  by (auto simp: handle_submit_def submit_chain_def Let_def bind_res_eq_Inr not_less
      dest: method_args_Inr split: option.splits if_splits sum.splits)

lemma js_round_sample: "js_round (0.85 * 100) = 85"
  by (simp add: js_round_def)

lemma submitted_record_ok:
  assumes "handle_submit env address wallet_input s = (s', Some r)"
    and "sp_analysis s = Some a"
    and "0 \<le> overall_score a" and "overall_score a \<le> 1" and "analysis_text_ok a"
  shows "decodable r \<and> encodable r"
proof -
  have args: "method_args env a = Inr r"
    using handle_submit_Some [OF assms(1)] assms(2) by auto
  note f = method_args_Inr [OF args]
  have "uint (score r) \<le> 100"
    using f submit_score_bounds [OF assms(3,4)] by simp
  then have "score r \<le> 100"
    by (simp add: word_le_def)
  with f assms(5) show ?thesis
    by (auto simp: decodable_def encodable_def struct_size_def head_size_def analysis_text_ok_def)
qed

lemma submit_sample:
  "handle_submit sample_env sample_wallet [] \<lparr>sp_analysis = Some sample_analysis, submitting = True,
      sp_error = [], sp_result = None\<rparr> =
   (\<lparr>sp_analysis = Some sample_analysis, submitting = False, sp_error = [],
     sp_result = Some \<lparr>transaction_id = ''TX1'', skill_id = ''python:web3'', result_score = 85,
       result_status = ''confirmed'',
       explorer_url = explorer_base @ ''TX1''\<rparr>\<rparr>,
    Some \<lparr>mode = ''certificate'', domain = ''python:web3'', score = 85,
       artifact_hash = ''9f86d081884c7d659a2feaa0c55ad015a3bf4f1b2b0b822cd15d6c15b0f00a08'',
       timestamp = 1700000000\<rparr>)"
  by (simp add: handle_submit_def submit_chain_def sample_env_def sample_wallet_def method_args_def
     abi_uint64_def submit_score_def sample_analysis_def js_round_def submit_timestamp_def
     submit_mode_def submit_domain_def submit_artifact_hash_def js_or_def)

lemma sample_text_ok: "analysis_text_ok sample_analysis"
  by (simp add: analysis_text_ok_def sample_analysis_def submit_mode_def submit_domain_def
      submit_artifact_hash_def utf8_string_def utf8_width_def)

text \<open>
  C1. A record that the Submit page's \<open>handleSubmit\<close> sends to the contract, for an
  analysis whose \<open>overall_score\<close> lies in \<open>[0, 1]\<close> and whose texts are valid UTF-8 of a
  size the 16-bit offsets can address, is stored so that decoding the wallet's box gives
  back the earlier records followed by exactly this record.
\<close>

theorem submit_roundtrip:
  assumes "handle_submit env address wallet_input s = (s', Some r)"
    and "sp_analysis s = Some a"
    and "0 \<le> overall_score a" and "overall_score a \<le> 1" and "analysis_text_ok a"
    and "\<forall>x\<in>set rs. decodable x \<and> encodable x"
  shows "decode_records (append_record (encode_records rs) r) = Inr (rs @ [r])"
proof -
  have "decodable r \<and> encodable r"
    using submitted_record_ok [OF assms(1-5)] .
  with assms(6) have "\<forall>x\<in>set (rs @ [r]). decodable x \<and> encodable x"
    by auto
  then show ?thesis
    by (simp add: append_records_box decode_records_roundtrip)
qed

theorem submit_roundtrip_witness:
  "decode_records (append_record (encode_records [sample_record])
     \<lparr>mode = ''certificate'', domain = ''python:web3'', score = 85,
      artifact_hash = ''9f86d081884c7d659a2feaa0c55ad015a3bf4f1b2b0b822cd15d6c15b0f00a08'',
      timestamp = 1700000000\<rparr>)
   = Inr [sample_record, \<lparr>mode = ''certificate'', domain = ''python:web3'', score = 85,
      artifact_hash = ''9f86d081884c7d659a2feaa0c55ad015a3bf4f1b2b0b822cd15d6c15b0f00a08'',
      timestamp = 1700000000\<rparr>]"
proof -
  have ok: "decodable sample_record \<and> encodable sample_record"
    using sample_record_ok decodable_if_wf by blast
  have "(0::real) \<le> overall_score sample_analysis" and "overall_score sample_analysis \<le> 1"
    by (simp_all add: sample_analysis_def)
  then show ?thesis
    using submit_roundtrip [OF submit_sample, of sample_analysis "[sample_record]"]
      sample_text_ok ok by simp
qed

text \<open>
  C9. A record reaches the contract only from a finished \<open>handleSubmit\<close> that had an
  analysis, a wallet of Algorand length, a Pera signer and a successful execution; the
  page then shows the transaction, the composed domain and the rounded score, with no
  error and no pending submission.
\<close>

theorem submit_requires:
  assumes "handle_submit env address wallet_input s = (s', Some r)"
  shows "\<exists>a tx. sp_analysis s = Some a \<and> 58 \<le> length (js_or address wallet_input)
    \<and> pera_present env \<and> execute_result env = Inr tx \<and> domain r = submit_domain a
    \<and> uint (score r) = submit_score a
    \<and> sp_result s' = Some \<lparr>transaction_id = tx, skill_id = submit_domain a,
                            result_score = submit_score a, result_status = ''confirmed'',
                            explorer_url = explorer_base @ tx\<rparr>
    \<and> sp_error s' = [] \<and> \<not> submitting s'"
  using handle_submit_Some_result [OF assms] method_args_Inr by blast

theorem submit_requires_witness:
  "\<exists>a tx. sp_analysis \<lparr>sp_analysis = Some sample_analysis, submitting = True, sp_error = [], sp_result = None\<rparr> = Some a
    \<and> 58 \<le> length (js_or sample_wallet []) \<and> pera_present sample_env
    \<and> execute_result sample_env = Inr tx \<and> ''python:web3'' = submit_domain a
    \<and> uint (85 :: 64 word) = submit_score a
    \<and> Some \<lparr>transaction_id = ''TX1'', skill_id = ''python:web3'', result_score = 85,
       result_status = ''confirmed'',
       explorer_url = explorer_base @ ''TX1''\<rparr>
      = Some \<lparr>transaction_id = tx, skill_id = submit_domain a,
              result_score = submit_score a, result_status = ''confirmed'',
              explorer_url = explorer_base @ tx\<rparr>"
  using submit_requires [OF submit_sample] by simp

text \<open>
  C10. \<open>handleSubmit\<close> does not bound the score it sends: from an analysis whose
  \<open>overall_score\<close> rounds to more than 100 (e.g. 1.01) it submits a record that the decoder
  refuses, and from then on decoding the wallet's box fails with \<open>FieldBoundsError\<close>
  whatever is appended after it; the records before it can no longer be read.
\<close>

theorem submit_unbounded_score_poisons_box:
  assumes "handle_submit env address wallet_input s = (s', Some r)"
    and "sp_analysis s = Some a" and "100 < submit_score a" and "analysis_text_ok a"
    and "\<forall>x\<in>set rs. decodable x \<and> encodable x"
  shows "decode_records (append_record (encode_records rs) r @ later) = Inl FieldBoundsError"
proof -
  have args: "method_args env a = Inr r"
    using handle_submit_Some [OF assms(1)] assms(2) by auto
  note f = method_args_Inr [OF args]
  have "100 < score r"
    using f assms(3) by (simp add: word_less_def)
  moreover have "utf8_string (mode r)" "utf8_string (domain r)" "encodable r"
    using f assms(4)
    by (auto simp: encodable_def struct_size_def head_size_def analysis_text_ok_def)
  ultimately show ?thesis
    using decode_records_poisoned [OF assms(5)] by (simp add: append_record_def)
qed

theorem submit_unbounded_score_poisons_box_witness:
  "decode_records (append_record (encode_records [sample_record])
     \<lparr>mode = ''certificate'', domain = ''python:web3'', score = 101,
      artifact_hash = ''9f86d081884c7d659a2feaa0c55ad015a3bf4f1b2b0b822cd15d6c15b0f00a08'',
      timestamp = 1700000000\<rparr> @ []) = Inl FieldBoundsError"
proof -
  let ?st = "\<lparr>sp_analysis = Some sample_bad_analysis, submitting = True, sp_error = [], sp_result = None\<rparr>"
  let ?r = "\<lparr>mode = ''certificate'', domain = ''python:web3'', score = 101,
      artifact_hash = ''9f86d081884c7d659a2feaa0c55ad015a3bf4f1b2b0b822cd15d6c15b0f00a08'',
      timestamp = 1700000000\<rparr> :: skill_record"
  have ev: "handle_submit sample_env sample_wallet [] ?st
            = (fst (handle_submit sample_env sample_wallet [] ?st), Some ?r)"
    by (simp add: handle_submit_def submit_chain_def sample_env_def sample_wallet_def method_args_def
        abi_uint64_def submit_score_def sample_bad_analysis_def sample_analysis_def js_round_def
        submit_timestamp_def submit_mode_def submit_domain_def submit_artifact_hash_def js_or_def)
  have sc: "100 < submit_score sample_bad_analysis"
    by (simp add: submit_score_def sample_bad_analysis_def sample_analysis_def js_round_def)
  have tx: "analysis_text_ok sample_bad_analysis"
    using sample_text_ok
    by (simp add: analysis_text_ok_def sample_bad_analysis_def submit_mode_def submit_domain_def
        submit_artifact_hash_def sample_analysis_def)
  have ok: "\<forall>x\<in>set [sample_record]. decodable x \<and> encodable x"
    using sample_record_ok decodable_if_wf by auto
  show ?thesis
    using submit_unbounded_score_poisons_box [OF ev _ sc tx ok, of "[]"] by simp
qed

end
