(* ===== verification/Reputation.thy ===== *)
theory Reputation
  imports Codec "HOL-Library.Multiset"
begin

text \<open>
  The reputation aggregation engine (reputation_engine/engine.py; not in the
  repository, modelled from the specification, section 4.4): decoded records of one
  wallet and the evaluation time \<open>now\<close> (Unix seconds) give a profile with a decayed
  weighted mean score, a trust index of five factors, a credibility level, a badge and
  per-domain scores with a trend. Where the specification leaves a choice open the model
  fixes one and says so: the sample standard deviation (a single record has none), the
  span of activity as the distance between the oldest and the newest record (so that a
  single record has longevity 0, as section 4.4 requires), a trend over the most recent
  third (\<open>n div 3\<close> records, none below three records) with a threshold of 5 points, and
  the first domain of highest score as the top domain.
\<close>

datatype credibility_level = Minimal | Developing | Moderate | Strong | Exceptional

datatype trend = Rising | Declining | Stable

record domain_score =
  ds_domain :: string
  ds_score :: real
  ds_record_count :: nat
  ds_latest_timestamp :: nat
  ds_trend :: trend

record reputation_profile =
  total_reputation :: real
  credibility :: credibility_level
  trust_index :: real
  verification_badge :: bool
  total_records :: nat
  top_domain :: "string option"
  active_since :: nat
  domain_scores :: "domain_score list"

section \<open>Per-record quantities\<close>

definition rec_score :: "skill_record \<Rightarrow> real" where
  "rec_score r = real (unat (score r))"

definition rec_ts :: "skill_record \<Rightarrow> nat" where
  "rec_ts r = unat (timestamp r)"

definition age_days :: "nat \<Rightarrow> skill_record \<Rightarrow> real" where
  "age_days now r = (real now - real (rec_ts r)) / 86400"

definition decay_weight :: "real \<Rightarrow> real" where
  "decay_weight age = exp (- 0.693 * age / 180)"

definition record_weight :: "nat \<Rightarrow> skill_record \<Rightarrow> real" where
  "record_weight now r = decay_weight (age_days now r)"

section \<open>Factors\<close>

definition decayed_mean :: "nat \<Rightarrow> skill_record list \<Rightarrow> real" where
  "decayed_mean now rs =
     (if rs = [] then 0
      else (\<Sum>r\<leftarrow>rs. rec_score r * record_weight now r) / (\<Sum>r\<leftarrow>rs. record_weight now r))"

definition mean :: "real list \<Rightarrow> real" where
  "mean xs = sum_list xs / real (length xs)"

definition std_dev :: "real list \<Rightarrow> real" where
  "std_dev xs =
     (if length xs < 2 then 0
      else sqrt ((\<Sum>x\<leftarrow>xs. (x - mean xs)\<^sup>2) / real (length xs - 1)))"

definition consistency :: "real list \<Rightarrow> real" where
  "consistency xs = (if length xs < 2 then 1 else 1 - min 1 (std_dev xs / 30))"

definition distinct_domains :: "skill_record list \<Rightarrow> string list" where
  "distinct_domains rs = remdups (map domain rs)"

definition diversity :: "skill_record list \<Rightarrow> real" where
  "diversity rs = min 1 (real (length (distinct_domains rs)) / 4)"

definition volume :: "skill_record list \<Rightarrow> real" where
  "volume rs = min 1 (real (length rs) / 10)"

definition span_days :: "skill_record list \<Rightarrow> real" where
  "span_days rs =
     (if rs = [] then 0
      else (real (Max (rec_ts ` set rs)) - real (Min (rec_ts ` set rs))) / 86400)"

definition longevity :: "skill_record list \<Rightarrow> real" where
  "longevity rs = min 1 (span_days rs / 180)"

definition clamp01 :: "real \<Rightarrow> real" where
  "clamp01 x = max 0 (min 1 x)"

definition trust_raw :: "nat \<Rightarrow> skill_record list \<Rightarrow> real" where
  "trust_raw now rs =
     decayed_mean now rs / 100 * 0.40 + consistency (map rec_score rs) * 0.20
     + diversity rs * 0.10 + volume rs * 0.10 + longevity rs * 0.20"

definition credibility_of :: "real \<Rightarrow> credibility_level" where
  "credibility_of x =
     (if 90 \<le> x then Exceptional else if 70 \<le> x then Strong else if 50 \<le> x then Moderate
      else if 30 \<le> x then Developing else Minimal)"

definition badge :: "nat \<Rightarrow> real \<Rightarrow> nat \<Rightarrow> bool" where
  "badge n t d \<longleftrightarrow> 3 \<le> n \<and> 50 \<le> t \<and> 1 \<le> d"

section \<open>Per-domain aggregation\<close>

definition domain_group :: "skill_record list \<Rightarrow> string \<Rightarrow> skill_record list" where
  "domain_group rs d = filter (\<lambda>r. domain r = d) rs"

definition trend_of :: "nat \<Rightarrow> skill_record list \<Rightarrow> trend" where
  "trend_of now g =
     (let s = sort_key rec_ts g; n = length s; k = n div 3 in
      if k = 0 then Stable
      else let recent = decayed_mean now (drop (n - k) s); earlier = decayed_mean now (take (n - k) s) in
        if earlier + 5 < recent then Rising
        else if recent < earlier - 5 then Declining
        else Stable)"

definition domain_score_of :: "nat \<Rightarrow> skill_record list \<Rightarrow> string \<Rightarrow> domain_score" where
  "domain_score_of now rs d =
     (let g = domain_group rs d in
      \<lparr>ds_domain = d, ds_score = decayed_mean now g, ds_record_count = length g,
       ds_latest_timestamp = Max (rec_ts ` set g), ds_trend = trend_of now g\<rparr>)"

definition best_domain :: "domain_score list \<Rightarrow> string option" where
  "best_domain ds =
     (case ds of
        [] \<Rightarrow> None
      | d # rest \<Rightarrow> Some (ds_domain (foldl (\<lambda>b x. if ds_score b < ds_score x then x else b) d rest)))"

section \<open>The profile\<close>

definition empty_profile :: reputation_profile where
  "empty_profile = \<lparr>total_reputation = 0, credibility = Minimal, trust_index = 0,
     verification_badge = False, total_records = 0, top_domain = None, active_since = 0,
     domain_scores = []\<rparr>"

definition aggregate :: "nat \<Rightarrow> skill_record list \<Rightarrow> reputation_profile" where
  "aggregate now rs =
     (if rs = [] then empty_profile
      else let tot = decayed_mean now rs;
               ds = map (domain_score_of now rs) (distinct_domains rs) in
        \<lparr>total_reputation = tot, credibility = credibility_of tot,
         trust_index = clamp01 (trust_raw now rs),
         verification_badge = badge (length rs) tot (length (distinct_domains rs)),
         total_records = length rs, top_domain = best_domain ds,
         active_since = Min (rec_ts ` set rs), domain_scores = ds\<rparr>)"

section \<open>Levels are ordered\<close>

fun level_rank :: "credibility_level \<Rightarrow> nat" where
  "level_rank Minimal = 0"
| "level_rank Developing = 1"
| "level_rank Moderate = 2"
| "level_rank Strong = 3"
| "level_rank Exceptional = 4"

instantiation credibility_level :: linorder
begin

definition less_eq_credibility_level :: "credibility_level \<Rightarrow> credibility_level \<Rightarrow> bool" where
  "x \<le> y \<longleftrightarrow> level_rank x \<le> level_rank y"

definition less_credibility_level :: "credibility_level \<Rightarrow> credibility_level \<Rightarrow> bool" where
  "x < y \<longleftrightarrow> level_rank x < level_rank y"

instance
proof
  fix x y z :: credibility_level
  show "x < y \<longleftrightarrow> x \<le> y \<and> \<not> y \<le> x"
    by (auto simp: less_eq_credibility_level_def less_credibility_level_def)
  show "x \<le> x"
    by (simp add: less_eq_credibility_level_def)
  show "x \<le> y \<Longrightarrow> y \<le> z \<Longrightarrow> x \<le> z"
    by (simp add: less_eq_credibility_level_def)
  show "x \<le> y \<Longrightarrow> y \<le> x \<Longrightarrow> x = y"
    by (cases x; cases y) (simp_all add: less_eq_credibility_level_def)
  show "x \<le> y \<or> y \<le> x"
    by (auto simp: less_eq_credibility_level_def)
qed

end

definition sample_records :: "skill_record list" where
  "sample_records =
     [\<lparr>mode = ''ai-graded'', domain = ''python'', score = 80, artifact_hash = [], timestamp = 1700000000 - 10 * 86400\<rparr>,
      \<lparr>mode = ''ai-graded'', domain = ''python'', score = 60, artifact_hash = [], timestamp = 1700000000 - 190 * 86400\<rparr>,
      \<lparr>mode = ''ai-graded'', domain = ''solidity'', score = 90, artifact_hash = [], timestamp = 1700000000 - 5 * 86400\<rparr>]"

section \<open>Lemmas\<close>

lemma decay_weight_pos [simp]: "0 < decay_weight a"
  by (simp add: decay_weight_def)

lemma record_weight_pos [simp]: "0 < record_weight now r"
  by (simp add: record_weight_def)

lemma decay_weight_strict_mono: "a < b \<Longrightarrow> decay_weight b < decay_weight a"
  by (simp add: decay_weight_def divide_strict_right_mono)

lemma sum_list_pos: "xs \<noteq> [] \<Longrightarrow> (\<forall>x\<in>set xs. 0 < f x) \<Longrightarrow> 0 < (\<Sum>x\<leftarrow>xs. f x :: real)"
proof (induction xs)
  case Nil
  then show ?case by simp
next
  case (Cons a xs)
  then show ?case
    by (cases "xs = []") (auto intro: add_pos_pos)
qed

lemma weighted_mean_bounds:
  fixes v w :: "'a \<Rightarrow> real"
  assumes "xs \<noteq> []" and "\<forall>x\<in>set xs. 0 < w x" and "\<forall>x\<in>set xs. lo \<le> v x \<and> v x \<le> hi"
  shows "lo \<le> (\<Sum>x\<leftarrow>xs. v x * w x) / (\<Sum>x\<leftarrow>xs. w x)
       \<and> (\<Sum>x\<leftarrow>xs. v x * w x) / (\<Sum>x\<leftarrow>xs. w x) \<le> hi"
proof -
  have pos: "0 < (\<Sum>x\<leftarrow>xs. w x)"
    using assms(1,2) by (rule sum_list_pos)
  have up: "(\<Sum>x\<leftarrow>xs. v x * w x) \<le> (\<Sum>x\<leftarrow>xs. hi * w x)"
    using assms(2,3) by (intro sum_list_mono) (simp add: mult_right_mono less_imp_le)
  have down: "(\<Sum>x\<leftarrow>xs. lo * w x) \<le> (\<Sum>x\<leftarrow>xs. v x * w x)"
    using assms(2,3) by (intro sum_list_mono) (simp add: mult_right_mono less_imp_le)
  have eqs: "(\<Sum>x\<leftarrow>xs. hi * w x) = hi * (\<Sum>x\<leftarrow>xs. w x)" "(\<Sum>x\<leftarrow>xs. lo * w x) = lo * (\<Sum>x\<leftarrow>xs. w x)"
    by (simp_all add: sum_list_const_mult)
  have "(\<Sum>x\<leftarrow>xs. v x * w x) / (\<Sum>x\<leftarrow>xs. w x) \<le> hi"
    using up eqs(1) pos by (simp add: divide_le_eq)
  moreover have "lo \<le> (\<Sum>x\<leftarrow>xs. v x * w x) / (\<Sum>x\<leftarrow>xs. w x)"
    using down eqs(2) pos by (simp add: le_divide_eq)
  ultimately show ?thesis by simp
qed

lemma decayed_mean_bounds:
  assumes "\<forall>r\<in>set rs. lo \<le> rec_score r \<and> rec_score r \<le> hi" and "lo \<le> 0" and "0 \<le> hi"
  shows "lo \<le> decayed_mean now rs \<and> decayed_mean now rs \<le> hi"
proof (cases "rs = []")
  case True
  with assms(2,3) show ?thesis by (simp add: decayed_mean_def)
next
  case False
  then show ?thesis
    using weighted_mean_bounds [OF False, of "record_weight now" lo rec_score hi] assms(1)
    by (simp add: decayed_mean_def)
qed

lemma rec_score_nonneg [simp]: "0 \<le> rec_score r"
  by (simp add: rec_score_def del: of_nat_unat)

lemma rec_score_le_100: "score r \<le> 100 \<Longrightarrow> rec_score r \<le> 100"
proof -
  assume "score r \<le> 100"
  then have "unat (score r) \<le> unat (100 :: 64 word)"
    by (simp add: word_le_nat_alt)
  then show ?thesis by (simp add: rec_score_def del: of_nat_unat)
qed

lemma std_dev_nonneg: "0 \<le> std_dev xs"
proof -
  have "0 \<le> (\<Sum>x\<leftarrow>xs. (x - mean xs)\<^sup>2) / real (length xs - 1)"
    by (intro divide_nonneg_nonneg sum_list_nonneg) auto
  then show ?thesis
    by (simp add: std_dev_def del: of_nat_diff)
qed

lemma consistency_bounds: "0 \<le> consistency xs \<and> consistency xs \<le> 1"
proof -
  have "0 \<le> std_dev xs"
    by (rule std_dev_nonneg)
  then show ?thesis
    by (simp add: consistency_def)
qed

lemma diversity_bounds: "0 \<le> diversity rs \<and> diversity rs \<le> 1"
  by (simp add: diversity_def)

lemma volume_bounds: "0 \<le> volume rs \<and> volume rs \<le> 1"
  by (simp add: volume_def)

lemma span_days_nonneg: "0 \<le> span_days rs"
proof (cases "rs = []")
  case False
  then have "Min (rec_ts ` set rs) \<le> Max (rec_ts ` set rs)"
    by simp
  then show ?thesis
    by (simp add: span_days_def)
qed (simp add: span_days_def)

lemma longevity_bounds: "0 \<le> longevity rs \<and> longevity rs \<le> 1"
  using span_days_nonneg [of rs] by (simp add: longevity_def)

lemma trust_raw_bounds:
  assumes "\<forall>r\<in>set rs. rec_score r \<le> 100"
  shows "0 \<le> trust_raw now rs \<and> trust_raw now rs \<le> 1"
proof -
  have m: "0 \<le> decayed_mean now rs" "decayed_mean now rs \<le> 100"
    using decayed_mean_bounds [of rs 0 100 now] assms by auto
  have c: "0 \<le> consistency (map rec_score rs)" "consistency (map rec_score rs) \<le> 1"
    using consistency_bounds by auto
  have d: "0 \<le> diversity rs" "diversity rs \<le> 1"
    using diversity_bounds by auto
  have v: "0 \<le> volume rs" "volume rs \<le> 1"
    using volume_bounds by auto
  have l: "0 \<le> longevity rs" "longevity rs \<le> 1"
    using longevity_bounds by auto
  have eq: "trust_raw now rs = decayed_mean now rs / 250 + consistency (map rec_score rs) / 5
      + diversity rs / 10 + volume rs / 10 + longevity rs / 5"
    by (simp add: trust_raw_def)
  have "0 \<le> trust_raw now rs"
    unfolding eq using m c d v l by linarith
  moreover have "trust_raw now rs \<le> 1"
    unfolding eq using m c d v l by linarith
  ultimately show ?thesis ..
qed

lemma clamp01_id: "0 \<le> x \<Longrightarrow> x \<le> 1 \<Longrightarrow> clamp01 x = x"
  by (simp add: clamp01_def)

lemma consistency_single: "consistency [x] = 1"
  by (simp add: consistency_def)

lemma longevity_single: "longevity [r] = 0"
  by (simp add: longevity_def span_days_def)

lemma sum_list_mset_eq:
  fixes f :: "'a \<Rightarrow> 'b::comm_monoid_add"
  shows "mset xs = mset ys \<Longrightarrow> (\<Sum>x\<leftarrow>xs. f x) = (\<Sum>x\<leftarrow>ys. f x)"
proof -
  assume eq: "mset xs = mset ys"
  have "(\<Sum>x\<leftarrow>xs. f x) = sum_mset (mset (map f xs))"
    by (rule sum_mset_sum_list [symmetric])
  also have "\<dots> = sum_mset (mset (map f ys))"
    using eq by simp
  also have "\<dots> = (\<Sum>x\<leftarrow>ys. f x)"
    by (rule sum_mset_sum_list)
  finally show ?thesis .
qed
lemma decayed_mean_perm: "mset rs = mset rs' \<Longrightarrow> decayed_mean now rs = decayed_mean now rs'"
proof -
  assume eq: "mset rs = mset rs'"
  then have "rs = [] \<longleftrightarrow> rs' = []"
    by auto
  with eq show ?thesis
    unfolding decayed_mean_def
    using sum_list_mset_eq [OF eq, of "\<lambda>r. rec_score r * record_weight now r"]
      sum_list_mset_eq [OF eq, of "record_weight now"] by simp
qed

lemma mean_perm: "mset xs = mset ys \<Longrightarrow> mean xs = mean ys"
proof -
  assume eq: "mset xs = mset ys"
  have "sum_list xs = sum_list ys"
    using sum_list_mset_eq [OF eq, of "\<lambda>x. x"] by simp
  with mset_eq_length [OF eq] show ?thesis
    by (simp add: mean_def)
qed

lemma consistency_perm: "mset xs = mset ys \<Longrightarrow> consistency xs = consistency ys"
proof -
  assume eq: "mset xs = mset ys"
  have "(\<Sum>x\<leftarrow>xs. (x - mean xs)\<^sup>2) = (\<Sum>x\<leftarrow>ys. (x - mean ys)\<^sup>2)"
    using sum_list_mset_eq [OF eq, of "\<lambda>x. (x - mean ys)\<^sup>2"] mean_perm [OF eq] by simp
  with mset_eq_length [OF eq] show ?thesis
    by (simp add: consistency_def std_dev_def)
qed

lemma distinct_domains_length: "length (distinct_domains rs) = card (domain ` set rs)"
  by (simp add: distinct_domains_def length_remdups_card_conv)

lemma trust_raw_perm: "mset rs = mset rs' \<Longrightarrow> trust_raw now rs = trust_raw now rs'"
proof -
  assume eq: "mset rs = mset rs'"
  have s: "set rs = set rs'" and l: "length rs = length rs'"
    using eq by (auto dest: mset_eq_setD mset_eq_length)
  have c: "consistency (map rec_score rs) = consistency (map rec_score rs')"
    using eq by (intro consistency_perm) simp
  have e: "rs = [] \<longleftrightarrow> rs' = []"
    using eq by auto
  show ?thesis
    using s l c e decayed_mean_perm [OF eq]
    by (simp add: trust_raw_def diversity_def distinct_domains_length volume_def longevity_def span_days_def)
qed

lemma aggregate_perm:
  assumes "mset rs = mset rs'"
  shows "total_reputation (aggregate now rs) = total_reputation (aggregate now rs')
    \<and> credibility (aggregate now rs) = credibility (aggregate now rs')
    \<and> trust_index (aggregate now rs) = trust_index (aggregate now rs')
    \<and> verification_badge (aggregate now rs) = verification_badge (aggregate now rs')
    \<and> total_records (aggregate now rs) = total_records (aggregate now rs')
    \<and> active_since (aggregate now rs) = active_since (aggregate now rs')"
proof -
  have s: "set rs = set rs'" and l: "length rs = length rs'"
    using assms by (auto dest: mset_eq_setD mset_eq_length)
  have e: "rs = [] \<longleftrightarrow> rs' = []"
    using assms by auto
  show ?thesis
    using s l e decayed_mean_perm [OF assms, of now] trust_raw_perm [OF assms, of now]
    by (simp add: aggregate_def Let_def distinct_domains_length)
qed
end
