(* ===== verification/Views.thy ===== *)
theory Views
  imports Reputation
begin

text \<open>
  The pages that show a reputation profile: the tier chain shared by \<open>ScoreCircle\<close>
  (src/unnamed/part_004) and the Submit, Verifier and Explorer pages, the geometry of the
  score circle, the Dashboard (\<open>DashboardPage\<close> in
  src/frontend/src/pages/RecordsPage.jsx) with its lookup handler, the Verifier page
  (src/unnamed/part_002) and the Explorer page's query and cards (src/unnamed/part_001).
  Page state is a record per page; a handler takes the state and the outcome of its
  requests and returns the state after it has finished.
\<close>

section \<open>Tiers and the score circle\<close>

text \<open>The chain \<open>score >= 90 ? ... : score >= 30 ? ... : minimal\<close>, at any ordered number type.\<close>

definition score_tier :: "'a::linordered_idom \<Rightarrow> credibility_level" where
  "score_tier s =
     (if 90 \<le> s then Exceptional else if 70 \<le> s then Strong else if 50 \<le> s then Moderate
      else if 30 \<le> s then Developing else Minimal)"

fun tier_class :: "credibility_level \<Rightarrow> string" where
  "tier_class Exceptional = ''exceptional''"
| "tier_class Strong = ''strong''"
| "tier_class Moderate = ''moderate''"
| "tier_class Developing = ''developing''"
| "tier_class Minimal = ''minimal''"

definition circle_offset :: "real \<Rightarrow> real \<Rightarrow> real" where
  "circle_offset sz s =
     (let radius = (sz - 12) / 2; circumference = 2 * pi * radius
      in circumference - (s / 100) * circumference)"

text \<open>What \<open>ScoreCircle\<close> draws (part_004, lines 4-50): the radius, the dash length of
  the arc (its circumference) and its offset, the tier that picks both the colour (lines
  9-13) and the label (lines 15-19), two chains with the same thresholds, and the number
  shown.\<close>

record score_circle =
  sc_radius :: real
  sc_dash :: real
  sc_offset :: real
  sc_tier :: credibility_level
  sc_shown :: real

definition score_circle :: "real \<Rightarrow> real \<Rightarrow> score_circle" where
  "score_circle sz s =
     (let radius = (sz - 12) / 2
      in \<lparr>sc_radius = radius, sc_dash = 2 * pi * radius, sc_offset = circle_offset sz s,
          sc_tier = score_tier s, sc_shown = s\<rparr>)"

section \<open>Dashboard\<close>

record dashboard_view =
  dv_score :: int
  dv_meter_width :: real
  dv_level :: credibility_level
  dv_verified :: bool
  dv_circle_tier :: credibility_level
  dv_circle_label :: credibility_level
  dv_records :: nat

definition dashboard_view :: "reputation_profile \<Rightarrow> dashboard_view" where
  "dashboard_view p =
     \<lparr>dv_score = js_round (total_reputation p), dv_meter_width = trust_index p * 100,
      dv_level = credibility p, dv_verified = verification_badge p,
      dv_circle_tier = score_tier (js_round (total_reputation p)),
      dv_circle_label = credibility p, dv_records = total_records p\<rparr>"

text \<open>
  An HTTP response as the handlers read it: \<open>res.ok\<close>, the parsed body (\<open>Inl\<close> the
  message of a failed \<open>res.json()\<close>) and the body's \<open>detail\<close> field as
  \<open>(await res.json().catch(() => ({}))).detail\<close> reads it (empty when absent).
\<close>

record 'a http_resp =
  hr_ok :: bool
  hr_body :: "string + 'a"
  hr_detail :: string

record dash_state =
  db_loading :: bool
  db_error :: string
  db_reputation :: "reputation_profile option"
  db_records :: "skill_record list"

definition lookup_outcome ::
  "string + (reputation_profile http_resp \<times> skill_record list http_resp)
   \<Rightarrow> string + reputation_profile \<times> skill_record list" where
  "lookup_outcome res =
     (case res of
        Inl m \<Rightarrow> Inl m
      | Inr (rep, wal) \<Rightarrow>
          if \<not> hr_ok rep then Inl (js_or (hr_detail rep) ''Reputation fetch failed'')
          else if \<not> hr_ok wal then Inl (js_or (hr_detail wal) ''Records fetch failed'')
          else bind_res (hr_body rep) (\<lambda>p. bind_res (hr_body wal) (\<lambda>rs. Inr (p, rs))))"

text \<open>
  \<open>handleLookup\<close>: the wallet is the first non-empty of the argument, the connected
  address and the input; one that is shorter than an Algorand address (58 characters)
  is ignored. \<open>Promise.all\<close> of the two requests is \<open>Inl\<close> with the message of the
  first rejection or the pair of responses.
\<close>

definition handle_lookup ::
  "string \<Rightarrow> string \<Rightarrow> string
   \<Rightarrow> string + (reputation_profile http_resp \<times> skill_record list http_resp)
   \<Rightarrow> dash_state \<Rightarrow> dash_state" where
  "handle_lookup wallet_addr address wallet_input res s =
     (let w = js_or wallet_addr (js_or address wallet_input) in
      if length w < 58 then s
      else let s0 = s\<lparr>db_loading := True, db_error := [], db_reputation := None, db_records := []\<rparr>
        in (case lookup_outcome res of
              Inl m \<Rightarrow> s0\<lparr>db_error := m\<rparr>
            | Inr (p, rs) \<Rightarrow> s0\<lparr>db_reputation := Some p, db_records := rs\<rparr>)\<lparr>db_loading := False\<rparr>)"

section \<open>Verifier\<close>

text \<open>The body of \<open>GET /verify/{wallet}\<close> as the page reads it: an entry of
  \<open>records\<close> with \<open>score\<close> \<open>None\<close> for \<open>null\<close> or a missing field, missing strings
  as \<open>''\<close> and a missing timestamp as 0 (all falsy where the page tests them).\<close>

record verify_row =
  vr_score :: "int option"
  vr_domain :: string
  vr_mode :: string
  vr_timestamp :: nat

record verify_data =
  vd_credibility_score :: real
  vd_verified :: bool
  vd_trust_index :: real
  vd_total_records :: nat
  vd_top_domain :: string
  vd_domain_scores :: "domain_score list"
  vd_records :: "verify_row list"

record verifier_state =
  vf_loading :: bool
  vf_error :: string
  vf_data :: "verify_data option"

definition handle_verify ::
  "string \<Rightarrow> string \<Rightarrow> string \<Rightarrow> string + verify_data http_resp \<Rightarrow> verifier_state \<Rightarrow> verifier_state" where
  "handle_verify wallet_addr address wallet_input res s =
     (let w = js_or wallet_addr (js_or address wallet_input) in
      if length w < 58 then s
      else let s0 = s\<lparr>vf_loading := True, vf_error := [], vf_data := None\<rparr>;
               out = (case res of
                        Inl m \<Rightarrow> Inl m
                      | Inr r \<Rightarrow> if \<not> hr_ok r then Inl (js_or (hr_detail r) ''Verification failed'')
                                else hr_body r)
        in (case out of Inl m \<Rightarrow> s0\<lparr>vf_error := m\<rparr> | Inr d \<Rightarrow> s0\<lparr>vf_data := Some d\<rparr>)\<lparr>vf_loading := False\<rparr>)"

definition verifier_tier :: "verify_data \<Rightarrow> credibility_level" where
  "verifier_tier d = score_tier (vd_credibility_score d)"

section \<open>Explorer\<close>

record explore_profile =
  ep_wallet :: string
  ep_total_reputation :: real
  ep_credibility_score :: real
  ep_trust_index :: real
  ep_badge :: bool
  ep_total_records :: nat
  ep_top_domain :: string
  ep_domains :: "string list"

text \<open>\<open>a || b\<close> on numbers: \<open>0\<close> is falsy.\<close>

definition num_or :: "real \<Rightarrow> real \<Rightarrow> real" where
  "num_or a b = (if a \<noteq> 0 then a else b)"

definition explorer_card_score :: "explore_profile \<Rightarrow> int" where
  "explorer_card_score p =
     js_round (num_or (ep_total_reputation p) (num_or (ep_credibility_score p) 0))"

definition explorer_card_tier :: "explore_profile \<Rightarrow> credibility_level" where
  "explorer_card_tier p = score_tier (explorer_card_score p)"

record explorer_state =
  ex_profiles :: "explore_profile list"
  ex_search :: string
  ex_domain :: string
  ex_loading :: bool
  ex_error :: string

datatype explore_result = ExploreFail string | ExploreResp bool "explore_profile list"

text \<open>
  \<open>loadProfiles(searchTerm, domainFilter)\<close>: the query parameters, in the order
  \<open>URLSearchParams.set\<close> appends them, fall back to the \<open>search\<close> and \<open>domain\<close> of the
  render that created the handler; the response replaces the profile list.
\<close>

definition explorer_params :: "string \<Rightarrow> string \<Rightarrow> string \<Rightarrow> string \<Rightarrow> (string \<times> string) list" where
  "explorer_params search dm search_term domain_filter =
     (if js_or search_term search \<noteq> [] then [(''q'', js_or search_term search)] else [])
     @ (if js_or domain_filter dm \<noteq> [] then [(''domain'', js_or domain_filter dm)] else [])
     @ [(''limit'', ''20'')]"

definition load_profiles ::
  "explorer_state \<Rightarrow> string \<Rightarrow> string \<Rightarrow> explore_result \<Rightarrow> (string \<times> string) list \<times> explorer_state" where
  "load_profiles s search_term domain_filter res =
     (explorer_params (ex_search s) (ex_domain s) search_term domain_filter,
      (case res of
         ExploreFail m \<Rightarrow> s\<lparr>ex_error := m, ex_profiles := []\<rparr>
       | ExploreResp ok ps \<Rightarrow> if ok then s\<lparr>ex_error := [], ex_profiles := ps\<rparr>
                             else s\<lparr>ex_error := [], ex_profiles := []\<rparr>)\<lparr>ex_loading := False\<rparr>)"

text \<open>The domain select: \<open>setDomain(v); loadProfiles(search, v)\<close>.\<close>

definition select_domain ::
  "explorer_state \<Rightarrow> string \<Rightarrow> explore_result \<Rightarrow> (string \<times> string) list \<times> explorer_state" where
  "select_domain s v res =
     (let (q, s') = load_profiles s (ex_search s) v res in (q, s'\<lparr>ex_domain := v\<rparr>))"

definition handle_search ::
  "explorer_state \<Rightarrow> explore_result \<Rightarrow> (string \<times> string) list \<times> explorer_state" where
  "handle_search s res = load_profiles s (ex_search s) (ex_domain s) res"

section \<open>Sample data\<close>

definition r90 :: skill_record where
  "r90 = \<lparr>mode = ''ai-graded'', domain = ''python'', score = 90, artifact_hash = [], timestamp = 1700000000\<rparr>"

definition r89 :: skill_record where
  "r89 = \<lparr>mode = ''ai-graded'', domain = ''python'', score = 89, artifact_hash = [], timestamp = 1700000000\<rparr>"

definition sample_address :: string where
  "sample_address = replicate 58 (CHR ''A'')"

definition sample_dash :: dash_state where
  "sample_dash = \<lparr>db_loading = False, db_error = [], db_reputation = None, db_records = []\<rparr>"

definition sample_explorer :: explorer_state where
  "sample_explorer = \<lparr>ex_profiles = [], ex_search = [], ex_domain = ''python'', ex_loading = False,
     ex_error = []\<rparr>"

section \<open>Lemmas\<close>

text \<open>The arc of the score circle lies within the circle for a score in \<open>[0, 100]\<close>;
  a larger score gives a negative offset, an arc drawn past its end.\<close>

lemma score_circle_arc:
  assumes "12 \<le> sz"
  shows "0 \<le> s \<Longrightarrow> s \<le> 100 \<Longrightarrow> 0 \<le> sc_offset (score_circle sz s) \<and> sc_offset (score_circle sz s) \<le> sc_dash (score_circle sz s)"
    and "12 < sz \<Longrightarrow> 100 < s \<Longrightarrow> sc_offset (score_circle sz s) < 0"
proof -
  define c where "c = 2 * pi * ((sz - 12) / 2)"
  have c: "0 \<le> c"
    using assms by (simp add: c_def)
  have off: "sc_offset (score_circle sz s) = c - (s / 100) * c" "sc_dash (score_circle sz s) = c"
    unfolding c_def by (simp_all add: score_circle_def circle_offset_def Let_def)
  show "0 \<le> s \<Longrightarrow> s \<le> 100 \<Longrightarrow> 0 \<le> sc_offset (score_circle sz s) \<and> sc_offset (score_circle sz s) \<le> sc_dash (score_circle sz s)"
  proof -
    assume "0 \<le> s" "s \<le> 100"
    then have "(s / 100) * c \<le> 1 * c"
      using c by (intro mult_right_mono) simp_all
    moreover have "0 \<le> (s / 100) * c"
      using c \<open>0 \<le> s\<close> by simp
    ultimately show ?thesis
      unfolding off by simp
  qed
  show "12 < sz \<Longrightarrow> 100 < s \<Longrightarrow> sc_offset (score_circle sz s) < 0"
  proof -
    assume "12 < sz" "100 < s"
    then have "1 * c < (s / 100) * c"
      by (intro mult_strict_right_mono) (simp_all add: c_def)
    then show ?thesis
      unfolding off by simp
  qed
qed

lemma score_tier_real: "score_tier (x::real) = credibility_of x"
  by (simp add: score_tier_def credibility_of_def)

lemma score_tier_js_round: "score_tier (js_round t) = credibility_of (t + 1 / 2)"
  by (simp add: score_tier_def credibility_of_def js_round_def le_floor_iff)

lemma credibility_of_mono: "x \<le> y \<Longrightarrow> credibility_of x \<le> credibility_of y"
  by (simp add: credibility_of_def less_eq_credibility_level_def)

lemma credibility_of_shift:
  assumes "credibility_of (t + 1 / 2) \<noteq> credibility_of t"
  shows "\<exists>th\<in>{30, 50, 70, 90 :: real}. th - 1 / 2 \<le> t \<and> t < th"
  using assms by (simp add: credibility_of_def split: if_splits)

lemma decayed_mean_bounds_ne:
  assumes "rs \<noteq> []" and "\<forall>r\<in>set rs. lo \<le> rec_score r \<and> rec_score r \<le> hi"
  shows "lo \<le> decayed_mean now rs \<and> decayed_mean now rs \<le> hi"
  using weighted_mean_bounds [OF assms(1), of "record_weight now" lo rec_score hi] assms
  by (simp add: decayed_mean_def)

lemma trust_index_aggregate:
  assumes "\<forall>r\<in>set rs. score r \<le> 100" and "rs \<noteq> []"
  shows "trust_index (aggregate now rs) = trust_raw now rs"
proof -
  have "0 \<le> trust_raw now rs \<and> trust_raw now rs \<le> 1"
    using assms rec_score_le_100 by (intro trust_raw_bounds) blast
  with assms(2) show ?thesis
    by (simp add: aggregate_def Let_def clamp01_id)
qed

lemma lookup_outcome_Inr:
  "lookup_outcome res = Inr (p, rs) \<longleftrightarrow>
     (\<exists>rep wal. res = Inr (rep, wal) \<and> hr_ok rep \<and> hr_ok wal \<and> hr_body rep = Inr p \<and> hr_body wal = Inr rs)"
  by (auto simp: lookup_outcome_def bind_res_eq_Inr split: sum.splits prod.splits)

lemma total_r90_r89: "decayed_mean 1700000000 [r90, r89] = 179 / 2"
  by (simp add: decayed_mean_def r90_def r89_def rec_score_def record_weight_def
      age_days_def rec_ts_def decay_weight_def)

text \<open>
  The score circle of the Dashboard colours by the rounded score and prints the engine's
  level: for two records of 90 and 89 made now the circle is coloured Exceptional and
  labelled Strong.
\<close>

lemma dashboard_circle_mismatch:
  "dv_circle_tier (dashboard_view (aggregate 1700000000 [r90, r89])) = Exceptional
   \<and> dv_circle_label (dashboard_view (aggregate 1700000000 [r90, r89])) = Strong"
proof -
  have ne: "[r90, r89] \<noteq> []" by simp
  have "dv_circle_tier (dashboard_view (aggregate 1700000000 [r90, r89])) = credibility_of (179 / 2 + 1 / 2)"
    "dv_circle_label (dashboard_view (aggregate 1700000000 [r90, r89])) = credibility_of (179 / 2)"
    by (simp_all add: dashboard_view_def score_tier_js_round aggregate_def Let_def total_r90_r89)
  then show ?thesis
    by (simp add: credibility_of_def)
qed

section \<open>Properties of the pages\<close>

lemma dashboard_empty:
  "dashboard_view (aggregate now []) =
     \<lparr>dv_score = 0, dv_meter_width = 0, dv_level = Minimal, dv_verified = False,
      dv_circle_tier = Minimal, dv_circle_label = Minimal, dv_records = 0\<rparr>"
  by (simp add: dashboard_view_def aggregate_def empty_profile_def score_tier_def)

text \<open>
  C2. For the records of a box (every score at most 100), the Dashboard shows a rounded
  reputation score in \<open>[0, 100]\<close> and a trust meter whose width is in \<open>[0, 100]\<close> percent;
  for a non-empty box the engine's clamp of the trust index never acts: the index is the
  weighted sum of its five factors; and an empty box shows the defaults of section 4.4:
  score 0, trust meter 0, level and circle Minimal, no badge, no records.
\<close>

theorem dashboard_bounds:
  assumes "\<forall>r\<in>set rs. score r \<le> 100"
  shows "0 \<le> dv_score (dashboard_view (aggregate now rs)) \<and> dv_score (dashboard_view (aggregate now rs)) \<le> 100
    \<and> 0 \<le> dv_meter_width (dashboard_view (aggregate now rs)) \<and> dv_meter_width (dashboard_view (aggregate now rs)) \<le> 100
    \<and> (rs \<noteq> [] \<longrightarrow> trust_index (aggregate now rs) = trust_raw now rs)
    \<and> (rs = [] \<longrightarrow> dashboard_view (aggregate now rs) =
         \<lparr>dv_score = 0, dv_meter_width = 0, dv_level = Minimal, dv_verified = False,
          dv_circle_tier = Minimal, dv_circle_label = Minimal, dv_records = 0\<rparr>)"
proof -
  have sc: "\<forall>r\<in>set rs. 0 \<le> rec_score r \<and> rec_score r \<le> 100"
    using assms rec_score_le_100 by auto
  have t: "0 \<le> total_reputation (aggregate now rs) \<and> total_reputation (aggregate now rs) \<le> 100"
    using decayed_mean_bounds [OF sc] by (simp add: aggregate_def Let_def empty_profile_def)
  have tr: "rs \<noteq> [] \<Longrightarrow> trust_index (aggregate now rs) = trust_raw now rs"
    using assms by (rule trust_index_aggregate)
  have tb: "0 \<le> trust_raw now rs \<and> trust_raw now rs \<le> 1"
    using sc by (intro trust_raw_bounds) blast
  have "0 \<le> trust_index (aggregate now rs) \<and> trust_index (aggregate now rs) \<le> 1"
    using tr tb by (cases "rs = []") (simp_all add: aggregate_def empty_profile_def)
  with t tr show ?thesis
    using js_round_bounds [of 0 "total_reputation (aggregate now rs)" 100] dashboard_empty [of now]
    by (simp add: dashboard_view_def score_tier_def)
qed

theorem dashboard_bounds_witness:
  "0 \<le> dv_score (dashboard_view (aggregate 1700000000 sample_records))
   \<and> dv_score (dashboard_view (aggregate 1700000000 sample_records)) \<le> 100
   \<and> 0 \<le> dv_meter_width (dashboard_view (aggregate 1700000000 sample_records))
   \<and> dv_meter_width (dashboard_view (aggregate 1700000000 sample_records)) \<le> 100
   \<and> trust_index (aggregate 1700000000 sample_records) = trust_raw 1700000000 sample_records"
proof -
  have h: "\<forall>r\<in>set sample_records. score r \<le> 100"
    by (simp add: sample_records_def)
  have ne: "sample_records \<noteq> []"
    by (simp add: sample_records_def)
  show ?thesis
    using dashboard_bounds [OF h, of 1700000000] ne by simp
qed

text \<open>
  C3. The Dashboard's score circle is coloured by the tier of the rounded score and
  labelled with the engine's credibility level. The colour is never a lower tier than the
  label, and the two differ only when the reputation lies within half a point below one
  of the thresholds 30, 50, 70 and 90.
\<close>

theorem dashboard_tier_vs_level:
  assumes "rs \<noteq> []"
  shows "dv_circle_label (dashboard_view (aggregate now rs)) \<le> dv_circle_tier (dashboard_view (aggregate now rs))
    \<and> (dv_circle_tier (dashboard_view (aggregate now rs)) \<noteq> dv_circle_label (dashboard_view (aggregate now rs))
       \<longrightarrow> (\<exists>th\<in>{30, 50, 70, 90 :: real}. th - 1 / 2 \<le> total_reputation (aggregate now rs)
                                           \<and> total_reputation (aggregate now rs) < th))"
proof -
  let ?t = "decayed_mean now rs"
  have v: "dv_circle_label (dashboard_view (aggregate now rs)) = credibility_of ?t"
    "dv_circle_tier (dashboard_view (aggregate now rs)) = credibility_of (?t + 1 / 2)"
    "total_reputation (aggregate now rs) = ?t"
    using assms by (simp_all add: dashboard_view_def aggregate_def Let_def score_tier_js_round)
  show ?thesis
    unfolding v using credibility_of_mono [of ?t "?t + 1 / 2"] credibility_of_shift [of ?t] by simp
qed

theorem dashboard_tier_vs_level_witness:
  "dv_circle_label (dashboard_view (aggregate 1700000000 [r90, r89]))
     \<le> dv_circle_tier (dashboard_view (aggregate 1700000000 [r90, r89]))
   \<and> 90 - 1 / 2 \<le> total_reputation (aggregate 1700000000 [r90, r89])
   \<and> total_reputation (aggregate 1700000000 [r90, r89]) < 90"
proof -
  have ne: "[r90, r89] \<noteq> []" by simp
  have t: "total_reputation (aggregate 1700000000 [r90, r89]) = 179 / 2"
    by (simp add: aggregate_def Let_def total_r90_r89)
  show ?thesis
    using dashboard_tier_vs_level [OF ne, of 1700000000] dashboard_circle_mismatch t by simp
qed

text \<open>
  C4. On the Explorer page, choosing "All Domains" in the domain select after a domain
  was selected still sends that domain as the \<open>domain\<close> query parameter: the handler's
  \<open>domainFilter || domain\<close> falls back to the previous render's domain when the new value
  is the empty string.
\<close>

theorem explorer_all_domains_keeps_filter:
  assumes "ex_domain s \<noteq> []"
  shows "(''domain'', ex_domain s) \<in> set (fst (select_domain s [] res))"
  using assms by (simp add: select_domain_def load_profiles_def explorer_params_def js_or_def split: prod.splits)

theorem explorer_all_domains_keeps_filter_witness:
  "(''domain'', ''python'') \<in> set (fst (select_domain sample_explorer [] (ExploreResp True [])))"
proof -
  have h: "ex_domain sample_explorer \<noteq> []"
    by (simp add: sample_explorer_def)
  show ?thesis
    using explorer_all_domains_keeps_filter [OF h, of "ExploreResp True []"]
    by (simp add: sample_explorer_def)
qed

lemma badge_inputs:
  assumes "3 \<le> length rs" and "\<forall>r\<in>set rs. 50 \<le> rec_score r \<and> score r \<le> 100"
  shows "rs \<noteq> [] \<and> 50 \<le> decayed_mean now rs \<and> 1 \<le> length (distinct_domains rs)"
proof -
  have ne: "rs \<noteq> []" using assms(1) by auto
  have "50 \<le> decayed_mean now rs"
    using decayed_mean_bounds_ne [OF ne, of 50 100] assms(2) rec_score_le_100 by auto
  moreover have "1 \<le> length (distinct_domains rs)"
    using ne by (simp add: distinct_domains_def Suc_le_eq)
  ultimately show ?thesis
    using ne by simp
qed

text \<open>
  C5. The badge threshold of the specification (section 4.4, step 11, and the badge
  example of section 8): a box of at least three records, each scored between 50 and 100,
  earns the badge, and the Dashboard shows "Verified Talent"; with fewer than three records
  it never shows the badge.
\<close>

theorem dashboard_badge:
  "(3 \<le> length rs \<and> (\<forall>r\<in>set rs. 50 \<le> rec_score r \<and> score r \<le> 100)
      \<longrightarrow> dv_verified (dashboard_view (aggregate now rs)))
   \<and> (length rs < 3 \<longrightarrow> \<not> dv_verified (dashboard_view (aggregate now rs)))"
proof (intro conjI impI)
  assume a: "3 \<le> length rs \<and> (\<forall>r\<in>set rs. 50 \<le> rec_score r \<and> score r \<le> 100)"
  then have "rs \<noteq> [] \<and> 50 \<le> decayed_mean now rs \<and> 1 \<le> length (distinct_domains rs)"
    using badge_inputs by blast
  then show "dv_verified (dashboard_view (aggregate now rs))"
    using a by (simp add: dashboard_view_def aggregate_def Let_def badge_def)
next
  assume "length rs < 3"
  then show "\<not> dv_verified (dashboard_view (aggregate now rs))"
    by (auto simp: dashboard_view_def aggregate_def Let_def badge_def empty_profile_def)
qed

theorem dashboard_badge_witness:
  "dv_verified (dashboard_view (aggregate 1700000000 sample_records))
   \<and> \<not> dv_verified (dashboard_view (aggregate 1700000000 [r90, r89]))"
proof -
  have h: "3 \<le> length sample_records \<and> (\<forall>r\<in>set sample_records. 50 \<le> rec_score r \<and> score r \<le> 100)"
    by (simp add: sample_records_def rec_score_def)
  have "dv_verified (dashboard_view (aggregate 1700000000 sample_records))"
    using dashboard_badge [of sample_records 1700000000] h by blast
  moreover have "\<not> dv_verified (dashboard_view (aggregate 1700000000 [r90, r89]))"
    using dashboard_badge [of "[r90, r89]" 1700000000] by simp
  ultimately show ?thesis ..
qed

text \<open>
  C8. Once \<open>handleLookup\<close> has run for a wallet of Algorand length, the Dashboard is no
  longer loading, and it holds the profile \<open>p\<close> and the records \<open>rs\<close> exactly when
  \<open>Promise.all\<close> answered with two responses that are both \<open>ok\<close> and whose bodies
  parsed as \<open>p\<close> and \<open>rs\<close>. A rejected request shows its message; a reputation response
  that is not \<open>ok\<close> shows its \<open>detail\<close> or "Reputation fetch failed", whatever the
  records response was; an \<open>ok\<close> reputation response with a records response that is
  not \<open>ok\<close> shows the records' \<open>detail\<close> or "Records fetch failed"; no profile shows
  in either case.
\<close>

theorem handle_lookup_done:
  assumes "58 \<le> length (js_or wallet_addr (js_or address wallet_input))"
  shows "\<not> db_loading (handle_lookup wallet_addr address wallet_input res s)
    \<and> (db_reputation (handle_lookup wallet_addr address wallet_input res s) = Some p
         \<and> db_records (handle_lookup wallet_addr address wallet_input res s) = rs
       \<longleftrightarrow> (\<exists>rep wal. res = Inr (rep, wal) \<and> hr_ok rep \<and> hr_ok wal
              \<and> hr_body rep = Inr p \<and> hr_body wal = Inr rs))
    \<and> (res = Inl m \<longrightarrow> db_error (handle_lookup wallet_addr address wallet_input res s) = m
         \<and> db_reputation (handle_lookup wallet_addr address wallet_input res s) = None)
    \<and> (res = Inr (rep, wal) \<and> \<not> hr_ok rep
       \<longrightarrow> db_error (handle_lookup wallet_addr address wallet_input res s)
             = js_or (hr_detail rep) ''Reputation fetch failed''
         \<and> db_reputation (handle_lookup wallet_addr address wallet_input res s) = None)
    \<and> (res = Inr (rep, wal) \<and> hr_ok rep \<and> \<not> hr_ok wal
       \<longrightarrow> db_error (handle_lookup wallet_addr address wallet_input res s)
             = js_or (hr_detail wal) ''Records fetch failed''
         \<and> db_reputation (handle_lookup wallet_addr address wallet_input res s) = None)"
  using assms
  by (auto simp: handle_lookup_def lookup_outcome_def Let_def bind_res_eq_Inr
      split: sum.splits prod.splits)

theorem handle_lookup_done_witness:
  "\<not> db_loading (handle_lookup sample_address [] []
       (Inr (\<lparr>hr_ok = True, hr_body = Inr empty_profile, hr_detail = []\<rparr>,
             \<lparr>hr_ok = False, hr_body = Inr [], hr_detail = []\<rparr>)) sample_dash)
   \<and> db_error (handle_lookup sample_address [] []
       (Inr (\<lparr>hr_ok = True, hr_body = Inr empty_profile, hr_detail = []\<rparr>,
             \<lparr>hr_ok = False, hr_body = Inr [], hr_detail = []\<rparr>)) sample_dash) = ''Records fetch failed''"
proof -
  have h: "58 \<le> length (js_or sample_address (js_or [] []))"
    by (simp add: sample_address_def js_or_def)
  show ?thesis
    using handle_lookup_done [OF h, where
        res = "Inr (\<lparr>hr_ok = True, hr_body = Inr empty_profile, hr_detail = []\<rparr>,
                    \<lparr>hr_ok = False, hr_body = Inr [], hr_detail = []\<rparr>)"
        and s = sample_dash and rep = "\<lparr>hr_ok = True, hr_body = Inr empty_profile, hr_detail = []\<rparr>"
        and wal = "\<lparr>hr_ok = False, hr_body = Inr [], hr_detail = []\<rparr>"]
    by (simp add: js_or_def)
qed

end
