(* ===== verification/Wallet.thy ===== *)
theory Wallet
  imports Prelude
begin

text \<open>
  The wallet context (src/frontend/src/context/WalletContext.jsx): the connected address,
  the \<open>connected\<close> and \<open>connecting\<close> flags, the Pera instance handed to the pages, the
  \<open>localStorage\<close> entry \<open>verified_wallet\<close> that survives a reload, and the module-level
  lazily loaded SDK. \<open>connectWallet\<close> and \<open>disconnectWallet\<close> are asynchronous; their
  state changes happen at three points (the start, the SDK becoming available or not,
  the connect call settling), each an event of the step function, so that events of
  other handlers can interleave between them. Two ghost counters record the calls in
  flight at each await. An address is a JavaScript value: \<open>Some s\<close> for a string and
  \<open>None\<close> for \<open>undefined\<close> (what \<open>accounts[0]\<close> is for an empty account list);
  \<open>localStorage.setItem\<close> stores \<open>undefined\<close> as the string \<open>"undefined"\<close>.
\<close>

record wallet_state =
  w_address :: "string option"
  w_connected :: bool
  w_connecting :: bool
  w_pera :: bool
  w_storage :: "string option"
  w_listener :: bool
  w_sdk_loaded :: bool
  w_wait_sdk :: nat
  w_wait_connect :: nat

datatype wallet_event =
  ConnectStart
| ConnectNoSdk
| ConnectSdkReady
| ConnectRejected
| ConnectAccounts "string list"
| PeraDisconnect
| UserDisconnect bool
| SetManual string

definition js_string :: "string option \<Rightarrow> string" where
  "js_string v = (case v of None \<Rightarrow> ''undefined'' | Some s \<Rightarrow> s)"

definition truthy :: "string option \<Rightarrow> bool" where
  "truthy v \<longleftrightarrow> (case v of None \<Rightarrow> False | Some s \<Rightarrow> s \<noteq> [])"

text \<open>The initial state from the stored entry (\<open>getItem\<close> gives \<open>null\<close> as \<open>None\<close>).\<close>

definition wallet_init :: "string option \<Rightarrow> wallet_state" where
  "wallet_init st =
     \<lparr>w_address = Some (case st of None \<Rightarrow> [] | Some a \<Rightarrow> a),
      w_connected = (case st of None \<Rightarrow> False | Some a \<Rightarrow> a \<noteq> []),
      w_connecting = False, w_pera = False, w_storage = st, w_listener = False,
      w_sdk_loaded = False, w_wait_sdk = 0, w_wait_connect = 0\<rparr>"

definition handle_disconnect :: "wallet_state \<Rightarrow> wallet_state" where
  "handle_disconnect s =
     s\<lparr>w_address := Some [], w_connected := False, w_pera := False, w_storage := None\<rparr>"

definition set_manual_wallet :: "string \<Rightarrow> wallet_state \<Rightarrow> wallet_state" where
  "set_manual_wallet a s =
     s\<lparr>w_address := Some a, w_connected := (a \<noteq> []),
       w_storage := (if a \<noteq> [] then Some a else None)\<rparr>"

definition connect_accounts :: "string list \<Rightarrow> wallet_state \<Rightarrow> wallet_state" where
  "connect_accounts accs s =
     (let addr = (case accs of [] \<Rightarrow> None | a # _ \<Rightarrow> Some a) in
      s\<lparr>w_address := addr, w_connected := True, w_storage := Some (js_string addr),
        w_listener := True, w_connecting := False, w_wait_connect := w_wait_connect s - 1\<rparr>)"

text \<open>Which events can happen in a state: a settling call needs a call waiting there.\<close>

fun wallet_enabled :: "wallet_state \<Rightarrow> wallet_event \<Rightarrow> bool" where
  "wallet_enabled s ConnectNoSdk \<longleftrightarrow> 0 < w_wait_sdk s \<and> \<not> w_sdk_loaded s"
| "wallet_enabled s ConnectSdkReady \<longleftrightarrow> 0 < w_wait_sdk s"
| "wallet_enabled s ConnectRejected \<longleftrightarrow> 0 < w_wait_connect s"
| "wallet_enabled s (ConnectAccounts accs) \<longleftrightarrow> 0 < w_wait_connect s"
| "wallet_enabled s PeraDisconnect \<longleftrightarrow> w_listener s"
| "wallet_enabled s _ \<longleftrightarrow> True"

fun wallet_step :: "wallet_state \<Rightarrow> wallet_event \<Rightarrow> wallet_state" where
  "wallet_step s ConnectStart = s\<lparr>w_connecting := True, w_wait_sdk := Suc (w_wait_sdk s)\<rparr>"
| "wallet_step s ConnectNoSdk = s\<lparr>w_connecting := False, w_wait_sdk := w_wait_sdk s - 1\<rparr>"
| "wallet_step s ConnectSdkReady =
     s\<lparr>w_sdk_loaded := True, w_pera := True, w_wait_sdk := w_wait_sdk s - 1,
       w_wait_connect := Suc (w_wait_connect s)\<rparr>"
| "wallet_step s ConnectRejected = s\<lparr>w_connecting := False, w_wait_connect := w_wait_connect s - 1\<rparr>"
| "wallet_step s (ConnectAccounts accs) = connect_accounts accs s"
| "wallet_step s PeraDisconnect = handle_disconnect s"
| "wallet_step s (UserDisconnect loads) = handle_disconnect (s\<lparr>w_sdk_loaded := w_sdk_loaded s \<or> loads\<rparr>)"
| "wallet_step s (SetManual a) = set_manual_wallet a s"

text \<open>The horizontal ellipsis U+2026 as UTF-8.\<close>

definition ellipsis :: string where
  "ellipsis = map char_of [226 :: nat, 128, 166]"

definition short_address :: "string option \<Rightarrow> string" where
  "short_address v =
     (if truthy v then take 6 (js_string v) @ ellipsis @ drop (length (js_string v) - 4) (js_string v)
      else [])"

text \<open>The stored entry a session can start from: none, or an address the code wrote.\<close>

definition storage_ok :: "string option \<Rightarrow> bool" where
  "storage_ok st \<longleftrightarrow> st \<noteq> Some []"

inductive wallet_reachable :: "wallet_state \<Rightarrow> bool" where
  init: "storage_ok st \<Longrightarrow> wallet_reachable (wallet_init st)"
| step: "wallet_reachable s \<Longrightarrow> wallet_enabled s e \<Longrightarrow> wallet_reachable (wallet_step s e)"

text \<open>
  The storage mirror: the stored entry is present exactly when the context is connected,
  and then holds the address as \<open>setItem\<close> writes it.
\<close>

definition storage_mirror :: "wallet_state \<Rightarrow> bool" where
  "storage_mirror s \<longleftrightarrow>
     w_storage s = (if w_connected s then Some (js_string (w_address s)) else None)
     \<and> (\<not> w_connected s \<longrightarrow> w_address s = Some [])"

definition connecting_inv :: "wallet_state \<Rightarrow> bool" where
  "connecting_inv s \<longleftrightarrow> (w_connecting s \<longrightarrow> 0 < w_wait_sdk s + w_wait_connect s)"

text \<open>A run of events from a state, \<open>None\<close> when an event is not enabled where it occurs.\<close>

fun wallet_run :: "wallet_state \<Rightarrow> wallet_event list \<Rightarrow> wallet_state option" where
  "wallet_run s [] = Some s"
| "wallet_run s (e # es) = (if wallet_enabled s e then wallet_run (wallet_step s e) es else None)"

definition pera_session :: "wallet_event list" where
  "pera_session = [ConnectStart, ConnectSdkReady, ConnectAccounts [replicate 58 (CHR ''A'')]]"

section \<open>Lemmas\<close>

lemma wallet_init_mirror: "storage_ok st \<Longrightarrow> storage_mirror (wallet_init st)"
  by (auto simp: storage_ok_def storage_mirror_def wallet_init_def js_string_def split: option.splits)

lemma wallet_step_mirror: "storage_mirror s \<Longrightarrow> storage_mirror (wallet_step s e)"
  by (cases e)
     (auto simp: storage_mirror_def handle_disconnect_def set_manual_wallet_def connect_accounts_def
        Let_def js_string_def)

lemma wallet_init_connecting: "connecting_inv (wallet_init st)"
  by (simp add: connecting_inv_def wallet_init_def)

lemma wallet_step_connecting:
  "connecting_inv s \<Longrightarrow> wallet_enabled s e \<Longrightarrow> connecting_inv (wallet_step s e)"
  by (cases e)
     (auto simp: connecting_inv_def handle_disconnect_def set_manual_wallet_def connect_accounts_def Let_def)

lemma reachable_connecting: "wallet_reachable s \<Longrightarrow> connecting_inv s"
  by (induction rule: wallet_reachable.induct) (auto intro: wallet_init_connecting wallet_step_connecting)

lemma reachable_mirror: "wallet_reachable s \<Longrightarrow> storage_mirror s"
  by (induction rule: wallet_reachable.induct) (auto intro: wallet_init_mirror wallet_step_mirror)

lemma wallet_run_reachable:
  "wallet_reachable s \<Longrightarrow> wallet_run s es = Some t \<Longrightarrow> wallet_reachable t"
proof (induction es arbitrary: s)
  case Nil
  then show ?case by simp
next
  case (Cons e es)
  then have "wallet_enabled s e" and run: "wallet_run (wallet_step s e) es = Some t"
    by (simp_all split: if_splits)
  have "wallet_reachable (wallet_step s e)"
    using Cons.prems(1) \<open>wallet_enabled s e\<close> by (rule wallet_reachable.step)
  then show ?case
    using run by (rule Cons.IH)
qed

lemma reachable_from_empty: "wallet_run (wallet_init None) es = Some t \<Longrightarrow> wallet_reachable t"
  by (rule wallet_run_reachable [OF wallet_reachable.init]) (simp_all add: storage_ok_def)

section \<open>Properties of the wallet context\<close>

text \<open>
  C11. In every state the wallet context can reach from a fresh start or from an entry
  it wrote itself, the stored \<open>verified_wallet\<close> entry is present exactly when the
  context is connected and then holds the address as \<open>setItem\<close> wrote it; when not
  connected the address is the empty string; and \<open>connecting\<close> is only set while some
  \<open>connectWallet\<close> call is still waiting.
\<close>

theorem wallet_session_invariant:
  "wallet_reachable s \<Longrightarrow> storage_mirror s \<and> connecting_inv s"
  using reachable_mirror reachable_connecting by blast

theorem wallet_session_invariant_witness:
  "storage_mirror (the (wallet_run (wallet_init None) pera_session))
   \<and> connecting_inv (the (wallet_run (wallet_init None) pera_session))"
proof -
  have "wallet_reachable (the (wallet_run (wallet_init None) pera_session))"
    by (rule reachable_from_empty [of pera_session]) (simp add: pera_session_def wallet_init_def)
  then show ?thesis
    by (rule wallet_session_invariant)
qed

text \<open>
  C12. A reload restores the session: starting the context again from the stored entry
  of any reachable state gives back its address and its \<open>connected\<close> flag, provided a
  connected state's address is a non-empty string (see \<open>empty_accounts_run\<close> for
  what happens otherwise).
\<close>

theorem wallet_reload_roundtrip:
  assumes "wallet_reachable s" and "w_connected s \<longrightarrow> truthy (w_address s)"
  shows "w_address (wallet_init (w_storage s)) = w_address s
    \<and> w_connected (wallet_init (w_storage s)) = w_connected s"
  using reachable_mirror [OF assms(1)] assms(2)
  by (auto simp: storage_mirror_def wallet_init_def truthy_def js_string_def split: option.splits)

theorem wallet_reload_roundtrip_witness:
  "w_address (wallet_init (w_storage (the (wallet_run (wallet_init None) pera_session))))
     = Some (replicate 58 (CHR ''A''))
   \<and> w_connected (wallet_init (w_storage (the (wallet_run (wallet_init None) pera_session))))"
proof -
  have run: "wallet_run (wallet_init None) pera_session
      = Some (the (wallet_run (wallet_init None) pera_session))"
    by (simp add: pera_session_def wallet_init_def)
  have r: "wallet_reachable (the (wallet_run (wallet_init None) pera_session))"
    using run by (rule reachable_from_empty)
  have t: "w_connected (the (wallet_run (wallet_init None) pera_session)) \<longrightarrow>
           truthy (w_address (the (wallet_run (wallet_init None) pera_session)))"
    by (simp add: pera_session_def wallet_init_def connect_accounts_def truthy_def Let_def)
  have "w_address (wallet_init (w_storage (the (wallet_run (wallet_init None) pera_session))))
      = w_address (the (wallet_run (wallet_init None) pera_session))
    \<and> w_connected (wallet_init (w_storage (the (wallet_run (wallet_init None) pera_session))))
      = w_connected (the (wallet_run (wallet_init None) pera_session))"
    using r t by (rule wallet_reload_roundtrip)
  then show ?thesis
    by (simp add: pera_session_def wallet_init_def connect_accounts_def Let_def js_string_def)
qed

lemma empty_accounts_run:
  "\<exists>t. wallet_run (wallet_init None) [ConnectStart, ConnectSdkReady, ConnectAccounts []] = Some t
     \<and> w_address t = None \<and> w_connected t
     \<and> w_address (wallet_init (w_storage t)) = Some ''undefined''
     \<and> w_connected (wallet_init (w_storage t))"
  by (simp add: wallet_init_def connect_accounts_def js_string_def)

lemma manual_entry_run:
  "\<exists>t. wallet_run (wallet_init None) (pera_session @ [SetManual ''B'']) = Some t
     \<and> wallet_reachable t \<and> w_pera t \<and> w_connected t \<and> w_address t = Some ''B''"
proof -
  obtain t where run: "wallet_run (wallet_init None) (pera_session @ [SetManual ''B'']) = Some t"
    by (simp add: pera_session_def wallet_init_def)
  have "wallet_reachable t"
    using run by (rule reachable_from_empty)
  moreover have "w_pera t \<and> w_connected t \<and> w_address t = Some ''B''"
    using run by (auto simp: pera_session_def wallet_init_def connect_accounts_def set_manual_wallet_def Let_def)
  ultimately show ?thesis
    using run by blast
qed

end
