(* ===== verification/ApiClient.thy ===== *)
theory ApiClient
  imports Prelude
begin

text \<open>
  The API client (src/unnamed/part_001, lines 1-146, the frontend's \<open>utils/api.js\<close>):
  \<open>fetchWithRetry\<close> and the endpoint table \<open>api\<close>. Each call of \<open>fetch\<close> is an
  attempt whose outcome is an input: a response (status, status text and the result
  of \<open>response.json()\<close>, \<open>None\<close> when the body is not JSON), the abort of the
  30-second timer, or a network failure. The server is a function from the request and
  the attempt's index to that outcome, so a claim about all servers covers every
  sequence of outcomes. JSON values are a datatype; property access follows JavaScript
  (\<open>null.detail\<close> throws a TypeError, a missing key or a primitive gives
  \<open>undefined\<close>, the last of duplicate keys wins as in \<open>JSON.parse\<close>).
\<close>

datatype json =
  JNull
| JBool bool
| JNum real
| JStr string
| JArr "json list"
| JObj "(string \<times> json) list"

text \<open>The errors \<open>fetchWithRetry\<close> can throw: \<open>APIError(message, status, data)\<close>
  and the built-in errors, which carry no \<open>status\<close>.\<close>

datatype js_error =
  APIError json nat json
| TypeError string
| SyntaxError
| AbortError

datatype fetch_outcome =
  Responded nat string "json option"
| TimedOut
| NetworkDown

definition MAX_RETRIES :: nat where
  "MAX_RETRIES = 3"

fun json_truthy :: "json \<Rightarrow> bool" where
  "json_truthy JNull = False"
| "json_truthy (JBool b) = b"
| "json_truthy (JNum x) = (x \<noteq> 0)"
| "json_truthy (JStr s) = (s \<noteq> [])"
| "json_truthy (JArr _) = True"
| "json_truthy (JObj _) = True"

text \<open>\<open>v.k\<close>: \<open>Inl ()\<close> is the TypeError of a property read on \<open>null\<close>,
  \<open>Inr None\<close> is \<open>undefined\<close>.\<close>

fun js_get :: "json \<Rightarrow> string \<Rightarrow> unit + json option" where
  "js_get JNull k = Inl ()"
| "js_get (JObj kvs) k = Inr (map_of (rev kvs) k)"
| "js_get _ k = Inr None"

fun digits10 :: "nat \<Rightarrow> string" where
  "digits10 n = (if n < 10 then [''0123456789'' ! n] else digits10 (n div 10) @ [''0123456789'' ! (n mod 10)])"

definition response_ok :: "nat \<Rightarrow> bool" where
  "response_ok st \<longleftrightarrow> 200 \<le> st \<and> st \<le> 299"

text \<open>One attempt, lines 31-51: the value returned, or the error that reaches the
  \<open>catch\<close> at line 52.\<close>

fun attempt :: "fetch_outcome \<Rightarrow> js_error + json" where
  "attempt TimedOut = Inl AbortError"
| "attempt NetworkDown = Inl (TypeError ''Failed to fetch'')"
| "attempt (Responded st txt body) =
     (if response_ok st then (case body of None \<Rightarrow> Inl SyntaxError | Some j \<Rightarrow> Inr j)
      else
        (let ed = (case body of None \<Rightarrow> JObj [] | Some j \<Rightarrow> j);
             dflt = JStr (''HTTP '' @ digits10 st @ '': '' @ txt)
         in case js_get ed ''detail'' of
              Inl _ \<Rightarrow> Inl (TypeError ''Cannot read properties of null'')
            | Inr d \<Rightarrow> Inl (APIError (case d of Some v \<Rightarrow> if json_truthy v then v else dflt
                                               | None \<Rightarrow> dflt) st ed)))"

fun err_status :: "js_error \<Rightarrow> nat option" where
  "err_status (APIError _ st _) = Some st"
| "err_status _ = None"

fun is_abort :: "js_error \<Rightarrow> bool" where
  "is_abort AbortError = True"
| "is_abort _ = False"

text \<open>\<open>error.status === 429 || error.status >= 500\<close>; \<open>undefined >= 500\<close> is false.\<close>

definition retryable :: "js_error \<Rightarrow> bool" where
  "retryable e \<longleftrightarrow> (case err_status e of Some st \<Rightarrow> st = 429 \<or> 500 \<le> st | None \<Rightarrow> False)"

definition timeout_error :: js_error where
  "timeout_error = APIError (JStr ''Request timeout'') 408 (JObj [])"

text \<open>\<open>Math.pow(2, MAX_RETRIES - retries) * 1000\<close>, with a negative exponent as well.\<close>

definition js_pow2 :: "int \<Rightarrow> real" where
  "js_pow2 i = (if 0 \<le> i then 2 ^ nat i else 1 / 2 ^ nat (- i))"

definition backoff_delay :: "nat \<Rightarrow> real" where
  "backoff_delay retries = js_pow2 (int MAX_RETRIES - int retries) * 1000"

text \<open>
  \<open>fetchWithRetry(url, options, retries)\<close>, lines 26-67, from attempt \<open>k\<close> on: the
  value or error it settles with, and the delays it waited before each retry.
\<close>

fun fetch_with_retry :: "(nat \<Rightarrow> fetch_outcome) \<Rightarrow> nat \<Rightarrow> nat \<Rightarrow> (js_error + json) \<times> real list" where
  "fetch_with_retry srv k retries =
     (case attempt (srv k) of
        Inr j \<Rightarrow> (Inr j, [])
      | Inl e \<Rightarrow>
          if is_abort e then (Inl timeout_error, [])
          else if 0 < retries \<and> retryable e then
            (let r = fetch_with_retry srv (Suc k) (retries - 1)
             in (fst r, backoff_delay retries # snd r))
          else (Inl e, []))"

declare fetch_with_retry.simps [simp del]

section \<open>The endpoint table\<close>

record request =
  req_method :: string
  req_url :: string
  req_body :: "json option"

datatype api_call =
  AnalyzeRepo string string
| AnalyzeCertificate string string
| AnalyzeProject string string
| VerifyRepo string "string option"
| VerifyCertificate string
| VerifyProject string
| SubmitRecord json
| GetWalletRecords string
| GetTimeline string
| GetReputation string
| VerifyWallet string
| Health

definition api_url :: "string \<Rightarrow> string" where
  "api_url env = js_or env ''http://localhost:8000''"

definition post :: "string \<Rightarrow> json \<Rightarrow> request" where
  "post url b = \<lparr>req_method = ''POST'', req_url = url, req_body = Some b\<rparr>"

definition get :: "string \<Rightarrow> request" where
  "get url = \<lparr>req_method = ''GET'', req_url = url, req_body = None\<rparr>"

fun api_request :: "string \<Rightarrow> api_call \<Rightarrow> request" where
  "api_request base (AnalyzeRepo u m) =
     post (base @ ''/analyze/repo'') (JObj [(''repo_url'', JStr u), (''mode'', JStr m)])"
| "api_request base (AnalyzeCertificate p m) =
     post (base @ ''/analyze/certificate'') (JObj [(''file_path'', JStr p), (''mode'', JStr m)])"
| "api_request base (AnalyzeProject p m) =
     post (base @ ''/analyze/project'') (JObj [(''project_path'', JStr p), (''mode'', JStr m)])"
| "api_request base (VerifyRepo u w) =
     post (base @ ''/verify-evidence/repo'')
       (JObj [(''repo_url'', JStr u), (''wallet'', case w of None \<Rightarrow> JNull | Some a \<Rightarrow> JStr a)])"
| "api_request base (VerifyCertificate p) =
     post (base @ ''/verify-evidence/certificate'') (JObj [(''file_path'', JStr p)])"
| "api_request base (VerifyProject p) =
     post (base @ ''/verify-evidence/project'') (JObj [(''project_path'', JStr p)])"
| "api_request base (SubmitRecord d) = post (base @ ''/submit'') d"
| "api_request base (GetWalletRecords w) = get (base @ ''/wallet/'' @ w)"
| "api_request base (GetTimeline w) = get (base @ ''/timeline/'' @ w)"
| "api_request base (GetReputation w) = get (base @ ''/reputation/'' @ w)"
| "api_request base (VerifyWallet w) = get (base @ ''/verify/'' @ w)"
| "api_request base Health = get (base @ ''/health'')"

text \<open>An endpoint call: \<open>fetchWithRetry\<close> on its request with the default retries; the
  server answers each attempt of a request.\<close>

definition api_run ::
  "(request \<Rightarrow> nat \<Rightarrow> fetch_outcome) \<Rightarrow> string \<Rightarrow> api_call \<Rightarrow> (js_error + json) \<times> real list" where
  "api_run srv env c = fetch_with_retry (srv (api_request (api_url env) c)) 0 MAX_RETRIES"

section \<open>Reference specification of the retry loop\<close>

text \<open>
  What \<open>fetchWithRetry\<close> promises, without recursion: it stops at the first attempt
  whose error is not worth retrying (or that succeeds), or at attempt \<open>retries\<close>; it
  settles with that attempt's outcome, a timeout turned into the 408 error; and before
  each attempt after the first it has waited the delay for the retries then left.
\<close>

definition retry_again :: "js_error + json \<Rightarrow> bool" where
  "retry_again r = (case r of Inl e \<Rightarrow> \<not> is_abort e \<and> retryable e | Inr _ \<Rightarrow> False)"

definition settle :: "js_error + json \<Rightarrow> js_error + json" where
  "settle r = (case r of Inl e \<Rightarrow> if is_abort e then Inl timeout_error else Inl e | Inr j \<Rightarrow> Inr j)"

definition first_stop :: "(nat \<Rightarrow> fetch_outcome) \<Rightarrow> nat \<Rightarrow> nat" where
  "first_stop srv r =
     (case find (\<lambda>i. \<not> retry_again (attempt (srv i))) [0..<r] of None \<Rightarrow> r | Some i \<Rightarrow> i)"

definition retry_spec :: "(nat \<Rightarrow> fetch_outcome) \<Rightarrow> nat \<Rightarrow> (js_error + json) \<times> real list" where
  "retry_spec srv r =
     (let n = first_stop srv r in (settle (attempt (srv n)), map backoff_delay (take n (rev [1..<Suc r]))))"

section \<open>Lemmas\<close>

lemma find_map_option: "find P (map f xs) = map_option f (find (\<lambda>x. P (f x)) xs)"
  by (induction xs) simp_all

lemma find_upt_Suc:
  "find P [0..<Suc n] = (if P 0 then Some 0 else map_option Suc (find (\<lambda>i. P (Suc i)) [0..<n]))"
  by (simp add: upt_conv_Cons map_Suc_upt [symmetric] find_map_option del: upt_Suc)

lemma first_stop_0: "first_stop srv 0 = 0"
  by (simp add: first_stop_def)

lemma first_stop_Suc:
  "first_stop srv (Suc r) =
     (if retry_again (attempt (srv 0)) then Suc (first_stop (\<lambda>i. srv (Suc i)) r) else 0)"
  by (simp add: first_stop_def find_upt_Suc del: upt_Suc split: option.split)

lemma first_stop_le: "first_stop srv r \<le> r"
  by (induction r arbitrary: srv) (simp_all add: first_stop_0 first_stop_Suc)

lemma rev_upt_Suc_Suc: "rev [1..<Suc (Suc r)] = Suc r # rev [1..<Suc r]"
  by simp

lemma fetch_with_retry_spec:
  "fetch_with_retry srv k r = retry_spec (\<lambda>i. srv (k + i)) r"
proof (induction r arbitrary: k)
  case 0
  then show ?case
    by (subst fetch_with_retry.simps) (simp add: retry_spec_def first_stop_0 settle_def split: sum.split)
next
  case (Suc r)
  show ?case
  proof (cases "retry_again (attempt (srv k))")
    case True
    then obtain e where e: "attempt (srv k) = Inl e" "\<not> is_abort e" "retryable e"
      by (auto simp: retry_again_def split: sum.splits)
    have "fetch_with_retry srv k (Suc r)
        = (fst (fetch_with_retry srv (Suc k) r), backoff_delay (Suc r) # snd (fetch_with_retry srv (Suc k) r))"
      using e by (subst fetch_with_retry.simps) (simp add: Let_def)
    also have "\<dots> = retry_spec (\<lambda>i. srv (k + i)) (Suc r)"
      using True by (simp add: Suc.IH retry_spec_def first_stop_Suc rev_upt_Suc_Suc Let_def)
    finally show ?thesis .
  next
    case False
    then show ?thesis
      by (subst fetch_with_retry.simps)
         (auto simp: retry_spec_def first_stop_Suc retry_again_def settle_def split: sum.split)
  qed
qed

lemma fetch_with_retry_delays:
  "snd (fetch_with_retry srv k r) = map backoff_delay (take (first_stop (\<lambda>i. srv (k + i)) r) (rev [1..<Suc r]))"
  by (simp add: fetch_with_retry_spec retry_spec_def Let_def)

lemma backoff_delays_default: "map backoff_delay (rev [1..<Suc MAX_RETRIES]) = [1000, 2000, 4000]"
  by (simp add: backoff_delay_def js_pow2_def MAX_RETRIES_def upt_rec)

lemma sum_take_default_delays: "sum_list (take n [1000, 2000, 4000 :: real]) \<le> 7000"
  by (cases n; cases "n - 1"; cases "n - 2") (simp_all add: take_Cons')

lemma api_run_fetch: "api_run srv env c = fetch_with_retry (srv (api_request (api_url env) c)) 0 MAX_RETRIES"
  by (simp add: api_run_def)

section \<open>Properties of the API client\<close>

text \<open>
  C14. Every endpoint of \<open>api\<close> behaves as the retry specification says: it settles
  with the outcome of the first attempt that succeeds, times out or fails with an error
  other than 429 or 5xx (a timeout becoming the 408 \<open>APIError\<close>), or else with the
  outcome of the fourth attempt, after waiting the backoff delays of the retries made.
\<close>

theorem api_call_refines_retry_spec:
  "api_run srv env c = retry_spec (srv (api_request (api_url env) c)) MAX_RETRIES"
  by (simp add: api_run_fetch fetch_with_retry_spec)

text \<open>
  C15. For every endpoint and every server, \<open>fetchWithRetry\<close> waits 1000, 2000 and
  4000 ms before its successive retries and makes at most three of them (four requests in
  all), so the backoff adds at most seven seconds to a call.
\<close>

theorem api_call_backoff_bounds:
  "snd (api_run srv env c) = take (length (snd (api_run srv env c))) [1000, 2000, 4000]
   \<and> length (snd (api_run srv env c)) \<le> MAX_RETRIES
   \<and> sum_list (snd (api_run srv env c)) \<le> 7000"
proof -
  let ?n = "first_stop (\<lambda>i. srv (api_request (api_url env) c) (0 + i)) MAX_RETRIES"
  have d: "snd (api_run srv env c) = take ?n [1000, 2000, 4000]"
    unfolding api_run_fetch fetch_with_retry_delays take_map [symmetric] backoff_delays_default ..
  have "?n \<le> MAX_RETRIES"
    by (rule first_stop_le)
  then show ?thesis
    using d sum_take_default_delays [of ?n] by (simp add: MAX_RETRIES_def)
qed

text \<open>
  C16. How \<open>fetchWithRetry\<close> treats error responses, for every endpoint and every server.
  When the first answer is not \<open>ok\<close> and its JSON body is \<open>null\<close>, reading
  \<open>errorData.detail\<close> throws a TypeError inside the \<open>try\<close>, which has no \<open>status\<close>:
  the call fails at once with that TypeError, after one request and no wait, whatever the
  status, so a 5xx is not retried. Any other body of a 429 or 5xx answer gives an
  \<open>APIError\<close> with that status, and the call is retried after waiting 1000 ms.
\<close>

theorem error_responses_retry:
  assumes "\<not> response_ok st" and "srv (api_request (api_url env) c) 0 = Responded st txt b"
  shows "(b = Some JNull
           \<longrightarrow> api_run srv env c = (Inl (TypeError ''Cannot read properties of null''), []))
    \<and> ((st = 429 \<or> 500 \<le> st) \<and> b \<noteq> Some JNull \<longrightarrow> hd (snd (api_run srv env c)) = 1000)"
proof (intro conjI impI)
  assume "b = Some JNull"
  then show "api_run srv env c = (Inl (TypeError ''Cannot read properties of null''), [])"
    using assms by (simp add: api_run_fetch fetch_with_retry.simps [of _ 0] retryable_def)
next
  assume r: "(st = 429 \<or> 500 \<le> st) \<and> b \<noteq> Some JNull"
  obtain v ed where e: "attempt (Responded st txt b) = Inl (APIError v st ed)"
  proof (cases b)
    case None
    then show ?thesis using that assms(1) by (simp add: Let_def)
  next
    case (Some j)
    then show ?thesis using that assms(1) r by (cases j) (simp_all add: Let_def)
  qed
  have "retryable (APIError v st ed)"
    using r by (auto simp: retryable_def)
  then show "hd (snd (api_run srv env c)) = 1000"
    using assms(2) e
    by (simp add: api_run_fetch fetch_with_retry.simps [of _ 0] MAX_RETRIES_def backoff_delay_def
        js_pow2_def Let_def)
qed

theorem error_responses_retry_witness:
  "api_run (\<lambda>_ _. Responded 503 ''Service Unavailable'' (Some JNull)) ''http://localhost:8000'' Health
     = (Inl (TypeError ''Cannot read properties of null''), [])
   \<and> hd (snd (api_run (\<lambda>_ _. Responded 503 ''Service Unavailable'' None) ''http://localhost:8000'' Health)) = 1000"
proof -
  have n: "\<not> response_ok 503"
    by (simp add: response_ok_def)
  have a: "api_run (\<lambda>_ _. Responded 503 ''Service Unavailable'' (Some JNull)) ''http://localhost:8000'' Health
     = (Inl (TypeError ''Cannot read properties of null''), [])"
    using error_responses_retry [of 503 "\<lambda>_ _. Responded 503 ''Service Unavailable'' (Some JNull)"
        "''http://localhost:8000''" Health "''Service Unavailable''" "Some JNull"] n by simp
  have b: "hd (snd (api_run (\<lambda>_ _. Responded 503 ''Service Unavailable'' None) ''http://localhost:8000'' Health)) = 1000"
    using error_responses_retry [of 503 "\<lambda>_ _. Responded 503 ''Service Unavailable'' None"
        "''http://localhost:8000''" Health "''Service Unavailable''" None] n by simp
  from a b show ?thesis ..
qed

end
