(* ===== verification/Analyze.thy ===== *)
theory Analyze
  imports ApiClient
begin

text \<open>
  The analysis step of the Submit page (src/unnamed/part_001, lines 177-245 and the
  evidence input of lines 412-481): the source tabs, the URL and file inputs, and
  \<open>handleAnalyze\<close>, which posts the evidence with a plain \<open>fetch\<close> (no retry, no
  timeout) and stores the response. The handler is asynchronous, so it is split into its
  start (up to the \<open>await fetch\<close>) and its settling (from the response to the
  \<open>finally\<close>), each an event; the page can receive other events, and further starts,
  in between. Each request has an identifier, and the ghost field \<open>ap_shown\<close> records
  which request's response is the analysis on screen. An error message \<open>e.message\<close> is
  kept as the value it is made from: \<open>MsgOf v\<close> is \<open>String(v)\<close> for a \<open>detail\<close> value
  \<open>v\<close> that is not a string.
\<close>

datatype page_error =
  Msg string
| MsgOf json
| ParseErr

datatype raw_outcome =
  RawResponse nat string "json option"
| RawNetworkError

datatype analyze_body =
  JsonBody json
| FormBody "(string \<times> string) list"

record analyze_req =
  ar_url :: string
  ar_body :: analyze_body

record analyze_page =
  ap_source :: string
  ap_repo_url :: string
  ap_file :: "string option"
  ap_mode :: string
  ap_address :: string
  ap_analysis :: "json option"
  ap_result :: bool
  ap_analyzing :: bool
  ap_error :: page_error
  ap_pending :: "(nat \<times> analyze_req) list"
  ap_next :: nat
  ap_shown :: "nat option"

datatype analyze_event =
  TypeUrl string
| ChooseFile "string option"
| SelectTab string
| ClickAnalyze
| PressEnter
| Settle nat raw_outcome

definition API :: string where
  "API = ''http://localhost:8000''"

text \<open>The request of lines 213-230, or the message of the \<open>Error\<close> thrown before it.\<close>

definition analyze_request ::
  "string \<Rightarrow> string \<Rightarrow> string option \<Rightarrow> string \<Rightarrow> string \<Rightarrow> string + analyze_req" where
  "analyze_request src url file mode address =
     (if src = ''repo'' then
        (if url = [] then Inl ''Paste a GitHub repo URL.''
         else Inr \<lparr>ar_url = API @ ''/verify-evidence/repo'',
                   ar_body = JsonBody (JObj [(''repo_url'', JStr url), (''wallet'', JStr address),
                                             (''mode'', JStr mode)])\<rparr>)
      else
        (case file of
           None \<Rightarrow> Inl ''Please select a file.''
         | Some f \<Rightarrow>
             Inr \<lparr>ar_url = API @ (if src = ''certificate'' then ''/verify-evidence/certificate/upload''
                                  else ''/verify-evidence/project/upload''),
                  ar_body = FormBody [(''file'', f), (''mode'', mode)]\<rparr>))"

definition error_of_value :: "json \<Rightarrow> page_error" where
  "error_of_value v = (case v of JStr s \<Rightarrow> Msg s | _ \<Rightarrow> MsgOf v)"

text \<open>Lines 232-237: the data of a settled request, or the message its error carries.\<close>

fun analyze_response :: "raw_outcome \<Rightarrow> page_error + json" where
  "analyze_response RawNetworkError = Inl (Msg ''Failed to fetch'')"
| "analyze_response (RawResponse st txt body) =
     (if response_ok st then (case body of None \<Rightarrow> Inl ParseErr | Some j \<Rightarrow> Inr j)
      else
        (let d = (case body of None \<Rightarrow> JObj [] | Some j \<Rightarrow> j);
             dflt = Msg (''Analysis failed (HTTP '' @ digits10 st @ '')'')
         in case js_get d ''detail'' of
              Inl _ \<Rightarrow> Inl (Msg ''Cannot read properties of null (reading 'detail')'')
            | Inr dv \<Rightarrow> Inl (case dv of Some v \<Rightarrow> if json_truthy v then error_of_value v else dflt
                                      | None \<Rightarrow> dflt)))"

text \<open>The start of \<open>handleAnalyze\<close>, lines 206-230.\<close>

definition start_analyze :: "analyze_page \<Rightarrow> analyze_page" where
  "start_analyze s =
     (let s' = s\<lparr>ap_error := Msg [], ap_analysis := None, ap_shown := None, ap_result := False,
                 ap_analyzing := True\<rparr>
      in case analyze_request (ap_source s) (ap_repo_url s) (ap_file s) (ap_mode s) (ap_address s) of
           Inl m \<Rightarrow> s'\<lparr>ap_error := Msg m, ap_analyzing := False\<rparr>
         | Inr req \<Rightarrow> s'\<lparr>ap_pending := ap_pending s @ [(ap_next s, req)], ap_next := Suc (ap_next s)\<rparr>)"

text \<open>The settling of request \<open>i\<close>, lines 232-244.\<close>

definition settle_analyze :: "nat \<Rightarrow> raw_outcome \<Rightarrow> analyze_page \<Rightarrow> analyze_page" where
  "settle_analyze i out s =
     (let s' = s\<lparr>ap_pending := filter (\<lambda>p. fst p \<noteq> i) (ap_pending s), ap_analyzing := False\<rparr>
      in case analyze_response out of
           Inl e \<Rightarrow> s'\<lparr>ap_error := e\<rparr>
         | Inr j \<Rightarrow> s'\<lparr>ap_analysis := Some j, ap_shown := Some i\<rparr>)"

text \<open>A click on a source tab, line 422.\<close>

definition select_tab :: "string \<Rightarrow> analyze_page \<Rightarrow> analyze_page" where
  "select_tab t s =
     s\<lparr>ap_source := t, ap_repo_url := [], ap_file := None, ap_analysis := None, ap_shown := None,
       ap_result := False, ap_error := Msg []\<rparr>"

definition has_input :: "analyze_page \<Rightarrow> bool" where
  "has_input s \<longleftrightarrow> (if ap_source s = ''repo'' then ap_repo_url s \<noteq> [] else ap_file s \<noteq> None)"

text \<open>
  Which events the page can receive: the Analyze button is disabled while analysing or
  without input (line 477); Enter in the URL input (line 440) has no such guard; the URL
  input exists on the repo tab only, the file input on the others.
\<close>

fun analyze_enabled :: "analyze_page \<Rightarrow> analyze_event \<Rightarrow> bool" where
  "analyze_enabled s (TypeUrl u) \<longleftrightarrow> ap_source s = ''repo''"
| "analyze_enabled s (ChooseFile f) \<longleftrightarrow> ap_source s \<noteq> ''repo''"
| "analyze_enabled s (SelectTab t) \<longleftrightarrow> t \<in> {''repo'', ''certificate'', ''project''}"
| "analyze_enabled s ClickAnalyze \<longleftrightarrow> \<not> ap_analyzing s \<and> has_input s"
| "analyze_enabled s PressEnter \<longleftrightarrow> ap_source s = ''repo''"
| "analyze_enabled s (Settle i out) \<longleftrightarrow> i \<in> fst ` set (ap_pending s)"

fun analyze_step :: "analyze_page \<Rightarrow> analyze_event \<Rightarrow> analyze_page" where
  "analyze_step s (TypeUrl u) = s\<lparr>ap_repo_url := u\<rparr>"
| "analyze_step s (ChooseFile f) = s\<lparr>ap_file := f\<rparr>"
| "analyze_step s (SelectTab t) = select_tab t s"
| "analyze_step s ClickAnalyze = start_analyze s"
| "analyze_step s PressEnter = start_analyze s"
| "analyze_step s (Settle i out) = settle_analyze i out s"

definition analyze_init :: "string \<Rightarrow> analyze_page" where
  "analyze_init address =
     \<lparr>ap_source = ''repo'', ap_repo_url = [], ap_file = None, ap_mode = ''developer'',
      ap_address = address, ap_analysis = None, ap_result = False, ap_analyzing = False,
      ap_error = Msg [], ap_pending = [], ap_next = 0, ap_shown = None\<rparr>"

text \<open>Whether \<open>String(v)\<close> is the empty string; an array is joined with commas, its
  \<open>null\<close> elements written as the empty string.\<close>

fun json_blank :: "json \<Rightarrow> bool" where
  "json_blank (JStr s) = (s = [])"
| "json_blank (JArr []) = True"
| "json_blank (JArr [x]) = (case x of JNull \<Rightarrow> True | _ \<Rightarrow> json_blank x)"
| "json_blank _ = False"

text \<open>\<open>{error && ...}\<close>: the error box is rendered when the message is not empty.\<close>

fun error_shown :: "page_error \<Rightarrow> bool" where
  "error_shown (Msg s) = (s \<noteq> [])"
| "error_shown (MsgOf v) = (\<not> json_blank v)"
| "error_shown ParseErr = True"

text \<open>The states reachable with the events an input discipline allows.\<close>

inductive analyze_reachable :: "(analyze_event \<Rightarrow> bool) \<Rightarrow> analyze_page \<Rightarrow> bool" for ok where
  init: "analyze_reachable ok (analyze_init a)"
| step: "analyze_reachable ok s \<Longrightarrow> ok e \<Longrightarrow> analyze_enabled s e \<Longrightarrow> analyze_reachable ok (analyze_step s e)"

fun no_enter :: "analyze_event \<Rightarrow> bool" where
  "no_enter PressEnter = False"
| "no_enter _ = True"

fun analyze_run :: "analyze_page \<Rightarrow> analyze_event list \<Rightarrow> analyze_page option" where
  "analyze_run s [] = Some s"
| "analyze_run s (e # es) = (if analyze_enabled s e then analyze_run (analyze_step s e) es else None)"

text \<open>One analysis at a time, and the analysis on screen answers the latest request.\<close>

definition single_flight :: "analyze_page \<Rightarrow> bool" where
  "single_flight s \<longleftrightarrow>
     length (ap_pending s) \<le> 1
     \<and> (ap_analyzing s \<longleftrightarrow> ap_pending s \<noteq> [])
     \<and> (\<forall>p \<in> set (ap_pending s). Suc (fst p) = ap_next s)
     \<and> (ap_pending s \<noteq> [] \<longrightarrow> ap_shown s = None)
     \<and> (ap_analysis s = None \<longleftrightarrow> ap_shown s = None)
     \<and> (\<forall>i. ap_shown s = Some i \<longrightarrow> Suc i = ap_next s)"

section \<open>Lemmas\<close>

lemma single_flight_init: "single_flight (analyze_init a)"
  by (simp add: single_flight_def analyze_init_def)

lemma single_pending:
  "single_flight s \<Longrightarrow> i \<in> fst ` set (ap_pending s)
   \<Longrightarrow> ap_pending s = [(i, snd (hd (ap_pending s)))] \<and> Suc i = ap_next s"
  by (cases "ap_pending s" rule: remdups_adj.cases) (auto simp: single_flight_def)

lemma single_flight_step:
  assumes inv: "single_flight s" and ok: "no_enter e" and en: "analyze_enabled s e"
  shows "single_flight (analyze_step s e)"
proof (cases e)
  case ClickAnalyze
  then have "ap_pending s = []"
    using inv en by (simp add: single_flight_def)
  then show ?thesis
    using ClickAnalyze by (auto simp: single_flight_def start_analyze_def Let_def split: sum.split)
next
  case (Settle i out)
  then have pend: "ap_pending s = [(i, snd (hd (ap_pending s)))]" and nxt: "Suc i = ap_next s"
    using single_pending [OF inv] en by auto
  have "filter (\<lambda>p. fst p \<noteq> i) (ap_pending s) = []"
    by (subst pend) simp
  then show ?thesis
    using Settle nxt inv
    by (auto simp: single_flight_def settle_analyze_def Let_def split: sum.split)
qed (use inv ok in \<open>auto simp: single_flight_def select_tab_def\<close>)

lemma js_get_Some: "js_get d k = Inr (Some v) \<Longrightarrow> \<exists>kvs. d = JObj kvs \<and> map_of (rev kvs) k = Some v"
  by (cases d) auto

lemma analyze_run_reachable:
  "analyze_reachable ok s \<Longrightarrow> list_all ok es \<Longrightarrow> analyze_run s es = Some t \<Longrightarrow> analyze_reachable ok t"
proof (induction es arbitrary: s)
  case Nil
  then show ?case by simp
next
  case (Cons e es)
  then have "analyze_enabled s e" and run: "analyze_run (analyze_step s e) es = Some t"
    by (simp_all split: if_splits)
  have "analyze_reachable ok (analyze_step s e)"
    using Cons.prems(1) _ \<open>analyze_enabled s e\<close> by (rule analyze_reachable.step) (use Cons.prems(2) in simp)
  then show ?case
    using Cons.prems(2) run by (intro Cons.IH) simp_all
qed

lemma analyze_run_from_init:
  "list_all ok es \<Longrightarrow> analyze_run (analyze_init a) es = Some t \<Longrightarrow> analyze_reachable ok t"
  by (rule analyze_run_reachable [OF analyze_reachable.init])

section \<open>Properties of the analysis step\<close>

text \<open>
  C17. While analyses are started with the Analyze button only, at most one request is
  in flight, the page shows "analysing" exactly while it is, and the analysis on screen is
  always the response to the latest request started.
\<close>

theorem analyze_button_single_flight: "analyze_reachable no_enter s \<Longrightarrow> single_flight s"
  by (induction rule: analyze_reachable.induct) (auto intro: single_flight_init single_flight_step)

theorem analyze_button_single_flight_witness:
  "single_flight (the (analyze_run (analyze_init ''A'')
     [TypeUrl ''u'', ClickAnalyze, Settle 0 (RawResponse 200 ''OK'' (Some (JObj [])))]))"
proof -
  have run: "analyze_run (analyze_init ''A'')
       [TypeUrl ''u'', ClickAnalyze, Settle 0 (RawResponse 200 ''OK'' (Some (JObj [])))]
     = Some (the (analyze_run (analyze_init ''A'')
       [TypeUrl ''u'', ClickAnalyze, Settle 0 (RawResponse 200 ''OK'' (Some (JObj [])))]))"
    by (simp add: analyze_init_def start_analyze_def settle_analyze_def analyze_request_def has_input_def
        response_ok_def Let_def)
  have "analyze_reachable no_enter (the (analyze_run (analyze_init ''A'')
     [TypeUrl ''u'', ClickAnalyze, Settle 0 (RawResponse 200 ''OK'' (Some (JObj [])))]))"
    by (rule analyze_run_from_init [OF _ run]) simp
  then show ?thesis
    by (rule analyze_button_single_flight)
qed

text \<open>
  Enter in the URL field starts an analysis even while one is running. Analysing
  repository A, then B, where B's response arrives first, leaves A's analysis on screen
  (and ready to submit) while the input shows B and nothing is in flight: the
  single-flight property fails on a reachable state.
\<close>

theorem enter_race_stale_analysis:
  "\<exists>t. analyze_run (analyze_init a)
         [TypeUrl ''A'', PressEnter, TypeUrl ''B'', PressEnter,
          Settle 1 (RawResponse 200 ''OK'' (Some (JStr ''for B''))),
          Settle 0 (RawResponse 200 ''OK'' (Some (JStr ''for A'')))] = Some t
     \<and> analyze_reachable (\<lambda>_. True) t \<and> \<not> single_flight t
     \<and> ap_repo_url t = ''B'' \<and> ap_analysis t = Some (JStr ''for A'') \<and> ap_shown t = Some 0
     \<and> ap_next t = 2 \<and> ap_pending t = [] \<and> \<not> ap_analyzing t"
proof -
  let ?es = "[TypeUrl ''A'', PressEnter, TypeUrl ''B'', PressEnter,
          Settle 1 (RawResponse 200 ''OK'' (Some (JStr ''for B''))),
          Settle 0 (RawResponse 200 ''OK'' (Some (JStr ''for A'')))]"
  obtain t where run: "analyze_run (analyze_init a) ?es = Some t"
    by (simp add: analyze_init_def start_analyze_def settle_analyze_def analyze_request_def
        response_ok_def Let_def)
  have "analyze_reachable (\<lambda>_. True) t"
    by (rule analyze_run_from_init [OF _ run]) simp
  moreover have "ap_repo_url t = ''B'' \<and> ap_analysis t = Some (JStr ''for A'') \<and> ap_shown t = Some 0
     \<and> ap_next t = 2 \<and> ap_pending t = [] \<and> \<not> ap_analyzing t"
    using run by (auto simp: analyze_init_def start_analyze_def settle_analyze_def analyze_request_def
        response_ok_def Let_def)
  ultimately show ?thesis
    using run by (auto simp: single_flight_def)
qed

text \<open>
  C18. When an analysis request fails, the page shows an error box, unless the server
  answered with an error status and a \<open>detail\<close> that is truthy but whose string form is
  empty (an empty array, say): then neither an error nor an analysis appears.
\<close>

theorem analyze_failure_shown:
  assumes res: "analyze_response out = Inl e" and hidden: "\<not> error_shown e"
  shows "\<exists>st txt kvs v. out = RawResponse st txt (Some (JObj kvs)) \<and> \<not> response_ok st
           \<and> map_of (rev kvs) ''detail'' = Some v \<and> json_truthy v \<and> json_blank v"
proof -
  obtain st tx body where out: "out = RawResponse st tx body"
    using res hidden by (cases out) auto
  have nok: "\<not> response_ok st"
    using res hidden out by (auto split: option.splits)
  let ?d = "case body of None \<Rightarrow> JObj [] | Some j \<Rightarrow> j"
  obtain v where get: "js_get ?d ''detail'' = Inr (Some v)" and tv: "json_truthy v"
    and ev: "e = error_of_value v"
    using res hidden out nok
    by (auto simp: Let_def simp del: digits10.simps split: sum.splits option.splits if_splits)
  obtain kvs where d: "?d = JObj kvs" and kv: "map_of (rev kvs) ''detail'' = Some v"
    using get js_get_Some by blast
  have body: "body = Some (JObj kvs)"
    using d kv by (cases body) auto
  have "json_blank v"
    using hidden tv ev by (cases v) (auto simp: error_of_value_def)
  then show ?thesis
    using out nok body kv tv by blast
qed

theorem analyze_failure_shown_witness:
  "\<exists>st txt kvs v. RawResponse 422 ''Unprocessable Entity'' (Some (JObj [(''detail'', JArr [])]))
        = RawResponse st txt (Some (JObj kvs)) \<and> \<not> response_ok st
      \<and> map_of (rev kvs) ''detail'' = Some v \<and> json_truthy v \<and> json_blank v"
proof -
  have "analyze_response (RawResponse 422 ''Unprocessable Entity'' (Some (JObj [(''detail'', JArr [])])))
      = Inl (MsgOf (JArr []))"
    by (simp add: response_ok_def error_of_value_def)
  moreover have "\<not> error_shown (MsgOf (JArr []))"
    by simp
  ultimately show ?thesis
    by (rule analyze_failure_shown)
qed

end
