(* ===== verification/Launch.thy ===== *)
theory Launch
  imports Prelude
begin

text \<open>
  The launch scripts: start.sh (src/unnamed/part_005) and start.bat (src/start.bat). Each
  checks for \<open>.env\<close>, starts the backend, waits, probes \<open>/health\<close>, starts the
  frontend, and waits for the user before stopping both. The environment fixes what the
  script cannot: whether \<open>.env\<close> exists, whether the health probe succeeds, and when
  the user interrupts it. An outcome lists the services the script started and did not
  stop itself; \<open>None\<close> is a script still waiting, with its services up.
\<close>

datatype service = Backend | Frontend

text \<open>What ends the script's waiting: nothing, Ctrl+C during one of its waits, or, with
  no Ctrl+C, both services exiting on their own while the script waits for them.\<close>

datatype interrupt_at =
  NoInterrupt
| InBackendWait
| InFrontendWait
| AtFinalWait
| JobsExited

text \<open>What the probe \<open>curl -s http://localhost:8000/health\<close> meets: no server, or a
  server answering with an HTTP status.\<close>

datatype probe_result =
  NoAnswer
| Answer nat

record launch_env =
  env_file :: bool
  probe :: probe_result
  interrupt :: interrupt_at

datatype launch_outcome =
  Exited int "service list"
| Interrupted "service list"

text \<open>\<open>curl -s\<close> without \<open>-f\<close> exits with 0 whenever the server answers, whatever the
  status; it fails only when it gets no answer.\<close>

fun curl_succeeds :: "probe_result \<Rightarrow> bool" where
  "curl_succeeds NoAnswer = False"
| "curl_succeeds (Answer st) = True"

text \<open>
  start.sh. The \<open>INT\<close> trap is installed at line 56, after both services are up: an
  interrupt during the sleeps of lines 21 and 42 ends the script with the default action,
  and the script itself stops nothing. After the trap, Ctrl+C runs it: it kills both
  jobs and exits 0. Without Ctrl+C, \<open>wait\<close> (line 58) returns with status 0 once both
  background jobs have exited, and so does the script.
\<close>

definition start_sh :: "launch_env \<Rightarrow> launch_outcome option" where
  "start_sh env =
     (if \<not> env_file env then Some (Exited 1 [])
      else if interrupt env = InBackendWait then Some (Interrupted [Backend])
      else if \<not> curl_succeeds (probe env) then Some (Exited 1 [])
      else if interrupt env = InFrontendWait then Some (Interrupted [Backend, Frontend])
      else if interrupt env = AtFinalWait \<or> interrupt env = JobsExited then Some (Exited 0 [])
      else None)"

text \<open>
  start.bat. The services run in windows of their own (\<open>start ... cmd /k\<close>), which
  outlive the script unless it closes them with the \<open>taskkill\<close> of lines 54-55; a key
  pressed at the \<open>pause\<close> of line 51 (the \<open>AtFinalWait\<close> event) leads there; services
  that exit on their own do not end the \<open>pause\<close>. The
  \<open>timeout /nobreak\<close> waits ignore keys; an interrupt there ends the batch job.
\<close>

definition start_bat :: "launch_env \<Rightarrow> launch_outcome option" where
  "start_bat env =
     (if \<not> env_file env then Some (Exited 1 [])
      else if interrupt env = InBackendWait then Some (Interrupted [Backend])
      else if \<not> curl_succeeds (probe env) then Some (Exited 1 [Backend])
      else if interrupt env = InFrontendWait then Some (Interrupted [Backend, Frontend])
      else if interrupt env = AtFinalWait then Some (Exited 0 [])
      else None)"

section \<open>Properties of the launch scripts\<close>

text \<open>
  C19. Whenever start.sh exits of its own accord (a missing \<open>.env\<close>, a failed health
  probe, Ctrl+C once both services are up, or both services exiting on their own), it
  leaves no service it started running, and it exits with status 0 only after starting
  both, once both have stopped. Neither script checks
  the health endpoint's status, and they differ when the backend does not answer: with no
  answer, start.sh kills the backend it started before exiting with status 1, while
  start.bat exits with status 1 and leaves the backend's window running; a backend that
  answers \<open>/health\<close> with 503 is reported as running, and both scripts go on to start the
  frontend, as they do for a healthy one.
\<close>

theorem start_sh_exit_clean:
  "(start_sh env = Some (Exited c rs)
      \<longrightarrow> rs = [] \<and> (c = 0 \<longleftrightarrow> env_file env \<and> curl_succeeds (probe env)
            \<and> (interrupt env = AtFinalWait \<or> interrupt env = JobsExited)))
   \<and> start_sh \<lparr>env_file = True, probe = NoAnswer, interrupt = NoInterrupt\<rparr> = Some (Exited 1 [])
   \<and> start_bat \<lparr>env_file = True, probe = NoAnswer, interrupt = NoInterrupt\<rparr> = Some (Exited 1 [Backend])
   \<and> start_sh \<lparr>env_file = True, probe = Answer 503, interrupt = InFrontendWait\<rparr>
     = Some (Interrupted [Backend, Frontend])
   \<and> start_bat \<lparr>env_file = True, probe = Answer 503, interrupt = InFrontendWait\<rparr>
     = Some (Interrupted [Backend, Frontend])
   \<and> start_sh \<lparr>env_file = True, probe = Answer 503, interrupt = AtFinalWait\<rparr> = Some (Exited 0 [])"
proof (intro conjI)
  show "start_sh env = Some (Exited c rs)
      \<longrightarrow> rs = [] \<and> (c = 0 \<longleftrightarrow> env_file env \<and> curl_succeeds (probe env)
            \<and> (interrupt env = AtFinalWait \<or> interrupt env = JobsExited))"
    by (auto simp: start_sh_def split: if_splits)
qed (simp_all add: start_sh_def start_bat_def)

theorem start_sh_exit_clean_witness:
  "start_sh \<lparr>env_file = True, probe = NoAnswer, interrupt = NoInterrupt\<rparr> = Some (Exited 1 [])
   \<and> ((1::int) = 0 \<longleftrightarrow> False)"
proof -
  have run: "start_sh \<lparr>env_file = True, probe = NoAnswer, interrupt = NoInterrupt\<rparr> = Some (Exited 1 [])"
    by (simp add: start_sh_def)
  have "start_sh \<lparr>env_file = True, probe = NoAnswer, interrupt = NoInterrupt\<rparr> = Some (Exited 1 [])
      \<longrightarrow> ([] :: service list) = []
      \<and> ((1::int) = 0 \<longleftrightarrow> env_file \<lparr>env_file = True, probe = NoAnswer, interrupt = NoInterrupt\<rparr>
          \<and> curl_succeeds (probe \<lparr>env_file = True, probe = NoAnswer, interrupt = NoInterrupt\<rparr>)
          \<and> (interrupt \<lparr>env_file = True, probe = NoAnswer, interrupt = NoInterrupt\<rparr> = AtFinalWait
            \<or> interrupt \<lparr>env_file = True, probe = NoAnswer, interrupt = NoInterrupt\<rparr> = JobsExited))"
    using start_sh_exit_clean [of "\<lparr>env_file = True, probe = NoAnswer, interrupt = NoInterrupt\<rparr>" 1 "[]"]
    by (rule conjunct1)
  then show ?thesis
    using run by simp
qed

end
