(* ===== verification/Dashboard.thy ===== *)
theory Dashboard
  imports Views Wallet
begin

text \<open>
  The dashboard page (src/frontend/src/pages/RecordsPage.jsx, \<open>DashboardPage\<close>, lines
  9-59 and the inputs of lines 73-127) together with the wallet context it reads and
  writes. \<open>handleLookup\<close> is split at its \<open>await\<close>: its start issues the two requests
  and its settling stores what they returned (\<open>lookup_outcome\<close> of the Views theory).
  The \<open>useEffect\<close> of lines 18-22 runs after every event that changes the context's
  address, and on mount. Each lookup has an identifier; the ghost field \<open>dp_shown\<close>
  records which wallet's reputation is on screen.
\<close>

record dash_page =
  dp_wallet :: wallet_state
  dp_input :: string
  dp_loading :: bool
  dp_error :: string
  dp_reputation :: "reputation_profile option"
  dp_records :: "skill_record list"
  dp_pending :: "(nat \<times> string) list"
  dp_next :: nat
  dp_shown :: "string option"

type_synonym lookup_response =
  "string + (reputation_profile http_resp \<times> skill_record list http_resp)"

datatype dash_event =
  DInput string
| DManual
| DRetry
| DWallet wallet_event
| DSettle nat lookup_response

text \<open>The context's \<open>address\<close> where the code tests it for truth: \<open>undefined\<close> and
  \<open>''\<close> are both falsy.\<close>

definition addr_str :: "dash_page \<Rightarrow> string" where
  "addr_str s = (case w_address (dp_wallet s) of None \<Rightarrow> [] | Some a \<Rightarrow> a)"

text \<open>The start of \<open>handleLookup(walletAddr)\<close>, lines 25-37.\<close>

definition start_lookup :: "string \<Rightarrow> dash_page \<Rightarrow> dash_page" where
  "start_lookup wallet_addr s =
     (let w = js_or wallet_addr (js_or (addr_str s) (dp_input s)) in
      if length w < 58 then s
      else s\<lparr>dp_loading := True, dp_error := [], dp_reputation := None, dp_records := [],
             dp_shown := None, dp_pending := dp_pending s @ [(dp_next s, w)],
             dp_next := Suc (dp_next s)\<rparr>)"

text \<open>The settling of lookup \<open>i\<close>, lines 39-51.\<close>

definition settle_lookup :: "nat \<Rightarrow> lookup_response \<Rightarrow> dash_page \<Rightarrow> dash_page" where
  "settle_lookup i res s =
     (case map_of (dp_pending s) i of
        None \<Rightarrow> s
      | Some w \<Rightarrow>
          let s' = s\<lparr>dp_pending := filter (\<lambda>p. fst p \<noteq> i) (dp_pending s), dp_loading := False\<rparr>
          in case lookup_outcome res of
               Inl m \<Rightarrow> s'\<lparr>dp_error := m\<rparr>
             | Inr (p, rs) \<Rightarrow> s'\<lparr>dp_reputation := Some p, dp_records := rs, dp_shown := Some w\<rparr>)"

text \<open>\<open>handleManualLookup\<close>, lines 54-59: the context takes the typed address, then a
  lookup starts for it.\<close>

definition manual_lookup :: "dash_page \<Rightarrow> dash_page" where
  "manual_lookup s =
     (if 58 \<le> length (dp_input s)
      then start_lookup (dp_input s) (s\<lparr>dp_wallet := set_manual_wallet (dp_input s) (dp_wallet s)\<rparr>)
      else s)"

fun dash_handle :: "dash_page \<Rightarrow> dash_event \<Rightarrow> dash_page" where
  "dash_handle s (DInput x) = s\<lparr>dp_input := x\<rparr>"
| "dash_handle s DManual = manual_lookup s"
| "dash_handle s DRetry = start_lookup (addr_str s) s"
| "dash_handle s (DWallet e) = s\<lparr>dp_wallet := wallet_step (dp_wallet s) e\<rparr>"
| "dash_handle s (DSettle i res) = settle_lookup i res s"

text \<open>The effect of lines 18-22, run when the address differs from the one of the
  previous render.\<close>

definition address_effect :: "dash_page \<Rightarrow> dash_page" where
  "address_effect s =
     (case w_address (dp_wallet s) of
        Some a \<Rightarrow> if a \<noteq> [] \<and> 58 \<le> length a then start_lookup a s else s
      | None \<Rightarrow> s)"

definition dash_step :: "dash_page \<Rightarrow> dash_event \<Rightarrow> dash_page" where
  "dash_step s e =
     (let s' = dash_handle s e in
      if w_address (dp_wallet s') \<noteq> w_address (dp_wallet s) then address_effect s' else s')"

text \<open>The wallet input and its Lookup controls exist while not connected (line 73); Enter
  (line 93) does not wait for a lookup in flight; Retry (line 123) shows when connected
  with an error and nothing loading.\<close>

fun dash_enabled :: "dash_page \<Rightarrow> dash_event \<Rightarrow> bool" where
  "dash_enabled s (DInput x) \<longleftrightarrow> \<not> w_connected (dp_wallet s)"
| "dash_enabled s DManual \<longleftrightarrow> \<not> w_connected (dp_wallet s)"
| "dash_enabled s DRetry \<longleftrightarrow> w_connected (dp_wallet s) \<and> dp_error s \<noteq> [] \<and> \<not> dp_loading s"
| "dash_enabled s (DWallet e) \<longleftrightarrow> wallet_enabled (dp_wallet s) e"
| "dash_enabled s (DSettle i res) \<longleftrightarrow> i \<in> fst ` set (dp_pending s)"

text \<open>Mounting the page with the stored entry \<open>st\<close>: the effect runs once.\<close>

text \<open>What the page shows, lines 128-227: with a profile, the connected address (line 134),
  the profile's view and the number of records on the timeline; the empty state when
  nothing is loading, there is no profile nor error, and the context is connected.\<close>

record dash_screen =
  ds_address :: "string option"
  ds_view :: "dashboard_view option"
  ds_timeline :: nat
  ds_empty :: bool

definition dash_screen :: "dash_page \<Rightarrow> dash_screen" where
  "dash_screen s =
     \<lparr>ds_address = (if dp_reputation s \<noteq> None \<and> w_connected (dp_wallet s) then Some (addr_str s) else None),
      ds_view = map_option dashboard_view (dp_reputation s), ds_timeline = length (dp_records s),
      ds_empty = (\<not> dp_loading s \<and> dp_reputation s = None \<and> w_connected (dp_wallet s) \<and> dp_error s = [])\<rparr>"

definition dash_init :: "string option \<Rightarrow> dash_page" where
  "dash_init st =
     address_effect
       \<lparr>dp_wallet = wallet_init st, dp_input = [], dp_loading = False, dp_error = [],
        dp_reputation = None, dp_records = [], dp_pending = [], dp_next = 0, dp_shown = None\<rparr>"

inductive dash_reachable :: "dash_page \<Rightarrow> bool" where
  init: "storage_ok st \<Longrightarrow> dash_reachable (dash_init st)"
| step: "dash_reachable s \<Longrightarrow> dash_enabled s e \<Longrightarrow> dash_reachable (dash_step s e)"

fun dash_run :: "dash_page \<Rightarrow> dash_event list \<Rightarrow> dash_page option" where
  "dash_run s [] = Some s"
| "dash_run s (e # es) = (if dash_enabled s e then dash_run (dash_step s e) es else None)"

definition ok_lookup :: lookup_response where
  "ok_lookup = Inr (\<lparr>hr_ok = True, hr_body = Inr empty_profile, hr_detail = []\<rparr>,
                    \<lparr>hr_ok = True, hr_body = Inr [], hr_detail = []\<rparr>)"

definition wallet_a :: string where
  "wallet_a = replicate 58 (CHR ''A'')"

definition wallet_b :: string where
  "wallet_b = replicate 58 (CHR ''B'')"

definition lookup_race :: "dash_event list" where
  "lookup_race =
     [DInput wallet_a, DManual, DWallet (UserDisconnect False), DInput wallet_b, DManual,
      DSettle 2 ok_lookup, DSettle 3 ok_lookup, DSettle 0 ok_lookup, DSettle 1 ok_lookup]"

definition loading_inv :: "dash_page \<Rightarrow> bool" where
  "loading_inv s \<longleftrightarrow> (dp_loading s \<longrightarrow> dp_pending s \<noteq> [])"

text \<open>The identifiers of the lookups in flight are distinct and below the next one.\<close>

definition ids_inv :: "dash_page \<Rightarrow> bool" where
  "ids_inv s \<longleftrightarrow> distinct (map fst (dp_pending s)) \<and> (\<forall>p \<in> set (dp_pending s). fst p < dp_next s)"

text \<open>The answers to the lookups \<open>ps\<close>, in their order, with the responses \<open>res\<close>.\<close>

definition answers :: "(nat \<Rightarrow> lookup_response) \<Rightarrow> (nat \<times> string) list \<Rightarrow> dash_event list" where
  "answers res ps = map (\<lambda>p. DSettle (fst p) (res (fst p))) ps"

section \<open>Lemmas\<close>

lemma start_lookup_inv: "loading_inv s \<Longrightarrow> loading_inv (start_lookup w s)"
  by (simp add: loading_inv_def start_lookup_def Let_def)

lemma settle_lookup_inv: "loading_inv s \<Longrightarrow> loading_inv (settle_lookup i res s)"
  by (auto simp: loading_inv_def settle_lookup_def Let_def split: option.split sum.split)

lemma address_effect_inv: "loading_inv s \<Longrightarrow> loading_inv (address_effect s)"
  by (simp add: address_effect_def start_lookup_inv split: option.split)

lemma loading_inv_wallet_input [simp]:
  "loading_inv (s\<lparr>dp_wallet := w\<rparr>) = loading_inv s"
  "loading_inv (s\<lparr>dp_input := x\<rparr>) = loading_inv s"
  by (simp_all add: loading_inv_def)

lemma dash_handle_inv: "loading_inv s \<Longrightarrow> loading_inv (dash_handle s e)"
  by (cases e) (simp_all add: manual_lookup_def start_lookup_inv settle_lookup_inv)

lemma dash_step_inv: "loading_inv s \<Longrightarrow> loading_inv (dash_step s e)"
  by (simp add: dash_step_def Let_def dash_handle_inv address_effect_inv)

lemma dash_init_inv: "loading_inv (dash_init st)"
  unfolding dash_init_def by (rule address_effect_inv) (simp add: loading_inv_def)

lemma ids_inv_update [simp]:
  "ids_inv (s\<lparr>dp_wallet := w\<rparr>) = ids_inv s"
  "ids_inv (s\<lparr>dp_input := x\<rparr>) = ids_inv s"
  by (simp_all add: ids_inv_def)

lemma start_lookup_ids: "ids_inv s \<Longrightarrow> ids_inv (start_lookup w s)"
  by (auto simp: ids_inv_def start_lookup_def Let_def)

lemma settle_lookup_ids: "ids_inv s \<Longrightarrow> ids_inv (settle_lookup i res s)"
  by (auto simp: ids_inv_def settle_lookup_def Let_def distinct_map_filter
      split: option.split sum.split)

lemma address_effect_ids: "ids_inv s \<Longrightarrow> ids_inv (address_effect s)"
  by (simp add: address_effect_def start_lookup_ids split: option.split)

lemma dash_step_ids: "ids_inv s \<Longrightarrow> ids_inv (dash_step s e)"
proof -
  assume "ids_inv s"
  then have "ids_inv (dash_handle s e)"
    by (cases e) (simp_all add: manual_lookup_def start_lookup_ids settle_lookup_ids)
  then show ?thesis
    by (simp add: dash_step_def Let_def address_effect_ids)
qed

lemma dash_reachable_loading: "dash_reachable s \<Longrightarrow> loading_inv s"
  by (induction rule: dash_reachable.induct) (simp_all add: dash_init_inv dash_step_inv)

text \<open>The empty state never shows together with a profile, nor while a lookup is loading.\<close>

lemma dash_screen_exclusive:
  "ds_view (dash_screen s) \<noteq> None \<Longrightarrow> \<not> ds_empty (dash_screen s)"
  "dp_loading s \<Longrightarrow> \<not> ds_empty (dash_screen s)"
  by (auto simp: dash_screen_def)

lemma dash_reachable_ids: "dash_reachable s \<Longrightarrow> ids_inv s"
proof (induction rule: dash_reachable.induct)
  case (init st)
  show ?case
    unfolding dash_init_def by (rule address_effect_ids) (simp add: ids_inv_def)
next
  case (step s e)
  from step.IH show ?case
    by (rule dash_step_ids)
qed

text \<open>The page's handlers leave the wallet context alone except through its own
  operations: a wallet event and the manual lookup's \<open>setWalletAddress\<close>, an enabled
  \<open>SetManual\<close> step. So the wallet part of a reachable dashboard state is a reachable
  state of the wallet context, and the Wallet theory's invariants hold there.\<close>

lemma start_lookup_wallet [simp]: "dp_wallet (start_lookup w s) = dp_wallet s"
  by (simp add: start_lookup_def Let_def)

lemma address_effect_wallet [simp]: "dp_wallet (address_effect s) = dp_wallet s"
  by (simp add: address_effect_def split: option.split)

lemma settle_lookup_wallet [simp]: "dp_wallet (settle_lookup i res s) = dp_wallet s"
  by (simp add: settle_lookup_def Let_def split: option.split sum.split prod.split)

lemma dash_reachable_wallet: "dash_reachable s \<Longrightarrow> wallet_reachable (dp_wallet s)"
proof (induction rule: dash_reachable.induct)
  case (init st)
  then show ?case by (simp add: dash_init_def wallet_reachable.init)
next
  case (step s e)
  have "dp_wallet (dash_step s e) = dp_wallet (dash_handle s e)"
    by (simp add: dash_step_def Let_def)
  moreover have "wallet_reachable (dp_wallet (dash_handle s e))"
  proof (cases e)
    case DManual
    have "wallet_reachable (wallet_step (dp_wallet s) (SetManual (dp_input s)))"
      using step.IH by (rule wallet_reachable.step) simp
    then show ?thesis using DManual step.IH by (simp add: manual_lookup_def)
  next
    case (DWallet x)
    then show ?thesis using step by (auto intro: wallet_reachable.step)
  qed (use step.IH in simp_all)
  ultimately show ?case by simp
qed

lemma settle_head:
  assumes "dp_pending s = (i, w) # ps" and "i \<notin> fst ` set ps"
  shows "dash_step s (DSettle i r) = settle_lookup i r s
    \<and> dp_pending (settle_lookup i r s) = ps \<and> \<not> dp_loading (settle_lookup i r s)"
proof -
  have "filter (\<lambda>p. fst p \<noteq> i) ps = ps"
    using assms(2) by (auto simp: filter_id_conv)
  then show ?thesis
    using assms(1)
    by (auto simp: dash_step_def settle_lookup_def Let_def split: sum.split)
qed

lemma answers_settle:
  "dp_pending s = ps \<Longrightarrow> distinct (map fst ps) \<Longrightarrow> loading_inv s
   \<Longrightarrow> \<exists>t. dash_run s (answers res ps) = Some t \<and> dp_pending t = [] \<and> \<not> dp_loading t"
proof (induction ps arbitrary: s)
  case Nil
  then show ?case
    by (simp add: answers_def loading_inv_def)
next
  case (Cons p ps)
  obtain i w where p: "p = (i, w)"
    by (cases p)
  then have nin: "i \<notin> fst ` set ps"
    using Cons.prems(2) by auto
  let ?s' = "settle_lookup i (res i) s"
  have hd: "dash_step s (DSettle i (res i)) = ?s'" "dp_pending ?s' = ps" "\<not> dp_loading ?s'"
    using settle_head [OF _ nin] Cons.prems(1) p by blast+
  then have "\<exists>t. dash_run ?s' (answers res ps) = Some t \<and> dp_pending t = [] \<and> \<not> dp_loading t"
    using Cons.prems(2) by (intro Cons.IH) (simp_all add: loading_inv_def)
  then show ?case
    using hd Cons.prems(1) p by (simp add: answers_def)
qed

lemma dash_run_reachable:
  "dash_reachable s \<Longrightarrow> dash_run s es = Some t \<Longrightarrow> dash_reachable t"
proof (induction es arbitrary: s)
  case Nil
  then show ?case by simp
next
  case (Cons e es)
  then have "dash_enabled s e" and run: "dash_run (dash_step s e) es = Some t"
    by (simp_all split: if_splits)
  have "dash_reachable (dash_step s e)"
    using Cons.prems(1) \<open>dash_enabled s e\<close> by (rule dash_reachable.step)
  then show ?case
    using run by (rule Cons.IH)
qed

lemma wallet_ab:
  "length wallet_a = 58" "length wallet_b = 58" "wallet_a \<noteq> []" "wallet_b \<noteq> []"
  "wallet_a \<noteq> wallet_b" "wallet_b \<noteq> wallet_a"
  by (simp_all add: wallet_a_def wallet_b_def)

lemmas dash_defs = dash_init_def address_effect_def dash_step_def manual_lookup_def start_lookup_def
  settle_lookup_def addr_str_def

section \<open>Properties of the dashboard\<close>

text \<open>A manual lookup of an address the context does not hold yet fetches the wallet's
  reputation and records twice: once from \<open>handleManualLookup\<close>, and once from the
  effect that the new address of \<open>setManualWallet\<close> triggers.\<close>

lemma manual_lookup_twice:
  assumes "\<not> w_connected (dp_wallet s)" and "58 \<le> length (dp_input s)"
    and "w_address (dp_wallet s) \<noteq> Some (dp_input s)"
  shows "dp_pending (dash_step s DManual)
           = dp_pending s @ [(dp_next s, dp_input s), (Suc (dp_next s), dp_input s)]"
proof -
  have ne: "dp_input s \<noteq> []"
    using assms(2) by auto
  then show ?thesis
    using assms
    by (simp add: dash_step_def manual_lookup_def start_lookup_def address_effect_def
        set_manual_wallet_def js_or_def Let_def)
qed

text \<open>
  C23. The dashboard shows its loading state only while a lookup is in flight: in every
  reachable state with no request pending, \<open>loading\<close> is false; and the lookups in
  flight have distinct identifiers, all below the next one. The page keeps the wallet
  context consistent: its \<open>localStorage\<close> entry mirrors the connected address.
\<close>

theorem dash_loading_only_in_flight:
  "dash_reachable s \<Longrightarrow> loading_inv s \<and> ids_inv s \<and> storage_mirror (dp_wallet s)"
  by (simp add: dash_reachable_loading dash_reachable_ids dash_reachable_wallet reachable_mirror)

theorem dash_loading_only_in_flight_witness:
  "loading_inv (the (dash_run (dash_init None) [DInput wallet_a, DManual]))
   \<and> ids_inv (the (dash_run (dash_init None) [DInput wallet_a, DManual]))
   \<and> storage_mirror (dp_wallet (the (dash_run (dash_init None) [DInput wallet_a, DManual])))"
proof -
  have run: "dash_run (dash_init None) [DInput wallet_a, DManual]
      = Some (the (dash_run (dash_init None) [DInput wallet_a, DManual]))"
    by (simp add: dash_init_def address_effect_def wallet_init_def dash_step_def)
  have "dash_reachable (the (dash_run (dash_init None) [DInput wallet_a, DManual]))"
    by (rule dash_run_reachable [OF dash_reachable.init run]) (simp add: storage_ok_def)
  then show ?thesis
    by (rule dash_loading_only_in_flight)
qed

text \<open>
  C24. Lookups are not tied to the address they were made for, nor made once. A manual
  lookup of an address the context does not hold yet starts two lookups of that wallet:
  one from \<open>handleManualLookup\<close> and one from the effect the new address triggers. Looking
  up wallet A, disconnecting, and looking up wallet B, with A's responses arriving last,
  leaves the dashboard connected to B and labelled with B's address (line 135) while it
  shows A's reputation, with nothing in flight.
\<close>

theorem dash_stale_reputation:
  "(\<not> w_connected (dp_wallet s) \<and> 58 \<le> length (dp_input s) \<and> w_address (dp_wallet s) \<noteq> Some (dp_input s)
      \<longrightarrow> dp_pending (dash_step s DManual) = dp_pending s @ [(dp_next s, dp_input s), (Suc (dp_next s), dp_input s)])
   \<and> (\<exists>t. dash_run (dash_init None) lookup_race = Some t \<and> dash_reachable t
     \<and> w_address (dp_wallet t) = Some wallet_b \<and> w_connected (dp_wallet t)
     \<and> dp_shown t = Some wallet_a \<and> dp_pending t = [] \<and> \<not> dp_loading t)"
proof (intro conjI impI)
  assume "\<not> w_connected (dp_wallet s) \<and> 58 \<le> length (dp_input s) \<and> w_address (dp_wallet s) \<noteq> Some (dp_input s)"
  then show "dp_pending (dash_step s DManual) = dp_pending s @ [(dp_next s, dp_input s), (Suc (dp_next s), dp_input s)]"
    by (intro manual_lookup_twice) simp_all
next
  have "\<exists>t. dash_run (dash_init None) lookup_race = Some t
     \<and> w_address (dp_wallet t) = Some wallet_b \<and> w_connected (dp_wallet t)
     \<and> dp_shown t = Some wallet_a \<and> dp_pending t = [] \<and> \<not> dp_loading t"
    by (simp add: lookup_race_def dash_defs wallet_ab wallet_init_def set_manual_wallet_def
        handle_disconnect_def js_or_def ok_lookup_def lookup_outcome_def Let_def)
  then obtain t where run: "dash_run (dash_init None) lookup_race = Some t"
    and facts: "w_address (dp_wallet t) = Some wallet_b \<and> w_connected (dp_wallet t)
     \<and> dp_shown t = Some wallet_a \<and> dp_pending t = [] \<and> \<not> dp_loading t"
    by blast
  have "dash_reachable t"
    by (rule dash_run_reachable [OF dash_reachable.init run]) (simp add: storage_ok_def)
  with run facts show "\<exists>t. dash_run (dash_init None) lookup_race = Some t \<and> dash_reachable t
     \<and> w_address (dp_wallet t) = Some wallet_b \<and> w_connected (dp_wallet t)
     \<and> dp_shown t = Some wallet_a \<and> dp_pending t = [] \<and> \<not> dp_loading t"
    by blast
qed

theorem dash_stale_reputation_witness:
  "dp_pending (dash_step ((dash_init None)\<lparr>dp_input := wallet_a\<rparr>) DManual)
     = [(0, wallet_a), (1, wallet_a)]"
proof -
  let ?s = "(dash_init None)\<lparr>dp_input := wallet_a\<rparr>"
  have "\<not> w_connected (dp_wallet ?s) \<and> 58 \<le> length (dp_input ?s) \<and> w_address (dp_wallet ?s) \<noteq> Some (dp_input ?s)"
    by (simp add: dash_init_def address_effect_def wallet_init_def wallet_a_def)
  then have "dp_pending (dash_step ?s DManual) = dp_pending ?s @ [(dp_next ?s, dp_input ?s), (Suc (dp_next ?s), dp_input ?s)]"
    using dash_stale_reputation [of ?s] by blast
  then show ?thesis
    by (simp add: dash_init_def address_effect_def wallet_init_def)
qed

text \<open>
  C25. The dashboard never stays loading: from every reachable state, once each lookup in
  flight has been answered, whatever the answers, nothing is pending and the page is not
  loading.
\<close>

theorem dash_lookups_settle:
  assumes "dash_reachable s"
  shows "\<exists>t. dash_run s (answers res (dp_pending s)) = Some t \<and> dp_pending t = [] \<and> \<not> dp_loading t"
proof -
  have "ids_inv s" and "loading_inv s"
    using assms by (simp_all add: dash_reachable_ids dash_reachable_loading)
  then show ?thesis
    by (intro answers_settle) (simp_all add: ids_inv_def)
qed

theorem dash_lookups_settle_witness:
  "\<exists>t. dash_run (the (dash_run (dash_init None) [DInput wallet_a, DManual]))
         (answers (\<lambda>_. ok_lookup) (dp_pending (the (dash_run (dash_init None) [DInput wallet_a, DManual]))))
         = Some t \<and> dp_pending t = [] \<and> \<not> dp_loading t"
proof -
  have run: "dash_run (dash_init None) [DInput wallet_a, DManual]
      = Some (the (dash_run (dash_init None) [DInput wallet_a, DManual]))"
    by (simp add: dash_init_def address_effect_def wallet_init_def dash_step_def)
  have "dash_reachable (the (dash_run (dash_init None) [DInput wallet_a, DManual]))"
    by (rule dash_run_reachable [OF dash_reachable.init run]) (simp add: storage_ok_def)
  then show ?thesis
    by (rule dash_lookups_settle)
qed

end
