(* ===== verification/Scoring.thy ===== *)
theory Scoring
  imports Prelude
begin

text \<open>
  The evidence scoring engine and its signal library (spec.md, sections 4.2 and 4.3; the
  weight table and evaluator policies of the architecture notes, src/unnamed/part_000,
  lines 156-249). The backend code is not in the repository; the engine is modelled from
  the specification and the tables from the notes. An evaluator's result is an input:
  \<open>Some r\<close> for the raw score it returned, \<open>None\<close> when it was skipped for lack of
  metadata. The engine renormalises over the evaluators that ran. The Submit page's table
  of signal icons (part_001, lines 166-175) is modelled alongside, since it must name the
  engine's signals.
\<close>

record signal =
  sig_name :: string
  sig_weight :: real
  sig_raw :: real

record scoring_result =
  overall_score_of :: real
  confidence :: real
  signals :: "signal list"

datatype scoring_error = InsufficientEvidenceError

definition weighted_score :: "signal \<Rightarrow> real" where
  "weighted_score s = sig_raw s * sig_weight s"

text \<open>The repository analysis weight table (GitHubAnalyzer, part_000 lines 160-204), under
  the signal names the frontend uses.\<close>

definition repo_weights :: "(string \<times> real) list" where
  "repo_weights =
     [(''commit_activity'', 0.20), (''code_volume'', 0.10), (''language_diversity'', 0.10),
      (''community_signals'', 0.20), (''documentation'', 0.15), (''recency'', 0.10),
      (''repo_maturity'', 0.10), (''code_quality_signals'', 0.05)]"

text \<open>The recency evaluator (part_000 lines 188-193; spec 4.2): by days since the last
  activity.\<close>

definition recency_score :: "nat \<Rightarrow> real" where
  "recency_score days =
     (if days \<le> 7 then 1.0 else if days \<le> 30 then 0.7 else if days \<le> 90 then 0.4 else 0.1)"

text \<open>The community-signal blend (part_000 lines 177-180; spec 4.2) over the normalised
  star, fork and watcher counts.\<close>

definition community_blend :: "real \<Rightarrow> real \<Rightarrow> real \<Rightarrow> real" where
  "community_blend stars forks watchers = 0.5 * stars + 0.3 * forks + 0.2 * watchers"

text \<open>Certificate issuer trust (part_000 lines 244-249), with the conservative baseline of
  the specification for unknown issuers.\<close>

definition issuer_table :: "(string \<times> real) list" where
  "issuer_table =
     [(''AWS'', 0.95), (''Google Cloud'', 0.95), (''Microsoft'', 0.90), (''Coursera'', 0.80),
      (''Udemy'', 0.60)]"

definition issuer_trust :: "string \<Rightarrow> real" where
  "issuer_trust issuer = (case map_of issuer_table issuer of Some t \<Rightarrow> t | None \<Rightarrow> 0.4)"

text \<open>The signals of the evaluators that ran, in the table's order.\<close>

definition ran_signals :: "(string \<times> real) list \<Rightarrow> (string \<Rightarrow> real option) \<Rightarrow> signal list" where
  "ran_signals tbl ev =
     List.map_filter (\<lambda>(n, w). map_option (\<lambda>r. \<lparr>sig_name = n, sig_weight = w, sig_raw = r\<rparr>) (ev n)) tbl"

text \<open>
  \<open>Score\<close> (spec 4.3): the sum of the weighted scores of the evaluators that ran,
  divided by the sum of their weights, and the confidence as the fraction of evaluators that
  ran; an error when none ran. The specification leaves a set of evaluators that ran with
  total weight 0 to a default it does not give; the model takes 0.
\<close>

definition score_evidence ::
  "(string \<times> real) list \<Rightarrow> (string \<Rightarrow> real option) \<Rightarrow> scoring_error + scoring_result" where
  "score_evidence tbl ev =
     (let ran = ran_signals tbl ev;
          wsum = sum_list (map sig_weight ran);
          total = sum_list (map weighted_score ran)
      in if ran = [] then Inl InsufficientEvidenceError
         else Inr \<lparr>overall_score_of = (if wsum = 0 then 0 else total / wsum),
                   confidence = real (length ran) / real (length tbl), signals = ran\<rparr>)"

text \<open>\<open>SIGNAL_ICONS\<close> of the Submit page; a signal missing from it is shown with the
  fallback icon.\<close>

definition signal_icons :: "(string \<times> string) list" where
  "signal_icons =
     [(''commit_activity'', ''fire''), (''code_volume'', ''package''), (''language_diversity'', ''globe''),
      (''community_signals'', ''people''), (''documentation'', ''memo''), (''recency'', ''stopwatch''),
      (''repo_maturity'', ''classical_building''), (''code_quality_signals'', ''check_mark''),
      (''originality'', ''direct_hit''), (''content_presence'', ''page''), (''recent_activity'', ''stopwatch''),
      (''commit_consistency'', ''bar_chart''), (''language_verification'', ''abcd''),
      (''file_integrity'', ''lock''), (''file_type'', ''clipboard''), (''file_size'', ''ruler''),
      (''name_plausibility'', ''label''), (''project_structure'', ''dividers''),
      (''hash_integrity'', ''locked_with_key'')]"

definition signal_icon :: "string \<Rightarrow> string" where
  "signal_icon n = (case map_of signal_icons n of Some i \<Rightarrow> i | None \<Rightarrow> ''bar_chart'')"

text \<open>The side conditions of the bounds: weights are not negative and raw scores lie in
  \<open>[0, 1]\<close>.\<close>

definition weights_ok :: "(string \<times> real) list \<Rightarrow> bool" where
  "weights_ok tbl \<longleftrightarrow> (\<forall>(n, w) \<in> set tbl. 0 \<le> w)"

definition raws_ok :: "(string \<Rightarrow> real option) \<Rightarrow> bool" where
  "raws_ok ev \<longleftrightarrow> (\<forall>n r. ev n = Some r \<longrightarrow> 0 \<le> r \<and> r \<le> 1)"

section \<open>Lemmas\<close>

lemma ran_signals_Nil [simp]: "ran_signals [] ev = []"
  by (simp add: ran_signals_def map_filter_simps)

lemma ran_signals_Cons [simp]:
  "ran_signals ((n, w) # tbl) ev =
     (case ev n of None \<Rightarrow> ran_signals tbl ev
      | Some r \<Rightarrow> \<lparr>sig_name = n, sig_weight = w, sig_raw = r\<rparr> # ran_signals tbl ev)"
  by (simp add: ran_signals_def map_filter_simps split: option.split)

lemma ran_signals_mem:
  "s \<in> set (ran_signals tbl ev) \<Longrightarrow>
   \<exists>n w r. (n, w) \<in> set tbl \<and> ev n = Some r \<and> s = \<lparr>sig_name = n, sig_weight = w, sig_raw = r\<rparr>"
  by (induction tbl) (auto split: option.splits)

lemma length_ran_signals: "length (ran_signals tbl ev) \<le> length tbl"
  by (induction tbl) (auto split: option.split)

lemma ran_signals_Nil_iff: "ran_signals tbl ev = [] \<longleftrightarrow> (\<forall>(n, w) \<in> set tbl. ev n = None)"
  by (induction tbl) (auto split: option.splits)

lemma ran_signals_full:
  "\<forall>(n, w) \<in> set tbl. ev n \<noteq> None \<Longrightarrow>
   map sig_weight (ran_signals tbl ev) = map snd tbl
   \<and> map weighted_score (ran_signals tbl ev) = map (\<lambda>(n, w). the (ev n) * w) tbl"
  by (induction tbl) (auto simp: weighted_score_def split: option.split)

lemma weighted_le_weight:
  assumes "weights_ok tbl" and "raws_ok ev" and "s \<in> set (ran_signals tbl ev)"
  shows "0 \<le> weighted_score s \<and> weighted_score s \<le> sig_weight s \<and> 0 \<le> sig_weight s"
proof -
  obtain n w r where "(n, w) \<in> set tbl" "ev n = Some r" "s = \<lparr>sig_name = n, sig_weight = w, sig_raw = r\<rparr>"
    using ran_signals_mem [OF assms(3)] by blast
  moreover have "0 \<le> w"
    using assms(1) \<open>(n, w) \<in> set tbl\<close> by (auto simp: weights_ok_def)
  moreover have "0 \<le> r \<and> r \<le> 1"
    using assms(2) \<open>ev n = Some r\<close> by (auto simp: raws_ok_def)
  ultimately show ?thesis
    by (auto simp: weighted_score_def mult_le_cancel_right1 intro: mult_left_le_one_le)
qed

lemma score_bounds:
  assumes "weights_ok tbl" and "raws_ok ev" and "score_evidence tbl ev = Inr res"
  shows "0 \<le> overall_score_of res \<and> overall_score_of res \<le> 1
    \<and> 0 < confidence res \<and> confidence res \<le> 1"
proof -
  let ?ran = "ran_signals tbl ev"
  have ne: "?ran \<noteq> []"
    using assms(3) by (auto simp: score_evidence_def Let_def split: if_splits)
  have tot: "0 \<le> sum_list (map weighted_score ?ran)"
    and le: "sum_list (map weighted_score ?ran) \<le> sum_list (map sig_weight ?ran)"
    using weighted_le_weight [OF assms(1,2)]
    by (auto intro!: sum_list_nonneg sum_list_mono)
  have len: "0 < length ?ran" "length ?ran \<le> length tbl"
    using ne length_ran_signals by auto
  have res: "res = \<lparr>overall_score_of = (if sum_list (map sig_weight ?ran) = 0 then 0
               else sum_list (map weighted_score ?ran) / sum_list (map sig_weight ?ran)),
             confidence = real (length ?ran) / real (length tbl), signals = ?ran\<rparr>"
    using assms(3) ne by (simp add: score_evidence_def Let_def)
  have "0 < real (length ?ran) / real (length tbl)"
  proof -
    have "0 < length tbl"
      using len by linarith
    then show ?thesis
      using len by (intro divide_pos_pos) simp_all
  qed
  then show ?thesis
    using tot le len by (simp add: res divide_le_eq_1)
qed

lemma length_ran_signals_eq:
  "length (ran_signals tbl ev) = length tbl \<longleftrightarrow> (\<forall>(n, w) \<in> set tbl. ev n \<noteq> None)"
proof (induction tbl)
  case Nil
  then show ?case by simp
next
  case (Cons p tbl)
  obtain n w where p: "p = (n, w)"
    by (cases p)
  show ?case
    using Cons length_ran_signals [of tbl ev] by (auto simp: p split: option.split)
qed

lemma score_evidence_Inr:
  "score_evidence tbl ev = Inr res \<Longrightarrow>
   res = \<lparr>overall_score_of = (if sum_list (map sig_weight (ran_signals tbl ev)) = 0 then 0
            else sum_list (map weighted_score (ran_signals tbl ev)) / sum_list (map sig_weight (ran_signals tbl ev))),
          confidence = real (length (ran_signals tbl ev)) / real (length tbl), signals = ran_signals tbl ev\<rparr>
   \<and> ran_signals tbl ev \<noteq> []"
  by (auto simp: score_evidence_def Let_def split: if_splits)

section \<open>Properties of the scoring engine\<close>

text \<open>The repository weight table is well formed: its weights lie in \<open>[0, 1]\<close> and sum to
  1, its signal names are distinct, and the Submit page has an icon of its own for each of
  them.\<close>

lemma repo_weights_closed:
  "sum_list (map snd repo_weights) = 1 \<and> (\<forall>(n, w) \<in> set repo_weights. 0 \<le> w \<and> w \<le> 1)
   \<and> distinct (map fst repo_weights) \<and> (\<forall>(n, w) \<in> set repo_weights. map_of signal_icons n \<noteq> None)"
  by (simp add: repo_weights_def signal_icons_def)

text \<open>
  C27. Whatever evaluators ran, with weights that are not negative and raw scores in
  \<open>[0, 1]\<close>, a successful scoring has its overall score and its confidence in
  \<open>[0, 1]\<close>, and the confidence is 1 exactly when every evaluator of the table ran.
\<close>

theorem score_evidence_bounds:
  assumes "weights_ok tbl" and "raws_ok ev" and "score_evidence tbl ev = Inr res"
  shows "0 \<le> overall_score_of res \<and> overall_score_of res \<le> 1 \<and> 0 < confidence res \<and> confidence res \<le> 1
    \<and> (confidence res = 1 \<longleftrightarrow> (\<forall>(n, w) \<in> set tbl. ev n \<noteq> None))"
proof -
  have "confidence res = 1 \<longleftrightarrow> length (ran_signals tbl ev) = length tbl"
    using score_evidence_Inr [OF assms(3)] length_ran_signals [of tbl ev] by auto
  then show ?thesis
    using score_bounds [OF assms] length_ran_signals_eq by simp
qed

definition sample_eval :: "string \<Rightarrow> real option" where
  "sample_eval n = (if n = ''recency'' then Some 0.7 else if n = ''documentation'' then Some 1 else None)"

theorem score_evidence_bounds_witness:
  "0 \<le> overall_score_of (projr (score_evidence repo_weights sample_eval))
   \<and> overall_score_of (projr (score_evidence repo_weights sample_eval)) \<le> 1
   \<and> 0 < confidence (projr (score_evidence repo_weights sample_eval))
   \<and> confidence (projr (score_evidence repo_weights sample_eval)) \<le> 1
   \<and> confidence (projr (score_evidence repo_weights sample_eval)) \<noteq> 1"
proof -
  have w: "weights_ok repo_weights"
    by (simp add: weights_ok_def repo_weights_def)
  have r: "raws_ok sample_eval"
    by (simp add: raws_ok_def sample_eval_def)
  have s: "score_evidence repo_weights sample_eval = Inr (projr (score_evidence repo_weights sample_eval))"
    by (simp add: score_evidence_def repo_weights_def sample_eval_def Let_def)
  have "\<not> (\<forall>(n, w) \<in> set repo_weights. sample_eval n \<noteq> None)"
    by (simp add: repo_weights_def sample_eval_def)
  then show ?thesis
    using score_evidence_bounds [OF w r s] by simp
qed

text \<open>Renormalisation changes nothing when every evaluator ran: for a table whose weights
  sum to 1, the overall score is then the plain sum of the weighted scores.\<close>

lemma full_run_no_renormalisation:
  assumes "\<forall>(n, w) \<in> set tbl. ev n \<noteq> None" and "sum_list (map snd tbl) = 1"
    and "score_evidence tbl ev = Inr res"
  shows "overall_score_of res = (\<Sum>(n, w) \<leftarrow> tbl. the (ev n) * w)"
  using score_evidence_Inr [OF assms(3)] ran_signals_full [OF assms(1)] assms(2) by simp

text \<open>
  C29. Renormalisation keeps the ceiling and changes nothing else: when every evaluator of a
  table whose weights sum to 1 ran, the overall score is the plain sum of the weighted
  scores; and when every evaluator that ran gave its top score 1 and their weights are
  positive in sum, the overall score is 1, however many evaluators were skipped.
\<close>

theorem skipped_signals_keep_ceiling:
  "((\<forall>(n, w) \<in> set tbl. ev n \<noteq> None) \<and> sum_list (map snd tbl) = 1 \<and> score_evidence tbl ev = Inr res
      \<longrightarrow> overall_score_of res = (\<Sum>(n, w) \<leftarrow> tbl. the (ev n) * w))
   \<and> ((\<forall>n r. ev' n = Some r \<longrightarrow> r = 1) \<and> score_evidence tbl' ev' = Inr res'
      \<and> sum_list (map sig_weight (ran_signals tbl' ev')) \<noteq> 0 \<longrightarrow> overall_score_of res' = 1)"
proof (intro conjI impI)
  assume "(\<forall>(n, w) \<in> set tbl. ev n \<noteq> None) \<and> sum_list (map snd tbl) = 1 \<and> score_evidence tbl ev = Inr res"
  then show "overall_score_of res = (\<Sum>(n, w) \<leftarrow> tbl. the (ev n) * w)"
    using full_run_no_renormalisation by blast
next
  assume a: "(\<forall>n r. ev' n = Some r \<longrightarrow> r = 1) \<and> score_evidence tbl' ev' = Inr res'
      \<and> sum_list (map sig_weight (ran_signals tbl' ev')) \<noteq> 0"
  have "\<forall>x \<in> set (ran_signals tbl' ev'). weighted_score x = sig_weight x"
    using a ran_signals_mem [of _ tbl' ev'] by (fastforce simp: weighted_score_def)
  then have "map weighted_score (ran_signals tbl' ev') = map sig_weight (ran_signals tbl' ev')"
    by (simp add: map_eq_conv)
  then have "sum_list (map weighted_score (ran_signals tbl' ev')) = sum_list (map sig_weight (ran_signals tbl' ev'))"
    by (rule arg_cong)
  with score_evidence_Inr [of tbl' ev' res'] a show "overall_score_of res' = 1"
    by simp
qed

theorem skipped_signals_keep_ceiling_witness:
  "overall_score_of (projr (score_evidence repo_weights (\<lambda>n. if n = ''recency'' then Some 1 else None))) = 1
   \<and> overall_score_of (projr (score_evidence repo_weights (\<lambda>n. Some 1))) = 1"
proof -
  let ?ev = "\<lambda>n. if n = ''recency'' then Some (1::real) else None"
  let ?full = "\<lambda>n::string. Some (1::real)"
  have sc: "score_evidence repo_weights ?ev = Inr (projr (score_evidence repo_weights ?ev))"
    by (simp add: score_evidence_def repo_weights_def Let_def)
  have sc2: "score_evidence repo_weights ?full = Inr (projr (score_evidence repo_weights ?full))"
    by (simp add: score_evidence_def repo_weights_def Let_def)
  have one: "\<forall>n r. ?ev n = Some r \<longrightarrow> r = 1"
    by simp
  have pos: "sum_list (map sig_weight (ran_signals repo_weights ?ev)) \<noteq> 0"
    by (simp add: repo_weights_def)
  have all: "\<forall>(n, w) \<in> set repo_weights. ?full n \<noteq> None" and tot: "sum_list (map snd repo_weights) = 1"
    by (simp_all add: repo_weights_def)
  have "overall_score_of (projr (score_evidence repo_weights ?full)) = (\<Sum>(n, w) \<leftarrow> repo_weights. the (?full n) * w)
     \<and> overall_score_of (projr (score_evidence repo_weights ?ev)) = 1"
    using skipped_signals_keep_ceiling [of repo_weights ?full "projr (score_evidence repo_weights ?full)"
        ?ev repo_weights "projr (score_evidence repo_weights ?ev)"] all tot sc2 one sc pos
    by blast
  then show ?thesis
    by (simp add: repo_weights_def)
qed

end
