(* ===== verification/Trust.thy ===== *)
theory Trust
  imports Reputation
begin

text \<open>
  The two trust-index formulas of the documentation. The reputation engine's
  \<open>trust_raw\<close> (Reputation theory) follows the specification and the status summary
  (src/unnamed/part_006, lines 78-85): weights 0.4/0.2/0.1/0.1/0.2 over factors clamped to
  \<open>[0, 1]\<close>. The architecture notes (src/unnamed/part_000, lines 261-270) give another:
  weights 0.40/0.20/0.15/0.15/0.10 over the raw quantities (reputation over 85, record count
  over 10, domain count over 4, consistency, span over 180 days), with no clamp. The
  specification lists the pair as an open question; this theory compares them.
\<close>

definition trust_index_notes :: "nat \<Rightarrow> skill_record list \<Rightarrow> real" where
  "trust_index_notes now rs =
     decayed_mean now rs / 85 * 0.40 + real (length rs) / 10 * 0.20
     + real (length (distinct_domains rs)) / 4 * 0.15 + consistency (map rec_score rs) * 0.15
     + span_days rs / 180 * 0.10"

text \<open>A box that maxes out every factor: ten records of score 100 in four domains, one
  every 20 days over 180 days.\<close>

definition strong_box :: "skill_record list" where
  "strong_box =
     map (\<lambda>i. \<lparr>mode = ''ai-graded'', domain = [char_of (97 + i mod 4)], score = 100,
               artifact_hash = replicate 64 (CHR ''a''), timestamp = of_nat (1700000000 + i * 1728000)\<rparr>)
       [0..<10]"

section \<open>Lemmas\<close>

lemma decayed_mean_const:
  assumes "rs \<noteq> []" and "\<forall>r \<in> set rs. rec_score r = c"
  shows "decayed_mean now rs = c"
proof -
  have "(\<Sum>r\<leftarrow>rs. rec_score r * record_weight now r) = (\<Sum>r\<leftarrow>rs. c * record_weight now r)"
    using assms(2) by (intro arg_cong [where f = sum_list] map_cong) simp_all
  also have "\<dots> = c * (\<Sum>r\<leftarrow>rs. record_weight now r)"
    by (simp add: sum_list_const_mult)
  finally have num: "(\<Sum>r\<leftarrow>rs. rec_score r * record_weight now r) = c * (\<Sum>r\<leftarrow>rs. record_weight now r)" .
  have "0 < (\<Sum>r\<leftarrow>rs. record_weight now r)"
    using assms(1) record_weight_pos by (intro sum_list_pos) auto
  then show ?thesis
    using assms(1) num by (simp add: decayed_mean_def)
qed

lemma consistency_const:
  assumes "\<forall>x \<in> set xs. x = c"
  shows "consistency xs = 1"
proof (cases "length xs < 2")
  case True
  then show ?thesis
    by (simp add: consistency_def)
next
  case False
  obtain n where xs: "xs = replicate n c" and n: "2 \<le> n"
    using assms False by (metis leI replicate_length_same length_replicate)
  then have "mean xs = c"
    by (simp add: mean_def sum_list_replicate)
  then have "(\<Sum>x\<leftarrow>xs. (x - mean xs)\<^sup>2) = 0"
    using xs by (simp add: sum_list_replicate)
  then show ?thesis
    by (simp add: consistency_def std_dev_def)
qed

lemma strong_box_facts:
  "\<forall>r \<in> set strong_box. rec_score r = 100" "length strong_box = 10"
  "length (distinct_domains strong_box) = 4" "span_days strong_box = 180"
  by (simp_all add: strong_box_def rec_score_def distinct_domains_def span_days_def rec_ts_def
      upt_rec unat_of_nat)

section \<open>The two formulas\<close>

text \<open>
  C30. The architecture notes' trust formula is not the engine's and is not bounded by 1:
  on every box of at least ten records, all scored 100, in at least four domains and
  spanning at least 180 days, the engine's trust index is exactly 1, while the notes'
  formula gives more than 1.
\<close>

theorem notes_trust_formula_exceeds_one:
  assumes "\<forall>r \<in> set rs. rec_score r = 100" and "10 \<le> length rs"
    and "4 \<le> length (distinct_domains rs)" and "180 \<le> span_days rs"
  shows "trust_raw now rs = 1 \<and> 1 < trust_index_notes now rs"
proof -
  have ne: "rs \<noteq> []"
    using assms(2) by auto
  have m: "decayed_mean now rs = 100"
    using decayed_mean_const [OF ne assms(1)] .
  have c: "consistency (map rec_score rs) = 1"
    using assms(1) by (intro consistency_const) auto
  have d: "diversity rs = 1" and v: "volume rs = 1" and l: "longevity rs = 1"
    using assms(2-4) by (simp_all add: diversity_def volume_def longevity_def)
  have "(10::real) \<le> real (length rs)" and "(4::real) \<le> real (length (distinct_domains rs))"
    using assms(2,3) by simp_all
  then show ?thesis
    using m c d v l assms(4) by (simp add: trust_raw_def trust_index_notes_def)
qed

theorem notes_trust_formula_exceeds_one_witness:
  "trust_raw 1720000000 strong_box = 1 \<and> 1 < trust_index_notes 1720000000 strong_box"
  using notes_trust_formula_exceeds_one [of strong_box] strong_box_facts by simp

end
