(* ===== verification/Navbar.thy ===== *)
theory Navbar
  imports Wallet
begin

text \<open>
  The navigation bar (src/unnamed/part_003, \<open>Navbar\<close>): its links, which one is
  highlighted for the current location, the wallet area it renders from the wallet
  context, and \<open>handleConnect\<close>, which moves to the dashboard when \<open>connectWallet\<close>
  returned an address. A \<open>NavLink\<close> is active when the location is its path or lies
  below it, and for the link marked \<open>end\<close> only when the location is exactly its path.
\<close>

record nav_link =
  nl_to :: string
  nl_end :: bool
  nl_label :: string

definition nav_links :: "nav_link list" where
  "nav_links =
     [\<lparr>nl_to = ''/'', nl_end = True, nl_label = ''Submit''\<rparr>,
      \<lparr>nl_to = ''/dashboard'', nl_end = False, nl_label = ''Dashboard''\<rparr>,
      \<lparr>nl_to = ''/verifier'', nl_end = False, nl_label = ''Verify''\<rparr>,
      \<lparr>nl_to = ''/explorer'', nl_end = False, nl_label = ''Explorer''\<rparr>]"

text \<open>\<open>String.prototype.toLowerCase\<close> on the ASCII letters, which are all the paths of
  the application use.\<close>

definition js_lower :: "string \<Rightarrow> string" where
  "js_lower s = map (\<lambda>c. let n = (of_char c :: nat) in if 65 \<le> n \<and> n \<le> 90 then char_of (n + 32) else c) s"

text \<open>react-router's \<open>NavLink\<close> without \<open>caseSensitive\<close>: both paths are lowered; the link
  is active when the location is its path, or, without \<open>end\<close>, when the location starts
  with the path followed by a slash. None of the paths here ends in a slash other than the
  root, whose slash position is its length.\<close>

definition nav_active :: "string \<Rightarrow> nav_link \<Rightarrow> bool" where
  "nav_active loc l \<longleftrightarrow>
     (let p = js_lower loc; t = js_lower (nl_to l) in
      p = t \<or> (\<not> nl_end l \<and> take (length t + 1) p = t @ ''/''))"

datatype wallet_area =
  AddressBadge string
| ConnectButton bool string

text \<open>Lines 29-48: the short address with the disconnect button when connected, otherwise
  the connect button, disabled while connecting.\<close>

definition navbar_wallet :: "wallet_state \<Rightarrow> wallet_area" where
  "navbar_wallet s =
     (if w_connected s then AddressBadge (short_address (w_address s))
      else ConnectButton (w_connecting s) (if w_connecting s then ''Connecting'' else ''Connect Wallet''))"

text \<open>\<open>handleConnect\<close>, lines 8-11: the route it moves to, given what \<open>connectWallet\<close>
  returned (\<open>None\<close> for \<open>null\<close> or \<open>undefined\<close>).\<close>

definition handle_connect :: "string option \<Rightarrow> string option" where
  "handle_connect addr = (if truthy addr then Some ''/dashboard'' else None)"

section \<open>Lemmas\<close>

lemma nav_links_lower: "l \<in> set nav_links \<Longrightarrow> js_lower (nl_to l) = nl_to l"
  by (auto simp: nav_links_def js_lower_def)

lemma nav_active_links:
  "l \<in> set nav_links \<Longrightarrow>
   nav_active loc l \<longleftrightarrow> js_lower loc = nl_to l \<or> (\<not> nl_end l \<and> take (length (nl_to l) + 1) (js_lower loc) = nl_to l @ ''/'')"
  by (simp add: nav_active_def nav_links_lower Let_def)

lemma nav_active_take2:
  assumes "l \<in> set nav_links" and "nav_active loc l" and "nl_end l \<or> 2 \<le> length (nl_to l)"
  shows "take 2 (js_lower loc) = take 2 (nl_to l)"
proof (cases "js_lower loc = nl_to l")
  case True
  then show ?thesis by simp
next
  case False
  then have nend: "\<not> nl_end l" and pre: "take (length (nl_to l) + 1) (js_lower loc) = nl_to l @ ''/''"
    using assms(2) nav_active_links [OF assms(1)] by auto
  then have len: "2 \<le> length (nl_to l)"
    using assms(3) by simp
  have "take 2 (js_lower loc) = take 2 (take (length (nl_to l) + 1) (js_lower loc))"
    using len by (simp add: min_def)
  also have "\<dots> = take 2 (nl_to l)"
    using pre len by simp
  finally show ?thesis .
qed

lemma nav_active_unique:
  assumes "l \<in> set nav_links" and "l' \<in> set nav_links" and "nav_active loc l" and "nav_active loc l'"
  shows "l = l'"
proof -
  have shape: "\<forall>k \<in> set nav_links. nl_end k \<or> 2 \<le> length (nl_to k)"
    and dist: "inj_on (\<lambda>k. take 2 (nl_to k)) (set nav_links)"
    by (simp_all add: nav_links_def)
  have "take 2 (nl_to l) = take 2 (nl_to l')"
    using nav_active_take2 [OF assms(1,3)] nav_active_take2 [OF assms(2,4)] shape assms(1,2) by simp
  then show ?thesis
    using dist assms(1,2) by (auto dest: inj_onD)
qed

lemma nav_active_own_page: "l \<in> set nav_links \<Longrightarrow> nav_active (nl_to l) l"
  by (simp add: nav_active_links nav_links_lower)

section \<open>Properties of the navigation bar\<close>

text \<open>
  C32. The navigation bar highlights at most one link, whatever the location and its
  case: each page's own path highlights its link and no other, and the Submit link, marked
  \<open>end\<close>, is highlighted exactly at the root, not below it.
\<close>

theorem nav_links_exclusive:
  "(\<forall>l \<in> set nav_links. \<forall>l' \<in> set nav_links. nav_active loc l \<and> nav_active loc l' \<longrightarrow> l = l')
   \<and> (\<forall>l \<in> set nav_links. \<forall>l' \<in> set nav_links. nav_active (nl_to l) l' \<longleftrightarrow> l' = l)
   \<and> (nav_active loc (nav_links ! 0) \<longleftrightarrow> js_lower loc = ''/'')"
proof (intro conjI)
  show "\<forall>l \<in> set nav_links. \<forall>l' \<in> set nav_links. nav_active loc l \<and> nav_active loc l' \<longrightarrow> l = l'"
    using nav_active_unique by blast
  show "\<forall>l \<in> set nav_links. \<forall>l' \<in> set nav_links. nav_active (nl_to l) l' \<longleftrightarrow> l' = l"
    using nav_active_unique nav_active_own_page by blast
  have "nav_links ! 0 \<in> set nav_links"
    by (simp add: nav_links_def)
  then show "nav_active loc (nav_links ! 0) \<longleftrightarrow> js_lower loc = ''/''"
    by (simp add: nav_active_links) (simp add: nav_links_def)
qed

theorem nav_links_exclusive_witness:
  "nav_active ''/Dashboard/x'' (nav_links ! 1) \<and> \<not> nav_active ''/Dashboard/x'' (nav_links ! 0)
   \<and> \<not> nav_active ''/Dashboard/x'' (nav_links ! 2)"
proof -
  have m: "nav_links ! 0 \<in> set nav_links" "nav_links ! 1 \<in> set nav_links" "nav_links ! 2 \<in> set nav_links"
    and d: "nav_links ! 1 \<noteq> nav_links ! 0" "nav_links ! 1 \<noteq> nav_links ! 2"
    by (simp_all add: nav_links_def)
  have a: "nav_active ''/Dashboard/x'' (nav_links ! 1)"
    by code_simp
  have u: "\<forall>l \<in> set nav_links. \<forall>l' \<in> set nav_links.
      nav_active ''/Dashboard/x'' l \<and> nav_active ''/Dashboard/x'' l' \<longrightarrow> l = l'"
    using nav_links_exclusive [of "''/Dashboard/x''"] by (rule conjunct1)
  show ?thesis
    using u m d a by blast
qed

end
