(* ===== verification/Verifier.thy ===== *)
theory Verifier
  imports Dashboard
begin

text \<open>
  The verifier page (src/unnamed/part_002, \<open>VerifierPage\<close>) as an event system over its
  state and the wallet context it shares with the other pages. \<open>handleVerify\<close> is split
  at its \<open>await\<close>: its start clears the page and issues \<open>GET /verify/{w}\<close>, its settling
  stores what came back (\<open>verify_outcome\<close>). The Connect & Verify button awaits
  \<open>connectWallet\<close> and verifies the address it returns; the wallet context's events
  carry a flag saying whether they advance one of this page's \<open>connectWallet\<close> calls,
  counted by two ghost fields per await. Each verification has a ghost identifier, and
  \<open>vp_shown\<close> records which wallet the data on screen was fetched for.
\<close>

record verifier_page =
  vp_wallet :: wallet_state
  vp_input :: string
  vp_loading :: bool
  vp_error :: string
  vp_data :: "verify_data option"
  vp_pending :: "(nat \<times> string) list"
  vp_next :: nat
  vp_shown :: "string option"
  vp_own_sdk :: nat
  vp_own_connect :: nat

type_synonym verify_response = "string + verify_data http_resp"

datatype verifier_event =
  VInput string
| VVerify
| VEnter
| VConnect
| VWallet wallet_event bool
| VSettle nat verify_response

text \<open>The context's \<open>address\<close> where the code tests it for truth.\<close>

definition vaddr_str :: "verifier_page \<Rightarrow> string" where
  "vaddr_str s = (case w_address (vp_wallet s) of None \<Rightarrow> [] | Some a \<Rightarrow> a)"

text \<open>Lines 23-26: a rejected \<open>fetch\<close> or a failed \<open>res.json()\<close> gives its message;
  a response that is not \<open>ok\<close> the \<open>detail\<close> of its body or the default message.\<close>

definition verify_outcome :: "verify_response \<Rightarrow> string + verify_data" where
  "verify_outcome res =
     (case res of
        Inl m \<Rightarrow> Inl m
      | Inr r \<Rightarrow> if \<not> hr_ok r then Inl (js_or (hr_detail r) ''Verification failed'') else hr_body r)"

text \<open>The start of \<open>handleVerify(walletAddr)\<close>, lines 15-21.\<close>

definition start_verify :: "string \<Rightarrow> verifier_page \<Rightarrow> verifier_page" where
  "start_verify wallet_addr s =
     (let w = js_or wallet_addr (js_or (vaddr_str s) (vp_input s)) in
      if length w < 58 then s
      else s\<lparr>vp_loading := True, vp_error := [], vp_data := None, vp_shown := None,
             vp_pending := vp_pending s @ [(vp_next s, w)], vp_next := Suc (vp_next s)\<rparr>)"

text \<open>The settling of verification \<open>i\<close>, lines 23-31; \<open>finally\<close> clears the loading flag.\<close>

definition settle_verify :: "nat \<Rightarrow> verify_response \<Rightarrow> verifier_page \<Rightarrow> verifier_page" where
  "settle_verify i res s =
     (case map_of (vp_pending s) i of
        None \<Rightarrow> s
      | Some w \<Rightarrow>
          let s' = s\<lparr>vp_pending := filter (\<lambda>p. fst p \<noteq> i) (vp_pending s), vp_loading := False\<rparr>
          in case verify_outcome res of
               Inl m \<Rightarrow> s'\<lparr>vp_error := m\<rparr>
             | Inr d \<Rightarrow> s'\<lparr>vp_data := Some d, vp_shown := Some w\<rparr>)"

text \<open>\<open>handleManualVerify\<close>, lines 33-38.\<close>

definition manual_verify :: "verifier_page \<Rightarrow> verifier_page" where
  "manual_verify s =
     (if 58 \<le> length (vp_input s)
      then start_verify (vp_input s) (s\<lparr>vp_wallet := set_manual_wallet (vp_input s) (vp_wallet s)\<rparr>)
      else s)"

text \<open>The action of the Verify button and of Enter, lines 83 and 87.\<close>

definition verify_action :: "verifier_page \<Rightarrow> verifier_page" where
  "verify_action s =
     (if w_connected (vp_wallet s) then start_verify (vaddr_str s) s else manual_verify s)"

text \<open>The await of a \<open>connectWallet\<close> call that a wallet event advances, and how many
  calls wait there in the context and on this page.\<close>

fun call_wait :: "wallet_state \<Rightarrow> wallet_event \<Rightarrow> nat" where
  "call_wait w ConnectNoSdk = w_wait_sdk w"
| "call_wait w ConnectSdkReady = w_wait_sdk w"
| "call_wait w ConnectRejected = w_wait_connect w"
| "call_wait w (ConnectAccounts accs) = w_wait_connect w"
| "call_wait w _ = 0"

fun own_wait :: "verifier_page \<Rightarrow> wallet_event \<Rightarrow> nat" where
  "own_wait s ConnectNoSdk = vp_own_sdk s"
| "own_wait s ConnectSdkReady = vp_own_sdk s"
| "own_wait s ConnectRejected = vp_own_connect s"
| "own_wait s (ConnectAccounts accs) = vp_own_connect s"
| "own_wait s _ = 0"

text \<open>A wallet event that advances one of this page's calls moves its count to the next
  await; when \<open>connectWallet\<close> returns a truthy address (lines 68-69: \<open>accounts[0]\<close>,
  lines 44 and 50 of WalletContext.jsx), the page verifies it.\<close>

fun own_advance :: "wallet_event \<Rightarrow> verifier_page \<Rightarrow> verifier_page" where
  "own_advance ConnectNoSdk s = s\<lparr>vp_own_sdk := vp_own_sdk s - 1\<rparr>"
| "own_advance ConnectSdkReady s =
     s\<lparr>vp_own_sdk := vp_own_sdk s - 1, vp_own_connect := Suc (vp_own_connect s)\<rparr>"
| "own_advance ConnectRejected s = s\<lparr>vp_own_connect := vp_own_connect s - 1\<rparr>"
| "own_advance (ConnectAccounts accs) s =
     (let s' = s\<lparr>vp_own_connect := vp_own_connect s - 1\<rparr> in
      case accs of [] \<Rightarrow> s' | a # _ \<Rightarrow> if a \<noteq> [] then start_verify a s' else s')"
| "own_advance e s = s"

text \<open>The input ignores typing while connected (line 82).\<close>

fun verifier_handle :: "verifier_page \<Rightarrow> verifier_event \<Rightarrow> verifier_page" where
  "verifier_handle s (VInput x) = (if w_connected (vp_wallet s) then s else s\<lparr>vp_input := x\<rparr>)"
| "verifier_handle s VVerify = verify_action s"
| "verifier_handle s VEnter = verify_action s"
| "verifier_handle s VConnect =
     s\<lparr>vp_wallet := wallet_step (vp_wallet s) ConnectStart, vp_own_sdk := Suc (vp_own_sdk s)\<rparr>"
| "verifier_handle s (VWallet e own) =
     (let s' = s\<lparr>vp_wallet := wallet_step (vp_wallet s) e\<rparr> in if own then own_advance e s' else s')"
| "verifier_handle s (VSettle i res) = settle_verify i res s"

text \<open>The Verify button is disabled while loading and, when not connected, for an input
  shorter than an address (line 88); Enter is not; Connect & Verify shows when not connected
  (line 67). A wallet event advancing a call of this page needs one waiting at that await,
  and one advancing another page's call needs such a call too. \<open>setManualWallet\<close> is
  called by this page's own handler only.\<close>

fun verifier_enabled :: "verifier_page \<Rightarrow> verifier_event \<Rightarrow> bool" where
  "verifier_enabled s VVerify \<longleftrightarrow>
     \<not> vp_loading s \<and> (w_connected (vp_wallet s) \<or> 58 \<le> length (vp_input s))"
| "verifier_enabled s VConnect \<longleftrightarrow> \<not> w_connected (vp_wallet s)"
| "verifier_enabled s (VWallet e own) \<longleftrightarrow>
     wallet_enabled (vp_wallet s) e \<and> (case e of SetManual a \<Rightarrow> False | _ \<Rightarrow> True)
     \<and> (if own then 0 < own_wait s e
        else call_wait (vp_wallet s) e = 0 \<and> own_wait s e = 0 \<or> own_wait s e < call_wait (vp_wallet s) e)"
| "verifier_enabled s (VSettle i res) \<longleftrightarrow> i \<in> fst ` set (vp_pending s)"
| "verifier_enabled s _ \<longleftrightarrow> True"

definition verifier_init :: "string option \<Rightarrow> verifier_page" where
  "verifier_init st =
     \<lparr>vp_wallet = wallet_init st, vp_input = [], vp_loading = False, vp_error = [], vp_data = None,
      vp_pending = [], vp_next = 0, vp_shown = None, vp_own_sdk = 0, vp_own_connect = 0\<rparr>"

inductive verifier_reachable :: "verifier_page \<Rightarrow> bool" where
  init: "storage_ok st \<Longrightarrow> verifier_reachable (verifier_init st)"
| step: "verifier_reachable s \<Longrightarrow> verifier_enabled s e \<Longrightarrow> verifier_reachable (verifier_handle s e)"

fun verifier_run :: "verifier_page \<Rightarrow> verifier_event list \<Rightarrow> verifier_page option" where
  "verifier_run s [] = Some s"
| "verifier_run s (e # es) =
     (if verifier_enabled s e then verifier_run (verifier_handle s e) es else None)"

section \<open>What the page shows\<close>

text \<open>A row of the record list, lines 189-205: \<open>r.score ?? 0\<close> with its tier, the domain
  and mode with their defaults, and the date only for a truthy timestamp.\<close>

record row_view =
  rv_domain :: string
  rv_mode :: string
  rv_score :: int
  rv_tier :: credibility_level
  rv_date :: bool

definition verify_row_view :: "verify_row \<Rightarrow> row_view" where
  "verify_row_view r =
     (let sc = (case vr_score r of None \<Rightarrow> 0 | Some x \<Rightarrow> x) in
      \<lparr>rv_domain = js_or (vr_domain r) ''Unknown'', rv_mode = js_or (vr_mode r) ''ai-graded'',
       rv_score = sc, rv_tier = score_tier sc, rv_date = (vr_timestamp r \<noteq> 0)\<rparr>)"

text \<open>The results, lines 138-213: the circle and tier of the credibility score (lines
  41-46), the badge, the record count, the trust index in percent, the top domain or
  \<open>N/A\<close>, the domain chart when there are domain scores, and the record rows.\<close>

record verifier_view =
  vv_circle :: real
  vv_verified :: bool
  vv_tier :: credibility_level
  vv_records :: nat
  vv_trust_pct :: real
  vv_top_domain :: string
  vv_chart :: bool
  vv_rows :: "row_view list"

definition verifier_view :: "verify_data \<Rightarrow> verifier_view" where
  "verifier_view d =
     \<lparr>vv_circle = vd_credibility_score d, vv_verified = vd_verified d, vv_tier = verifier_tier d,
      vv_records = vd_total_records d, vv_trust_pct = vd_trust_index d * 100,
      vv_top_domain = js_or (vd_top_domain d) ''N/A'', vv_chart = (vd_domain_scores d \<noteq> []),
      vv_rows = map verify_row_view (vd_records d)\<rparr>"

text \<open>Results show only when there is data and nothing is loading (line 138); the input
  shows the connected address, otherwise what was typed (line 79).\<close>

definition verifier_results :: "verifier_page \<Rightarrow> verifier_view option" where
  "verifier_results s = (if vp_loading s then None else map_option verifier_view (vp_data s))"

definition verifier_input_value :: "verifier_page \<Rightarrow> string" where
  "verifier_input_value s = (if w_connected (vp_wallet s) then vaddr_str s else vp_input s)"

record verifier_header =
  vh_connect :: bool
  vh_note :: "(unit + string) option"
  vh_error :: "string option"
  vh_skeleton :: bool
  vh_button :: string

text \<open>The input card and what follows it, lines 66-115: Connect & Verify while not
  connected; while connected, the note with the first 8 and last 4 characters of the
  context's \<open>address\<close> (line 99), where \<open>address.slice\<close> throws (\<open>Inl ()\<close>) for an absent
  address; the error panel for a non-empty error; the skeleton and the empty button label
  while loading.\<close>

definition verifier_header :: "verifier_page \<Rightarrow> verifier_header" where
  "verifier_header s =
     \<lparr>vh_connect = \<not> w_connected (vp_wallet s),
      vh_note = (if w_connected (vp_wallet s)
                 then Some (case w_address (vp_wallet s) of
                              None \<Rightarrow> Inl ()
                            | Some a \<Rightarrow> Inr (take 8 a @ ellipsis @ drop (length a - 4) a))
                 else None),
      vh_error = (if vp_error s \<noteq> [] then Some (vp_error s) else None),
      vh_skeleton = vp_loading s,
      vh_button = (if vp_loading s then [] else ''Verify'')\<rparr>"

text \<open>The page state of the atomic handler \<open>handle_verify\<close> of the Views theory.\<close>

definition verifier_state_of :: "verifier_page \<Rightarrow> verifier_state" where
  "verifier_state_of s = \<lparr>vf_loading = vp_loading s, vf_error = vp_error s, vf_data = vp_data s\<rparr>"

text \<open>Loading only while a verification is in flight, and fresh identifiers.\<close>

definition vinv :: "verifier_page \<Rightarrow> bool" where
  "vinv s \<longleftrightarrow> (vp_loading s \<longrightarrow> vp_pending s \<noteq> []) \<and> fresh_ids (vp_pending s) (vp_next s)"

text \<open>This page's \<open>connectWallet\<close> calls are among those the context has in flight.\<close>

definition own_inv :: "verifier_page \<Rightarrow> bool" where
  "own_inv s \<longleftrightarrow> vp_own_sdk s \<le> w_wait_sdk (vp_wallet s) \<and> vp_own_connect s \<le> w_wait_connect (vp_wallet s)"

definition vanswers :: "(nat \<Rightarrow> verify_response) \<Rightarrow> (nat \<times> string) list \<Rightarrow> verifier_event list" where
  "vanswers res ps = map (\<lambda>p. VSettle (fst p) (res (fst p))) ps"

definition empty_verify_data :: verify_data where
  "empty_verify_data =
     \<lparr>vd_credibility_score = 0, vd_verified = False, vd_trust_index = 0, vd_total_records = 0,
      vd_top_domain = [], vd_domain_scores = [], vd_records = []\<rparr>"

definition ok_verify :: verify_response where
  "ok_verify = Inr \<lparr>hr_ok = True, hr_body = Inr empty_verify_data, hr_detail = []\<rparr>"

text \<open>Verifying wallet A by hand, disconnecting from the navigation bar, and verifying
  wallet B, with B's answer arriving first.\<close>

definition verify_race :: "verifier_event list" where
  "verify_race =
     [VInput wallet_a, VEnter, VWallet (UserDisconnect False) False, VInput wallet_b, VEnter,
      VSettle 1 ok_verify, VSettle 0 ok_verify]"

text \<open>Connect & Verify answered by Pera with no account.\<close>

definition empty_accounts_verify :: "verifier_event list" where
  "empty_accounts_verify = [VConnect, VWallet ConnectSdkReady True, VWallet (ConnectAccounts []) True]"

section \<open>Lemmas\<close>

lemma vinv_simps [simp]:
  "vinv (s\<lparr>vp_wallet := w\<rparr>) = vinv s" "vinv (s\<lparr>vp_input := x\<rparr>) = vinv s"
  "vinv (s\<lparr>vp_own_sdk := k\<rparr>) = vinv s" "vinv (s\<lparr>vp_own_connect := k\<rparr>) = vinv s"
  by (simp_all add: vinv_def)

lemma start_verify_vinv: "vinv s \<Longrightarrow> vinv (start_verify w s)"
  by (simp add: vinv_def start_verify_def Let_def fresh_ids_snoc)

lemma settle_verify_vinv: "vinv s \<Longrightarrow> vinv (settle_verify i res s)"
  by (auto simp: vinv_def settle_verify_def Let_def fresh_ids_filter split: option.split sum.split)

lemma own_advance_vinv: "vinv s \<Longrightarrow> vinv (own_advance e s)"
  by (cases e) (simp_all add: start_verify_vinv Let_def split: list.split)

lemma verifier_handle_vinv: "vinv s \<Longrightarrow> vinv (verifier_handle s e)"
  by (cases e)
     (simp_all add: verify_action_def manual_verify_def start_verify_vinv settle_verify_vinv
        own_advance_vinv Let_def)

lemma verifier_init_vinv: "vinv (verifier_init st)"
  by (simp add: vinv_def verifier_init_def)

lemma verifier_reachable_vinv: "verifier_reachable s \<Longrightarrow> vinv s"
  by (induction rule: verifier_reachable.induct) (simp_all add: verifier_init_vinv verifier_handle_vinv)

text \<open>The page touches the wallet context through enabled steps only: a wallet event,
  Connect & Verify's \<open>ConnectStart\<close> and the manual entry's \<open>SetManual\<close>.\<close>

lemma start_verify_wallet [simp]: "vp_wallet (start_verify w s) = vp_wallet s"
  by (simp add: start_verify_def Let_def)

lemma settle_verify_wallet [simp]: "vp_wallet (settle_verify i res s) = vp_wallet s"
  by (simp add: settle_verify_def Let_def split: option.split sum.split)

lemma start_verify_own [simp]:
  "vp_own_sdk (start_verify w s) = vp_own_sdk s" "vp_own_connect (start_verify w s) = vp_own_connect s"
  by (simp_all add: start_verify_def Let_def)

lemma settle_verify_own [simp]:
  "vp_own_sdk (settle_verify i res s) = vp_own_sdk s"
  "vp_own_connect (settle_verify i res s) = vp_own_connect s"
  by (simp_all add: settle_verify_def Let_def split: option.split sum.split)

lemma own_advance_wallet [simp]: "vp_wallet (own_advance e s) = vp_wallet s"
  by (cases e) (simp_all add: Let_def split: list.split)


lemma verifier_reachable_wallet: "verifier_reachable s \<Longrightarrow> wallet_reachable (vp_wallet s)"
proof (induction rule: verifier_reachable.induct)
  case (init st)
  then show ?case by (simp add: verifier_init_def wallet_reachable.init)
next
  case (step s e)
  have manual: "wallet_reachable (vp_wallet (manual_verify s))"
  proof -
    have "wallet_reachable (wallet_step (vp_wallet s) (SetManual (vp_input s)))"
      using step.IH by (rule wallet_reachable.step) simp
    then show ?thesis using step.IH by (simp add: manual_verify_def)
  qed
  show ?case
  proof (cases e)
    case VConnect
    have "wallet_reachable (wallet_step (vp_wallet s) ConnectStart)"
      using step.IH by (rule wallet_reachable.step) simp
    then show ?thesis using VConnect by simp
  next
    case (VWallet x own)
    then have "wallet_reachable (wallet_step (vp_wallet s) x)"
      using step by (auto intro: wallet_reachable.step)
    then show ?thesis using VWallet by (simp add: Let_def)
  qed (use step.IH manual in \<open>simp_all add: verify_action_def\<close>)
qed

lemma own_inv_step: "own_inv s \<Longrightarrow> verifier_enabled s e \<Longrightarrow> own_inv (verifier_handle s e)"
proof (cases e)
  case (VWallet x own)
  assume "own_inv s" and "verifier_enabled s e"
  then show ?thesis using VWallet
    by (cases x; cases own)
       (auto simp: own_inv_def connect_accounts_def handle_disconnect_def Let_def split: list.split)
qed (auto simp: own_inv_def verify_action_def manual_verify_def set_manual_wallet_def)

lemma verifier_reachable_own: "verifier_reachable s \<Longrightarrow> own_inv s"
proof (induction rule: verifier_reachable.induct)
  case (init st)
  then show ?case by (simp add: own_inv_def verifier_init_def wallet_init_def)
next
  case (step s e)
  from step.IH step.hyps(2) show ?case by (rule own_inv_step)
qed

lemma verifier_settle_head:
  assumes "vp_pending s = (i, w) # ps" and "i \<notin> fst ` set ps"
  shows "verifier_handle s (VSettle i r) = settle_verify i r s
    \<and> vp_pending (settle_verify i r s) = ps \<and> \<not> vp_loading (settle_verify i r s)"
proof -
  have "filter (\<lambda>p. fst p \<noteq> i) ps = ps"
    using assms(2) by (auto simp: filter_id_conv)
  then show ?thesis
    using assms(1) by (auto simp: settle_verify_def Let_def split: sum.split)
qed

lemma vanswers_settle:
  "vp_pending s = ps \<Longrightarrow> distinct (map fst ps) \<Longrightarrow> vinv s
   \<Longrightarrow> \<exists>t. verifier_run s (vanswers res ps) = Some t \<and> vp_pending t = [] \<and> \<not> vp_loading t"
proof (induction ps arbitrary: s)
  case Nil
  then show ?case
    by (simp add: vanswers_def vinv_def)
next
  case (Cons p ps)
  obtain i w where p: "p = (i, w)"
    by (cases p)
  then have nin: "i \<notin> fst ` set ps"
    using Cons.prems(2) by auto
  let ?s' = "settle_verify i (res i) s"
  have hd: "verifier_handle s (VSettle i (res i)) = ?s'" "vp_pending ?s' = ps" "\<not> vp_loading ?s'"
    using verifier_settle_head [OF _ nin] Cons.prems(1) p by blast+
  have "vinv ?s'"
    using Cons.prems(3) by (rule settle_verify_vinv)
  then have "\<exists>t. verifier_run ?s' (vanswers res ps) = Some t \<and> vp_pending t = [] \<and> \<not> vp_loading t"
    using Cons.prems(2) hd(2) by (intro Cons.IH) simp_all
  then show ?case
    using hd Cons.prems(1) p by (simp add: vanswers_def)
qed

lemma verifier_reachable_settles:
  assumes "verifier_reachable s"
  shows "\<exists>t. verifier_run s (vanswers res (vp_pending s)) = Some t \<and> vp_pending t = [] \<and> \<not> vp_loading t"
proof -
  have "vinv s"
    using assms by (rule verifier_reachable_vinv)
  then show ?thesis
    by (intro vanswers_settle) (simp_all add: vinv_def fresh_ids_def)
qed

lemma verifier_run_reachable:
  "verifier_reachable s \<Longrightarrow> verifier_run s es = Some t \<Longrightarrow> verifier_reachable t"
proof (induction es arbitrary: s)
  case Nil
  then show ?case by simp
next
  case (Cons e es)
  then have "verifier_enabled s e" and run: "verifier_run (verifier_handle s e) es = Some t"
    by (simp_all split: if_splits)
  have "verifier_reachable (verifier_handle s e)"
    using Cons.prems(1) \<open>verifier_enabled s e\<close> by (rule verifier_reachable.step)
  then show ?case
    using run by (rule Cons.IH)
qed

lemma verifier_stale_data:
  "\<exists>t. verifier_run (verifier_init None) verify_race = Some t \<and> verifier_reachable t
     \<and> w_address (vp_wallet t) = Some wallet_b \<and> w_connected (vp_wallet t)
     \<and> vp_shown t = Some wallet_a \<and> verifier_results t = Some (verifier_view empty_verify_data)
     \<and> vp_pending t = []"
proof -
  have "\<exists>t. verifier_run (verifier_init None) verify_race = Some t
     \<and> w_address (vp_wallet t) = Some wallet_b \<and> w_connected (vp_wallet t)
     \<and> vp_shown t = Some wallet_a \<and> verifier_results t = Some (verifier_view empty_verify_data)
     \<and> vp_pending t = []"
    by (simp add: verify_race_def verifier_init_def wallet_init_def verify_action_def manual_verify_def
        start_verify_def settle_verify_def verify_outcome_def ok_verify_def vaddr_str_def
        set_manual_wallet_def handle_disconnect_def verifier_results_def wallet_ab js_or_def Let_def)
  then obtain t where run: "verifier_run (verifier_init None) verify_race = Some t"
    and facts: "w_address (vp_wallet t) = Some wallet_b \<and> w_connected (vp_wallet t)
     \<and> vp_shown t = Some wallet_a \<and> verifier_results t = Some (verifier_view empty_verify_data)
     \<and> vp_pending t = []"
    by blast
  have "verifier_reachable t"
    by (rule verifier_run_reachable [OF verifier_reachable.init run]) (simp add: storage_ok_def)
  with run facts show ?thesis
    by blast
qed

text \<open>Connect & Verify with an empty account list leaves the page connected with no
  address, and rendering the note of line 99 throws.\<close>

lemma verifier_empty_accounts_crash:
  "\<exists>t. verifier_run (verifier_init None) empty_accounts_verify = Some t \<and> verifier_reachable t
     \<and> w_connected (vp_wallet t) \<and> vh_note (verifier_header t) = Some (Inl ()) \<and> vp_pending t = []"
proof -
  have "\<exists>t. verifier_run (verifier_init None) empty_accounts_verify = Some t
     \<and> w_connected (vp_wallet t) \<and> vh_note (verifier_header t) = Some (Inl ()) \<and> vp_pending t = []"
    by (simp add: empty_accounts_verify_def verifier_init_def wallet_init_def verifier_header_def
        connect_accounts_def Let_def)
  then obtain t where t: "verifier_run (verifier_init None) empty_accounts_verify = Some t
     \<and> (w_connected (vp_wallet t) \<and> vh_note (verifier_header t) = Some (Inl ()) \<and> vp_pending t = [])" ..
  have "verifier_reachable t"
    by (rule verifier_run_reachable [OF verifier_reachable.init conjunct1 [OF t]]) (simp add: storage_ok_def)
  with t show ?thesis
    by blast
qed

section \<open>Properties of the verifier page\<close>

text \<open>
  C21. In every reachable state of the Verifier page, composed with the wallet context,
  \<open>loading\<close> is set only while a verification is in flight (\<open>handleVerify\<close>'s
  \<open>finally\<close>, part_002 line 31, clears it only when its own request settles), the wallet
  part is a reachable state of the wallet context, so the Wallet theory's invariants hold
  there, and answering every verification in flight, oldest first, ends loading with
  nothing left in flight.
\<close>

theorem verify_loading_settles:
  assumes "verifier_reachable s"
  shows "(vp_loading s \<longrightarrow> vp_pending s \<noteq> []) \<and> wallet_reachable (vp_wallet s)
    \<and> (\<exists>t. verifier_run s (vanswers res (vp_pending s)) = Some t \<and> vp_pending t = [] \<and> \<not> vp_loading t)"
  using verifier_reachable_vinv [OF assms] verifier_reachable_wallet [OF assms]
    verifier_reachable_settles [OF assms, of res]
  by (simp add: vinv_def)

theorem verify_loading_settles_witness:
  "\<exists>t. verifier_run (verifier_init None) (take 5 verify_race) = Some t \<and> vp_loading t
     \<and> (\<exists>u. verifier_run t (vanswers (\<lambda>_. ok_verify) (vp_pending t)) = Some u \<and> \<not> vp_loading u)"
proof -
  obtain t where run: "verifier_run (verifier_init None) (take 5 verify_race) = Some t" and l: "vp_loading t"
    by (simp add: verify_race_def verifier_init_def wallet_init_def verify_action_def manual_verify_def
        start_verify_def vaddr_str_def set_manual_wallet_def handle_disconnect_def wallet_ab js_or_def Let_def)
  have "verifier_reachable t"
    by (rule verifier_run_reachable [OF verifier_reachable.init run]) (simp add: storage_ok_def)
  then have "\<exists>u. verifier_run t (vanswers (\<lambda>_. ok_verify) (vp_pending t)) = Some u
      \<and> vp_pending u = [] \<and> \<not> vp_loading u"
    by (rule conjunct2 [OF conjunct2 [OF verify_loading_settles]])
  then show ?thesis
    using run l by blast
qed

text \<open>Splitting \<open>handleVerify\<close> at its await agrees with the atomic \<open>handle_verify\<close> of
  the Views theory when the request is answered before any other event.\<close>

lemma verify_split_refines_atomic:
  assumes "fresh_ids (vp_pending s) (vp_next s)"
  shows "verifier_state_of (settle_verify (vp_next s) res (start_verify wa s))
    = handle_verify wa (vaddr_str s) (vp_input s) res (verifier_state_of s)"
proof -
  have "map_of (vp_pending s) (vp_next s) = None"
    using assms by (auto simp: fresh_ids_def map_of_eq_None_iff)
  then show ?thesis
    by (auto simp: settle_verify_def start_verify_def handle_verify_def verify_outcome_def
        verifier_state_of_def Let_def map_add_def split: sum.split option.split)
qed

end
