(* ===== verification/SubmitView.thy ===== *)
theory SubmitView
  imports Submit Analyze Wallet "HOL-Library.Multiset"
begin

text \<open>
  What the Submit page (src/unnamed/part_001, \<open>SubmitPage\<close>) shows around the analysis and
  the submission: the language breakdown of a repository analysis (lines 342-345 and
  636-656), the wallet prompt and the guard of the Submit button (lines 347 and 704-719),
  \<open>handleSetWallet\<close> (lines 198-202), the result panel after a submission (lines 729-770)
  and the Submit Another button (line 775). The languages are \<open>meta.languages\<close> as the
  page reads it: \<open>Some\<close> the entries, in order, of a plain object of byte counts, \<open>None\<close>
  for anything else, which the page replaces by \<open>{}\<close>.
\<close>

section \<open>Language breakdown\<close>

definition lang_entries :: "(string \<times> nat) list option \<Rightarrow> (string \<times> nat) list" where
  "lang_entries v = (case v of None \<Rightarrow> [] | Some es \<Rightarrow> es)"

text \<open>\<open>reduce(...) || 1\<close>: a total of 0 is falsy and becomes 1.\<close>

definition total_bytes :: "(string \<times> nat) list \<Rightarrow> nat" where
  "total_bytes es = (let t = sum_list (map snd es) in if t = 0 then 1 else t)"

definition LANG_COLORS :: "(string \<times> string) list" where
  "LANG_COLORS =
     [(''javascript'', ''#f1e05a''), (''typescript'', ''#3178c6''), (''python'', ''#3572A5''),
      (''java'', ''#b07219''), (''go'', ''#00ADD8''), (''rust'', ''#dea584''), (''cpp'', ''#f34b7d''),
      (''c++'', ''#f34b7d''), (''c'', ''#555555''), (''ruby'', ''#701516''), (''php'', ''#4F5D95''),
      (''swift'', ''#F05138''), (''kotlin'', ''#A97BFF''), (''dart'', ''#00B4AB''),
      (''html'', ''#e34c26''), (''css'', ''#563d7c''), (''shell'', ''#89e051''),
      (''solidity'', ''#AA6746''), (''c#'', ''#178600''), (''scala'', ''#c22d40''),
      (''lua'', ''#000080''), (''r'', ''#198CE7''), (''perl'', ''#0298c3'')]"

definition lang_color :: "string \<Rightarrow> string" where
  "lang_color l = (case map_of LANG_COLORS (to_lower l) of Some c \<Rightarrow> c | None \<Rightarrow> ''#888'')"

record lang_pill =
  lp_name :: string
  lp_color :: string
  lp_percent :: int

text \<open>The pills: the entries sorted by decreasing byte count (\<open>Array.prototype.sort\<close> is
  stable, as \<open>sort_key\<close> is), each with its colour and its share in percent.\<close>

definition lang_pills :: "(string \<times> nat) list \<Rightarrow> lang_pill list" where
  "lang_pills es =
     map (\<lambda>(l, b). \<lparr>lp_name = l, lp_color = lang_color l,
                     lp_percent = to_fixed0 (real b / real (total_bytes es) * 100)\<rparr>)
       (sort_key (\<lambda>(l, b). - int b) es)"

section \<open>Wallet prompt, Submit button and result\<close>

text \<open>Line 347: the page asks for a wallet when the context has no truthy address and is
  not connected.\<close>

definition needs_wallet :: "wallet_state \<Rightarrow> bool" where
  "needs_wallet w \<longleftrightarrow> \<not> truthy (w_address w) \<and> \<not> w_connected w"

text \<open>\<open>handleSetWallet\<close>, lines 198-202: the context's \<open>setManualWallet\<close> for an input of
  address length.\<close>

definition set_wallet :: "string \<Rightarrow> wallet_state \<Rightarrow> wallet_state" where
  "set_wallet wallet_input w =
     (if 58 \<le> length wallet_input then wallet_step w (SetManual wallet_input) else w)"

text \<open>The context's \<open>address\<close> as \<open>address || walletInput\<close> reads it in
  \<open>handleSubmit\<close>: \<open>undefined\<close> is falsy like \<open>''\<close>.\<close>

definition context_address :: "wallet_state \<Rightarrow> string" where
  "context_address w = (case w_address w of None \<Rightarrow> [] | Some a \<Rightarrow> a)"

text \<open>Lines 705-719: the Submit button is rendered while there is no result and is enabled
  when not submitting and a wallet is there; \<open>None\<close> when it is not rendered.\<close>

definition submit_button :: "submit_state \<Rightarrow> wallet_state \<Rightarrow> bool option" where
  "submit_button s w =
     (if sp_result s \<noteq> None then None else Some (\<not> submitting s \<and> \<not> needs_wallet w))"

record result_panel =
  rp_domain :: string
  rp_score :: int
  rp_link :: string
  rp_tx :: string
  rp_confirmed :: bool

text \<open>Lines 741-768: the domain (\<open>skill_id || domain\<close>, and the result has no
  \<open>domain\<close>), the score, the explorer link (\<open>explorer_url\<close> or the link built from the
  transaction id), the first 16 characters of the transaction id, and the status line.\<close>

definition result_panel :: "submit_result \<Rightarrow> result_panel" where
  "result_panel r =
     \<lparr>rp_domain = js_or (skill_id r) [], rp_score = result_score r,
      rp_link = js_or (explorer_url r) (explorer_base @ transaction_id r),
      rp_tx = take 16 (transaction_id r), rp_confirmed = (result_status r = ''confirmed'')\<rparr>"

text \<open>Submit Another, line 775: clears the analysis, the result, the error, the URL and
  the file; the requests in flight are left as they are.\<close>

definition submit_another :: "analyze_page \<Rightarrow> analyze_page" where
  "submit_another s =
     s\<lparr>ap_analysis := None, ap_shown := None, ap_result := False, ap_error := Msg [],
       ap_repo_url := [], ap_file := None\<rparr>"

section \<open>Lemmas\<close>

lemma entry_le_total:
  assumes "(l, b) \<in> set es"
  shows "b \<le> total_bytes es"
proof -
  have "b \<in> set (map snd es)"
    using assms by force
  then have "b \<le> sum_list (map snd es)"
    by (rule member_le_sum_list) simp
  then show ?thesis
    by (simp add: total_bytes_def Let_def del: sum_list_eq_0_iff)
qed

lemma total_bytes_pos: "0 < total_bytes es"
  by (simp add: total_bytes_def Let_def del: sum_list_eq_0_iff)

lemma lang_share_bounds:
  assumes "(l, b) \<in> set es"
  shows "0 \<le> real b / real (total_bytes es) * 100 \<and> real b / real (total_bytes es) * 100 \<le> 100"
proof -
  have "real b \<le> real (total_bytes es)" and "0 < real (total_bytes es)"
    using entry_le_total [OF assms] total_bytes_pos by simp_all
  then show ?thesis
    by (simp add: pos_divide_le_eq)
qed

lemma lang_pills_percent_bounds:
  "p \<in> set (lang_pills es) \<Longrightarrow> 0 \<le> lp_percent p \<and> lp_percent p \<le> 100"
proof -
  assume "p \<in> set (lang_pills es)"
  then obtain l b where lb: "(l, b) \<in> set es"
    and p: "lp_percent p = to_fixed0 (real b / real (total_bytes es) * 100)"
    by (auto simp: lang_pills_def)
  have "to_fixed0 (real b / real (total_bytes es) * 100) \<le> to_fixed0 100"
    using lang_share_bounds [OF lb] by (intro to_fixed0_mono) simp_all
  then show ?thesis
    using p lang_share_bounds [OF lb] to_fixed0_nonneg by (simp only: to_fixed0_100)
qed

lemma lang_pills_names: "mset (map lp_name (lang_pills es)) = mset (map fst es)"
proof -
  have "map lp_name (lang_pills es) = map fst (sort_key (\<lambda>(l, b). - int b) es)"
    by (simp add: lang_pills_def case_prod_unfold)
  then show ?thesis
    by (metis mset_map mset_sort)
qed

lemma lang_pills_nonincreasing: "sorted_wrt (\<ge>) (map lp_percent (lang_pills es))"
proof -
  let ?f = "\<lambda>(l, b). - int b" and ?xs = "sort_key (\<lambda>(l, b). - int b) es"
  have "sorted (map ?f ?xs)"
    by (rule sorted_sort_key)
  then have s: "sorted_wrt (\<lambda>x y. snd y \<le> snd x) ?xs"
    by (simp add: sorted_map case_prod_unfold)
  have "set ?xs = set es"
    by simp
  have "sorted_wrt (\<lambda>x y. to_fixed0 (real (snd y) / real (total_bytes es) * 100)
                      \<le> to_fixed0 (real (snd x) / real (total_bytes es) * 100)) ?xs"
    using s by (rule sorted_wrt_mono_rel [rotated])
       (auto intro!: to_fixed0_mono divide_right_mono simp: total_bytes_pos)
  then show ?thesis
    by (simp add: lang_pills_def sorted_wrt_map case_prod_unfold)
qed

lemma lang_pills_no_bytes:
  "sum_list (map snd es) = 0 \<Longrightarrow> p \<in> set (lang_pills es) \<Longrightarrow> lp_percent p = 0"
  by (auto simp: lang_pills_def total_bytes_def to_fixed0_def)

text \<open>The rounded shares need not add up to 100.\<close>

lemma lang_pills_sum_99:
  "sum_list (map lp_percent (lang_pills [(''Python'', 1), (''Go'', 1), (''Rust'', 1)])) = 99"
  by (simp add: lang_pills_def total_bytes_def to_fixed0_def insort_key_def)

text \<open>With the wallet context: in a reachable state the prompt shows exactly when not
  connected; after Pera answers with no account the button is enabled and \<open>handleSubmit\<close>
  refuses.\<close>

lemma needs_wallet_reachable: "wallet_reachable w \<Longrightarrow> needs_wallet w \<longleftrightarrow> \<not> w_connected w"
  using reachable_mirror [of w] by (auto simp: needs_wallet_def storage_mirror_def truthy_def)

lemma empty_accounts_submit_refused:
  assumes "sp_analysis s = Some a" and "\<not> submitting s" and "sp_result s = None"
  shows "\<exists>w. wallet_run (wallet_init None) [ConnectStart, ConnectSdkReady, ConnectAccounts []] = Some w
    \<and> wallet_reachable w \<and> submit_button s w = Some True
    \<and> handle_submit env (context_address w) [] s = (s\<lparr>sp_error := connect_first_msg\<rparr>, None)"
proof -
  obtain w where run: "wallet_run (wallet_init None) [ConnectStart, ConnectSdkReady, ConnectAccounts []] = Some w"
    and w: "w_address w = None" "w_connected w"
    by (simp add: wallet_init_def connect_accounts_def)
  have "wallet_reachable w"
    using run by (rule reachable_from_empty)
  moreover have "submit_button s w = Some True"
    using assms(2,3) w by (simp add: submit_button_def needs_wallet_def truthy_def)
  moreover have "handle_submit env (context_address w) [] s = (s\<lparr>sp_error := connect_first_msg\<rparr>, None)"
    using assms(1) w by (simp add: handle_submit_def context_address_def)
  ultimately show ?thesis
    using run by blast
qed

lemma result_panel_submitted:
  assumes "handle_submit env address wallet_input s = (s', Some r)" and "sp_result s' = Some res"
  shows "rp_confirmed (result_panel res) \<and> rp_link (result_panel res) = explorer_base @ transaction_id res
    \<and> rp_domain (result_panel res) = domain r \<and> rp_score (result_panel res) = uint (score r)"
proof -
  obtain a tx where a: "method_args env a = Inr r"
    and res: "res = \<lparr>transaction_id = tx, skill_id = submit_domain a, result_score = submit_score a,
                      result_status = ''confirmed'', explorer_url = explorer_base @ tx\<rparr>"
    using handle_submit_Some_result [OF assms(1)] assms(2) by auto
  have "explorer_base \<noteq> []"
    by (simp add: explorer_base_def)
  then show ?thesis
    using method_args_Inr [OF a] res by (simp add: result_panel_def js_or_def)
qed

lemma submit_another_keeps_flight:
  assumes "i \<in> fst ` set (ap_pending s)" and "analyze_response out = Inr j"
  shows "analyze_enabled (submit_another s) (Settle i out)
    \<and> ap_analysis (analyze_step (submit_another s) (Settle i out)) = Some j"
  using assms by (simp add: submit_another_def settle_analyze_def Let_def)

section \<open>Properties of the Submit page's views\<close>

text \<open>
  C33. The language breakdown of a repository analysis (part_001, lines 636-656) shows
  each entry of \<open>meta.languages\<close> as one pill, the pills being a permutation of the
  entries, largest first: the shares never increase along the list. Each share lies in
  \<open>[0, 100]\<close>, and each pill has the colour \<open>LANG_COLORS\<close> gives its lower-cased name.
\<close>

theorem lang_pills_ordered:
  "mset (map lp_name (lang_pills es)) = mset (map fst es)
   \<and> sorted_wrt (\<ge>) (map lp_percent (lang_pills es))
   \<and> (\<forall>p \<in> set (lang_pills es). 0 \<le> lp_percent p \<and> lp_percent p \<le> 100 \<and> lp_color p = lang_color (lp_name p))"
proof (intro conjI ballI)
  show "mset (map lp_name (lang_pills es)) = mset (map fst es)"
    by (rule lang_pills_names)
  show "sorted_wrt (\<ge>) (map lp_percent (lang_pills es))"
    by (rule lang_pills_nonincreasing)
  fix p
  assume p: "p \<in> set (lang_pills es)"
  then show "0 \<le> lp_percent p" and "lp_percent p \<le> 100"
    using lang_pills_percent_bounds by blast+
  show "lp_color p = lang_color (lp_name p)"
    using p by (auto simp: lang_pills_def)
qed

theorem lang_pills_ordered_witness:
  "mset (map lp_name (lang_pills [(''Go'', 1), (''Python'', 3)])) = mset [''Go'', ''Python'']
   \<and> sorted_wrt (\<ge>) (map lp_percent (lang_pills [(''Go'', 1), (''Python'', 3)]))
   \<and> map lp_percent (lang_pills [(''Go'', 1), (''Python'', 3)]) = [75, 25]"
proof -
  have "mset (map lp_name (lang_pills [(''Go'', 1), (''Python'', 3)])) = mset (map fst [(''Go'', 1::nat), (''Python'', 3)])
      \<and> sorted_wrt (\<ge>) (map lp_percent (lang_pills [(''Go'', 1), (''Python'', 3)]))"
    using lang_pills_ordered [of "[(''Go'', 1), (''Python'', 3)]"] by blast
  moreover have "map lp_percent (lang_pills [(''Go'', 1), (''Python'', 3)]) = [75, 25]"
    by (simp add: lang_pills_def total_bytes_def to_fixed0_def insort_key_def)
  ultimately show ?thesis
    by simp
qed

end
