(* ===== verification/Explorer.thy ===== *)
theory Explorer
  imports Views Wallet
begin

text \<open>
  The cards of the Explorer page (src/unnamed/part_001, \<open>ExplorerPage\<close>, lines 790-983):
  the colour table of the domains, the options of the domain select, and what a card shows
  for a profile of the \<open>/reputation/explore\<close> answer: the rounded score and its tier, the
  shortened wallet, the badge, the record count, the top domain, the trust index in
  percent and at most three domain pills. The page shows the profiles as they came
  (\<open>filteredProfiles = profiles\<close>, line 838), or the empty state when there are none and
  nothing is loading.
\<close>

definition DOMAIN_COLORS :: "(string \<times> string) list" where
  "DOMAIN_COLORS =
     [(''backend'', ''#3178c6''), (''frontend'', ''#f1e05a''), (''python'', ''#3572A5''),
      (''blockchain'', ''#AA6746''), (''ai/ml'', ''#ff6b6b''), (''devops'', ''#00ADD8''),
      (''mobile'', ''#F05138''), (''data-science'', ''#198CE7''), (''security'', ''#c22d40''),
      (''web'', ''#e34c26''), (''systems'', ''#555555'')]"

text \<open>Line 959: \<open>DOMAIN_COLORS[ds.domain?.toLowerCase()] || '#888'\<close>; a missing domain
  is \<open>''\<close>, which has no colour either.\<close>

definition domain_color :: "string \<Rightarrow> string" where
  "domain_color d = (case map_of DOMAIN_COLORS (to_lower d) of Some c \<Rightarrow> c | None \<Rightarrow> ''#888'')"

text \<open>The values of the domain select, lines 876-885; the first is All Domains.\<close>

definition domain_options :: "string list" where
  "domain_options =
     [[], ''backend'', ''frontend'', ''python'', ''blockchain'', ''ai/ml'', ''web'', ''devops'',
      ''mobile'', ''data-science'']"

text \<open>Line 924: \<open>w.slice(0, 8)\<close>, the ellipsis and \<open>w.slice(-6)\<close>, which is the whole
  string when it is shorter than 6.\<close>

definition card_wallet :: "string \<Rightarrow> string" where
  "card_wallet w = take 8 w @ ellipsis @ drop (length w - 6) w"

record explorer_card =
  ec_score :: int
  ec_tier :: credibility_level
  ec_wallet :: string
  ec_badge :: bool
  ec_records :: nat
  ec_top_domain :: "string option"
  ec_trust_pct :: int
  ec_pills :: "(string \<times> string) list"

text \<open>A card, lines 913-975.\<close>

definition explorer_card :: "explore_profile \<Rightarrow> explorer_card" where
  "explorer_card p =
     \<lparr>ec_score = explorer_card_score p, ec_tier = explorer_card_tier p,
      ec_wallet = card_wallet (ep_wallet p), ec_badge = ep_badge p, ec_records = ep_total_records p,
      ec_top_domain = (if ep_top_domain p \<noteq> [] then Some (ep_top_domain p) else None),
      ec_trust_pct = to_fixed0 (num_or (ep_trust_index p) 0 * 100),
      ec_pills = map (\<lambda>d. (d, domain_color d)) (take 3 (ep_domains p))\<rparr>"

text \<open>The grid of cards, or \<open>None\<close> when there are no profiles (lines 910-983).\<close>

definition explorer_grid :: "explorer_state \<Rightarrow> explorer_card list option" where
  "explorer_grid s = (if ex_profiles s \<noteq> [] then Some (map explorer_card (ex_profiles s)) else None)"

definition explorer_empty_state :: "explorer_state \<Rightarrow> bool" where
  "explorer_empty_state s \<longleftrightarrow> ex_profiles s = [] \<and> \<not> ex_loading s"

section \<open>Lemmas\<close>

lemma explorer_card_pills:
  "length (ec_pills (explorer_card p)) \<le> 3 \<and> map fst (ec_pills (explorer_card p)) = take 3 (ep_domains p)"
  by (simp add: explorer_card_def comp_def)

lemma explorer_card_trust:
  assumes "0 \<le> ep_trust_index p" and "ep_trust_index p \<le> 1"
  shows "0 \<le> ec_trust_pct (explorer_card p) \<and> ec_trust_pct (explorer_card p) \<le> 100"
proof -
  have n: "num_or (ep_trust_index p) 0 = ep_trust_index p"
    by (simp add: num_or_def)
  have "to_fixed0 (ep_trust_index p * 100) \<le> to_fixed0 100"
    using assms by (intro to_fixed0_mono) simp_all
  then show ?thesis
    using assms n by (simp add: explorer_card_def to_fixed0_nonneg to_fixed0_100)
qed

text \<open>Every domain the select offers has a colour of its own.\<close>

lemma domain_options_coloured:
  "\<forall>d \<in> set (tl domain_options). domain_color d \<noteq> ''#888''"
  by (simp add: domain_options_def domain_color_def DOMAIN_COLORS_def to_lower_def)

lemma explorer_grid_empty:
  "explorer_grid s \<noteq> None \<Longrightarrow> \<not> explorer_empty_state s"
  by (simp add: explorer_grid_def explorer_empty_state_def split: if_splits)

lemma card_wallet_address:
  "length w = 58 \<Longrightarrow> card_wallet w = take 8 w @ ellipsis @ drop 52 w \<and> length (card_wallet w) = 17"
  by (simp add: card_wallet_def ellipsis_def)

end
