(* ===== verification/Events.thy ===== *)
theory Events
  imports Prelude
begin

text \<open>
  Event systems, the shape every page of the frontend has in this development: a state, a
  predicate saying which events can happen in a state (a control is rendered and enabled,
  a request is in flight), and a step function applying an event's handler. Reachability
  is an inductive predicate over the three; \<open>ev_run\<close> runs a concrete sequence of events
  and is \<open>None\<close> as soon as one of them cannot happen. Pages whose requests carry ghost
  identifiers share the lemma that answering every request in flight leaves nothing in
  flight and the page no longer busy.
\<close>

fun ev_run :: "('s \<Rightarrow> 'e \<Rightarrow> bool) \<Rightarrow> ('s \<Rightarrow> 'e \<Rightarrow> 's) \<Rightarrow> 's \<Rightarrow> 'e list \<Rightarrow> 's option" where
  "ev_run en st s [] = Some s"
| "ev_run en st s (e # es) = (if en s e then ev_run en st (st s e) es else None)"

inductive ev_reachable :: "('s \<Rightarrow> bool) \<Rightarrow> ('s \<Rightarrow> 'e \<Rightarrow> bool) \<Rightarrow> ('s \<Rightarrow> 'e \<Rightarrow> 's) \<Rightarrow> 's \<Rightarrow> bool"
  for init :: "'s \<Rightarrow> bool" and en :: "'s \<Rightarrow> 'e \<Rightarrow> bool" and st :: "'s \<Rightarrow> 'e \<Rightarrow> 's"
where
  init: "init s \<Longrightarrow> ev_reachable init en st s"
| step: "ev_reachable init en st s \<Longrightarrow> en s e \<Longrightarrow> ev_reachable init en st (st s e)"

section \<open>Lemmas\<close>

lemma ev_run_append:
  "ev_run en st s (xs @ ys) = (case ev_run en st s xs of None \<Rightarrow> None | Some t \<Rightarrow> ev_run en st t ys)"
  by (induction xs arbitrary: s) simp_all

lemma ev_run_reachable:
  "ev_reachable init en st s \<Longrightarrow> ev_run en st s es = Some t \<Longrightarrow> ev_reachable init en st t"
proof (induction es arbitrary: s)
  case Nil
  then show ?case by simp
next
  case (Cons e es)
  then have "en s e" and run: "ev_run en st (st s e) es = Some t"
    by (simp_all split: if_splits)
  have "ev_reachable init en st (st s e)"
    using Cons.prems(1) \<open>en s e\<close> by (rule ev_reachable.step)
  then show ?case
    using run by (rule Cons.IH)
qed

text \<open>A run of events that leave some part of the state unchanged leaves it unchanged.\<close>

lemma ev_run_keeps:
  assumes "\<And>s e. e \<in> set es \<Longrightarrow> g (st s e) = g s"
  shows "ev_run en st s es = Some t \<Longrightarrow> g t = g s"
  using assms
proof (induction es arbitrary: s)
  case Nil
  then show ?case by simp
next
  case (Cons e es)
  then have "g t = g (st s e)"
    by (simp split: if_splits)
  then show ?case
    using Cons.prems(2) by simp
qed

text \<open>An invariant that holds initially and that every enabled event preserves holds in
  every reachable state.\<close>

lemma ev_invariant:
  assumes "ev_reachable init en st s"
    and "\<And>s. init s \<Longrightarrow> P s"
    and "\<And>s e. ev_reachable init en st s \<Longrightarrow> P s \<Longrightarrow> en s e \<Longrightarrow> P (st s e)"
  shows "P s"
  using assms(1) by (induction rule: ev_reachable.induct) (simp_all add: assms(2,3))

text \<open>A property that every enabled event of some kind preserves holds after any run of
  events of that kind.\<close>

lemma ev_run_invariant:
  assumes step: "\<And>s e. P s \<Longrightarrow> en s e \<Longrightarrow> Q e \<Longrightarrow> P (st s e)"
  shows "P s \<Longrightarrow> \<forall>e \<in> set es. Q e \<Longrightarrow> ev_run en st s es = Some t \<Longrightarrow> P t"
proof (induction es arbitrary: s)
  case Nil
  then show ?case by simp
next
  case (Cons e es)
  then have "en s e" and run: "ev_run en st (st s e) es = Some t"
    by (simp_all split: if_splits)
  have "P (st s e)"
    using Cons.prems(1,2) \<open>en s e\<close> by (intro step) simp_all
  then show ?case
    using Cons.prems(2) run by (intro Cons.IH) simp_all
qed

text \<open>The answers, in order, to the requests \<open>ps\<close> in flight, with the responses \<open>res\<close>.\<close>

definition ev_answers :: "(nat \<Rightarrow> 'r \<Rightarrow> 'e) \<Rightarrow> (nat \<Rightarrow> 'r) \<Rightarrow> (nat \<times> 'w) list \<Rightarrow> 'e list" where
  "ev_answers settle res ps = map (\<lambda>p. settle (fst p) (res (fst p))) ps"

text \<open>If a request in flight can always be answered, and answering the oldest one removes
  it and clears the busy flag, then answering all of them, oldest first, empties the list
  and leaves the page not busy.\<close>

lemma ev_settle_all:
  assumes answerable: "\<And>s i r. i \<in> fst ` set (pend s) \<Longrightarrow> en s (settle i r)"
    and settles: "\<And>s i w ps r. pend s = (i, w) # ps \<Longrightarrow> i \<notin> fst ` set ps
      \<Longrightarrow> pend (st s (settle i r)) = ps \<and> \<not> busy (st s (settle i r))"
  shows "distinct (map fst (pend s)) \<Longrightarrow> (busy s \<longrightarrow> pend s \<noteq> [])
    \<Longrightarrow> \<exists>t. ev_run en st s (ev_answers settle res (pend s)) = Some t \<and> pend t = [] \<and> \<not> busy t"
proof (induction "pend s" arbitrary: s)
  case Nil
  then show ?case
    by (simp add: ev_answers_def)
next
  case (Cons p ps)
  obtain i w where p: "p = (i, w)"
    by (cases p)
  have pend: "pend s = (i, w) # ps"
    using Cons.hyps(2) p by simp
  then have nin: "i \<notin> fst ` set ps"
    using Cons.prems(1) by auto
  let ?s' = "st s (settle i (res i))"
  have s': "pend ?s' = ps" "\<not> busy ?s'"
    using settles [OF pend nin] by simp_all
  have "\<exists>t. ev_run en st ?s' (ev_answers settle res (pend ?s')) = Some t \<and> pend t = [] \<and> \<not> busy t"
    using Cons.prems(1) pend s' by (intro Cons.hyps(1)) simp_all
  moreover have "en s (settle i (res i))"
    using answerable pend by simp
  ultimately show ?case
    using pend s' by (simp add: ev_answers_def)
qed

end
