(* ===== verification/SubmitPage.thy ===== *)
theory SubmitPage
  imports SubmitView Events
begin

text \<open>
  The whole Submit page (src/unnamed/part_001, \<open>SubmitPage\<close>, lines 177-340 and the controls
  of lines 370-720) as one event system: the analysis step of the Analyze theory, the
  wallet context, the wallet input with \<open>handleSetWallet\<close>, \<open>handleSubmit\<close> split at its
  first await, Submit Another, and the wallet events of the navigation bar. The analysis
  on screen is the JSON the backend returned (\<open>ap_analysis\<close>); \<open>handleSubmit\<close> reads the
  fields of lines 287-295 from it (\<open>analysis_of_json\<close>). Its closure captures the analysis,
  the wallet and the Pera instance when the button is pressed; it writes the page only when
  it finishes, so its awaits collapse into one settling event whose argument is the outcome
  of the network and wallet calls (\<open>submit_env\<close>). Submissions carry ghost identifiers, and
  the ghost field \<open>sg_box\<close> lists the records the contract appended, with their wallet.
\<close>

section \<open>Reading the analysis\<close>

text \<open>\<open>v?.k\<close> on a value that may be absent: \<open>undefined\<close> for an absent or \<open>null\<close> value.\<close>

definition opt_get :: "json option \<Rightarrow> string \<Rightarrow> json option" where
  "opt_get v k = (case v of None \<Rightarrow> None | Some x \<Rightarrow> (case js_get x k of Inl _ \<Rightarrow> None | Inr r \<Rightarrow> r))"

text \<open>A string field as the page uses it: a string, or absent or \<open>null\<close>, both falsy like
  \<open>''\<close>; \<open>None\<close> for a value of another type.\<close>

definition str_field :: "json option \<Rightarrow> string option" where
  "str_field v = (case v of None \<Rightarrow> Some [] | Some JNull \<Rightarrow> Some [] | Some (JStr s) \<Rightarrow> Some s | Some _ \<Rightarrow> None)"

text \<open>\<open>analysis.domains?.[0]\<close>: the first element of an array.\<close>

definition first_domain :: "json option \<Rightarrow> json option" where
  "first_domain v = (case v of Some (JArr (x # _)) \<Rightarrow> Some x | _ \<Rightarrow> None)"

text \<open>
  The fields \<open>handleSubmit\<close> reads (lines 287-295), as the \<open>analysis\<close> record of the Submit
  theory: \<open>overall_score\<close>, the three hashes of \<open>metadata\<close>, the first detected domain and
  \<open>source_type\<close>. The reading succeeds when they have the types of the specification's
  \<open>ScoringResult\<close> (section 3): a number and strings, each string possibly absent. A
  \<open>domains\<close> value that is not an array reads as no domain, as \<open>?.[0]\<close> does for an
  absent value.
\<close>

definition analysis_of_json :: "json \<Rightarrow> analysis option" where
  "analysis_of_json j =
     (case opt_get (Some j) ''overall_score'' of
        Some (JNum x) \<Rightarrow>
          (let meta = opt_get (Some j) ''metadata''; d = first_domain (opt_get (Some j) ''domains'') in
           case (str_field (opt_get meta ''artifact_hash''), str_field (opt_get meta ''sha256''),
                 str_field (opt_get meta ''project_hash''), str_field (opt_get d ''domain''),
                 str_field (opt_get d ''subdomain''), str_field (opt_get (Some j) ''source_type'')) of
             (Some ah, Some sh, Some ph, Some dm, Some sd, Some st) \<Rightarrow>
               Some \<lparr>overall_score = x, meta_artifact_hash = ah, meta_sha256 = sh,
                     meta_project_hash = ph,
                     domains = (if d = None then [] else [\<lparr>dg_domain = dm, dg_subdomain = sd\<rparr>]),
                     source_type = st\<rparr>
           | _ \<Rightarrow> None)
      | _ \<Rightarrow> None)"

section \<open>The page\<close>

text \<open>A submission in flight: what the closure captured when Submit was pressed.\<close>

record submit_job =
  sj_analysis :: analysis
  sj_wallet :: string
  sj_pera :: bool

record submit_page =
  sg_page :: analyze_page
  sg_wallet :: wallet_state
  sg_input :: string
  sg_submitting :: bool
  sg_result :: "submit_result option"
  sg_subs :: "(nat \<times> submit_job) list"
  sg_next_sub :: nat
  sg_box :: "(string \<times> skill_record) list"

datatype submit_event =
  SAnalyze analyze_event
| SWallet wallet_event
| SInput string
| SSetWallet
| SSubmit
| SSubmitSettle nat submit_env
| SAnother

text \<open>
  An event of the analysis step, with the context's address as \<open>handleAnalyze\<close> reads
  it. \<open>handleAnalyze\<close> and the source tabs also call \<open>setSubmitResult(null)\<close> (lines 208
  and 422): the result goes when the Analyze theory's \<open>ap_result\<close> flag does.
\<close>

definition sp_analyze :: "analyze_event \<Rightarrow> submit_page \<Rightarrow> submit_page" where
  "sp_analyze e s =
     (let p = analyze_step (sg_page s\<lparr>ap_address := context_address (sg_wallet s)\<rparr>) e in
      s\<lparr>sg_page := p, sg_result := (if ap_result p then sg_result s else None)\<rparr>)"

text \<open>The start of \<open>handleSubmit\<close>, lines 248-259: without an analysis nothing happens;
  without a wallet of address length the page asks for one; otherwise the page is
  submitting and the closure's values are captured. An analysis that does not read is
  outside the model: Submit is not enabled for it (\<open>submit_page_enabled\<close>), and the
  branch leaves the page as it is.\<close>

definition start_submit :: "submit_page \<Rightarrow> submit_page" where
  "start_submit s =
     (case ap_analysis (sg_page s) of
        None \<Rightarrow> s
      | Some j \<Rightarrow>
          let wallet = js_or (context_address (sg_wallet s)) (sg_input s) in
          if length wallet < 58 then s\<lparr>sg_page := (sg_page s)\<lparr>ap_error := Msg connect_first_msg\<rparr>\<rparr>
          else case analysis_of_json j of
                 None \<Rightarrow> s
               | Some a \<Rightarrow>
                   s\<lparr>sg_submitting := True, sg_page := (sg_page s)\<lparr>ap_error := Msg []\<rparr>,
                     sg_subs := sg_subs s @ [(sg_next_sub s, \<lparr>sj_analysis = a, sj_wallet = wallet,
                                                             sj_pera = w_pera (sg_wallet s)\<rparr>)],
                     sg_next_sub := Suc (sg_next_sub s)\<rparr>)"

text \<open>The rest of \<open>handleSubmit\<close>, lines 261-339: the chain of the Submit theory on the
  captured analysis, with the captured Pera instance as the signer; the result or the
  error, and \<open>finally\<close> the end of submitting. A confirmed call appends its record to the
  wallet's box.\<close>

definition settle_submit :: "nat \<Rightarrow> submit_env \<Rightarrow> submit_page \<Rightarrow> submit_page" where
  "settle_submit i env s =
     (case map_of (sg_subs s) i of
        None \<Rightarrow> s
      | Some job \<Rightarrow>
          let s' = s\<lparr>sg_subs := filter (\<lambda>p. fst p \<noteq> i) (sg_subs s), sg_submitting := False\<rparr>
          in case submit_chain (env\<lparr>pera_present := sj_pera job\<rparr>) (sj_analysis job) of
               Inl m \<Rightarrow> s'\<lparr>sg_page := (sg_page s)\<lparr>ap_error := Msg (js_or m submission_failed_msg)\<rparr>\<rparr>
             | Inr (r, tx) \<Rightarrow>
                 s'\<lparr>sg_page := (sg_page s)\<lparr>ap_error := Msg [], ap_result := True\<rparr>,
                   sg_result := Some \<lparr>transaction_id = tx, skill_id = domain r,
                                      result_score = submit_score (sj_analysis job),
                                      result_status = ''confirmed'', explorer_url = explorer_base @ tx\<rparr>,
                   sg_box := sg_box s @ [(sj_wallet job, r)]\<rparr>)"

text \<open>Submit Another, line 775.\<close>

definition sp_another :: "submit_page \<Rightarrow> submit_page" where
  "sp_another s = s\<lparr>sg_page := submit_another (sg_page s), sg_result := None\<rparr>"

fun submit_page_step :: "submit_page \<Rightarrow> submit_event \<Rightarrow> submit_page" where
  "submit_page_step s (SAnalyze e) = sp_analyze e s"
| "submit_page_step s (SWallet e) = s\<lparr>sg_wallet := wallet_step (sg_wallet s) e\<rparr>"
| "submit_page_step s (SInput x) = s\<lparr>sg_input := x\<rparr>"
| "submit_page_step s SSetWallet = s\<lparr>sg_wallet := set_wallet (sg_input s) (sg_wallet s)\<rparr>"
| "submit_page_step s SSubmit = start_submit s"
| "submit_page_step s (SSubmitSettle i env) = settle_submit i env s"
| "submit_page_step s SAnother = sp_another s"

text \<open>
  Which events can happen: the analysis step's own controls; wallet events of the context
  and the navigation bar (\<open>setManualWallet\<close> only through \<open>handleSetWallet\<close>); the wallet
  input and Use Address while not connected, the latter for an input of address length
  (lines 375-396); the Submit button while the analysis panel shows (an analysis and no
  analysis running, line 524) and \<open>submit_button\<close> enables it, for an analysis of the
  specification's shape; the settling of a submission in flight; Submit Another while a
  result shows.
\<close>

fun submit_page_enabled :: "submit_page \<Rightarrow> submit_event \<Rightarrow> bool" where
  "submit_page_enabled s (SAnalyze e) \<longleftrightarrow> analyze_enabled (sg_page s) e"
| "submit_page_enabled s (SWallet e) \<longleftrightarrow>
     wallet_enabled (sg_wallet s) e \<and> (case e of SetManual a \<Rightarrow> False | _ \<Rightarrow> True)"
| "submit_page_enabled s (SInput x) \<longleftrightarrow> \<not> w_connected (sg_wallet s)"
| "submit_page_enabled s SSetWallet \<longleftrightarrow> \<not> w_connected (sg_wallet s) \<and> 58 \<le> length (sg_input s)"
| "submit_page_enabled s SSubmit \<longleftrightarrow>
     (case ap_analysis (sg_page s) of
        None \<Rightarrow> False
      | Some j \<Rightarrow> \<not> ap_analyzing (sg_page s) \<and> analysis_of_json j \<noteq> None
                 \<and> submit_button \<lparr>sp_analysis = analysis_of_json j, submitting = sg_submitting s,
                                  sp_error = [], sp_result = sg_result s\<rparr> (sg_wallet s) = Some True)"
| "submit_page_enabled s (SSubmitSettle i env) \<longleftrightarrow> i \<in> fst ` set (sg_subs s)"
| "submit_page_enabled s SAnother \<longleftrightarrow> sg_result s \<noteq> None"

text \<open>The page on mount: \<open>walletInput\<close> starts as \<open>address || ''\<close> (line 191).\<close>

definition submit_page_init :: "string option \<Rightarrow> submit_page" where
  "submit_page_init st =
     \<lparr>sg_page = analyze_init (context_address (wallet_init st)), sg_wallet = wallet_init st,
      sg_input = context_address (wallet_init st), sg_submitting = False, sg_result = None,
      sg_subs = [], sg_next_sub = 0, sg_box = []\<rparr>"

definition submit_page_reachable :: "submit_page \<Rightarrow> bool" where
  "submit_page_reachable =
     ev_reachable (\<lambda>s. \<exists>st. storage_ok st \<and> s = submit_page_init st) submit_page_enabled submit_page_step"

text \<open>The page invariant: a result is on screen exactly when the Analyze theory's
  \<open>ap_result\<close> flag says so; the page is submitting exactly while a submission is in
  flight, of which there is at most one; submissions have fresh identifiers.\<close>

definition sp_inv :: "submit_page \<Rightarrow> bool" where
  "sp_inv s \<longleftrightarrow> (ap_result (sg_page s) \<longleftrightarrow> sg_result s \<noteq> None)
     \<and> (sg_submitting s \<longleftrightarrow> sg_subs s \<noteq> []) \<and> length (sg_subs s) \<le> 1
     \<and> fresh_ids (sg_subs s) (sg_next_sub s)"

text \<open>The analysis step's invariant: analysing only while a request is in flight, with
  fresh identifiers.\<close>

definition an_inv :: "analyze_page \<Rightarrow> bool" where
  "an_inv q \<longleftrightarrow> (ap_analyzing q \<longrightarrow> ap_pending q \<noteq> []) \<and> fresh_ids (ap_pending q) (ap_next q)"

text \<open>A session in which nothing can be signed: connected without a Pera instance, no
  submission in flight captured one, and nothing has been recorded or shown.\<close>

definition unsigned_session :: "submit_page \<Rightarrow> bool" where
  "unsigned_session s \<longleftrightarrow> w_connected (sg_wallet s) \<and> \<not> w_pera (sg_wallet s)
     \<and> (\<forall>p \<in> set (sg_subs s). \<not> sj_pera (snd p)) \<and> sg_box s = [] \<and> sg_result s = None"

text \<open>Every submission in flight and every record sent is for a wallet of address length.\<close>

definition box_inv :: "submit_page \<Rightarrow> bool" where
  "box_inv s \<longleftrightarrow> (\<forall>p \<in> set (sg_subs s). 58 \<le> length (sj_wallet (snd p)))
     \<and> (\<forall>p \<in> set (sg_box s). 58 \<le> length (fst p))"

text \<open>An analysis and a submission from a session restored from storage.\<close>

definition json_a :: json where
  "json_a = JObj [(''overall_score'', JNum 0.85)]"

definition restored_submit :: "submit_event list" where
  "restored_submit =
     [SAnalyze (TypeUrl ''u''), SAnalyze ClickAnalyze, SAnalyze (Settle 0 (RawResponse 200 [] (Some json_a))),
      SSubmit, SSubmitSettle 0 sample_env]"

section \<open>Lemmas\<close>

lemma analyze_step_result: "ap_result (analyze_step q e) \<Longrightarrow> ap_result q"
  by (cases e) (auto simp: start_analyze_def settle_analyze_def select_tab_def Let_def
      split: sum.splits)

lemma sp_analyze_inv: "sp_inv s \<Longrightarrow> sp_inv (sp_analyze e s)"
  using analyze_step_result [of "sg_page s\<lparr>ap_address := context_address (sg_wallet s)\<rparr>" e]
  by (auto simp: sp_inv_def sp_analyze_def Let_def)

lemma start_submit_inv: "sp_inv s \<Longrightarrow> \<not> sg_submitting s \<Longrightarrow> sp_inv (start_submit s)"
  by (auto simp: sp_inv_def start_submit_def Let_def fresh_ids_def split: option.split)

lemma settle_submit_inv: "sp_inv s \<Longrightarrow> sp_inv (settle_submit i env s)"
proof -
  assume inv: "sp_inv s"
  show ?thesis
  proof (cases "map_of (sg_subs s) i")
    case None
    then show ?thesis using inv by (simp add: settle_submit_def)
  next
    case (Some job)
    then have "(i, job) \<in> set (sg_subs s)"
      by (rule map_of_SomeD)
    with inv have subs: "sg_subs s = [(i, job)]"
      by (cases "sg_subs s") (auto simp: sp_inv_def)
    show ?thesis
      using inv Some subs
      by (auto simp: sp_inv_def settle_submit_def Let_def split: sum.split prod.split)
  qed
qed

lemma submit_page_step_inv:
  assumes inv: "sp_inv s" and en: "submit_page_enabled s e"
  shows "sp_inv (submit_page_step s e)"
proof (cases e)
  case SSubmit
  then have "\<not> sg_submitting s"
    using en by (auto simp: submit_button_def split: option.splits if_splits)
  then show ?thesis
    using inv SSubmit by (simp add: start_submit_inv)
next
  case (SAnalyze x)
  then show ?thesis using inv by (simp add: sp_analyze_inv)
next
  case (SSubmitSettle i env)
  then show ?thesis using inv by (simp add: settle_submit_inv)
next
  case SAnother
  then show ?thesis using inv by (simp add: sp_inv_def sp_another_def submit_another_def)
qed (use inv in \<open>simp_all add: sp_inv_def\<close>)

lemma submit_page_init_inv: "sp_inv (submit_page_init st)"
  by (simp add: sp_inv_def submit_page_init_def analyze_init_def)

lemma submit_page_reachable_inv: "submit_page_reachable s \<Longrightarrow> sp_inv s"
  unfolding submit_page_reachable_def
  by (erule ev_invariant) (auto simp: submit_page_init_inv submit_page_step_inv)

lemma submit_page_reachable_wallet: "submit_page_reachable s \<Longrightarrow> wallet_reachable (sg_wallet s)"
  unfolding submit_page_reachable_def
proof (induction rule: ev_reachable.induct)
  case (init s)
  then show ?case by (auto simp: submit_page_init_def intro: wallet_reachable.init)
next
  case (step s e)
  show ?case
  proof (cases e)
    case (SWallet x)
    then show ?thesis using step by (auto intro: wallet_reachable.step)
  next
    case SSetWallet
    have "wallet_reachable (wallet_step (sg_wallet s) (SetManual (sg_input s)))"
      using step.IH by (rule wallet_reachable.step) simp
    then show ?thesis using SSetWallet step.IH by (simp add: set_wallet_def)
  qed (use step.IH in \<open>simp_all add: sp_analyze_def start_submit_def settle_submit_def sp_another_def
         Let_def split: option.split sum.split prod.split\<close>)
qed

lemma submit_page_settle_all:
  "distinct (map fst (sg_subs s)) \<Longrightarrow> (sg_submitting s \<longrightarrow> sg_subs s \<noteq> [])
   \<Longrightarrow> \<exists>t. ev_run submit_page_enabled submit_page_step s (ev_answers SSubmitSettle res (sg_subs s)) = Some t
         \<and> sg_subs t = [] \<and> \<not> sg_submitting t"
proof (rule ev_settle_all)
  fix s :: submit_page and i w ps r
  assume "sg_subs s = (i, w) # ps" "i \<notin> fst ` set ps"
  moreover have "filter (\<lambda>p. fst p \<noteq> i) ps = ps"
    using \<open>i \<notin> fst ` set ps\<close> by (auto simp: filter_id_conv)
  ultimately show "sg_subs (submit_page_step s (SSubmitSettle i r)) = ps
      \<and> \<not> sg_submitting (submit_page_step s (SSubmitSettle i r))"
    by (auto simp: settle_submit_def Let_def split: sum.split prod.split)
qed simp

lemma analyze_step_an_inv: "an_inv q \<Longrightarrow> an_inv (analyze_step q e)"
  by (cases e) (auto simp: an_inv_def start_analyze_def settle_analyze_def select_tab_def Let_def
      fresh_ids_snoc fresh_ids_filter split: sum.split)

lemma submit_page_step_an_inv:
  assumes "an_inv (sg_page s)"
  shows "an_inv (sg_page (submit_page_step s e))"
proof (cases e)
  case (SAnalyze x)
  have "an_inv (sg_page s\<lparr>ap_address := context_address (sg_wallet s)\<rparr>)"
    using assms by (simp add: an_inv_def)
  then have "an_inv (analyze_step (sg_page s\<lparr>ap_address := context_address (sg_wallet s)\<rparr>) x)"
    by (rule analyze_step_an_inv)
  then show ?thesis
    using SAnalyze by (simp add: sp_analyze_def Let_def)
qed (use assms in \<open>auto simp: an_inv_def start_submit_def settle_submit_def sp_another_def
       submit_another_def Let_def split: option.split sum.split prod.split\<close>)

lemma submit_page_reachable_an_inv: "submit_page_reachable s \<Longrightarrow> an_inv (sg_page s)"
  unfolding submit_page_reachable_def
proof (erule ev_invariant)
  fix s :: submit_page
  assume "\<exists>st. storage_ok st \<and> s = submit_page_init st"
  then show "an_inv (sg_page s)"
    by (auto simp: submit_page_init_def analyze_init_def an_inv_def)
next
  fix s :: submit_page and e
  assume "an_inv (sg_page s)"
  then show "an_inv (sg_page (submit_page_step s e))"
    by (rule submit_page_step_an_inv)
qed

lemma submit_page_settle_analyses:
  "distinct (map fst (ap_pending (sg_page s))) \<Longrightarrow> (ap_analyzing (sg_page s) \<longrightarrow> ap_pending (sg_page s) \<noteq> [])
   \<Longrightarrow> \<exists>t. ev_run submit_page_enabled submit_page_step s
           (ev_answers (\<lambda>i r. SAnalyze (Settle i r)) out (ap_pending (sg_page s))) = Some t
         \<and> ap_pending (sg_page t) = [] \<and> \<not> ap_analyzing (sg_page t)"
proof (rule ev_settle_all)
  fix s :: submit_page and i w ps r
  assume "ap_pending (sg_page s) = (i, w) # ps" "i \<notin> fst ` set ps"
  moreover have "filter (\<lambda>p. fst p \<noteq> i) ps = ps"
    using \<open>i \<notin> fst ` set ps\<close> by (auto simp: filter_id_conv)
  ultimately show "ap_pending (sg_page (submit_page_step s (SAnalyze (Settle i r)))) = ps
      \<and> \<not> ap_analyzing (sg_page (submit_page_step s (SAnalyze (Settle i r))))"
    by (auto simp: sp_analyze_def settle_analyze_def Let_def split: sum.split)
qed simp

lemma settle_analyses_keep_subs:
  assumes "ev_run submit_page_enabled submit_page_step s (ev_answers (\<lambda>i r. SAnalyze (Settle i r)) out ps) = Some t"
  shows "(sg_subs t, sg_submitting t, sg_next_sub t) = (sg_subs s, sg_submitting s, sg_next_sub s)"
  by (rule ev_run_keeps [where g = "\<lambda>s. (sg_subs s, sg_submitting s, sg_next_sub s)", OF _ assms])
     (auto simp: ev_answers_def sp_analyze_def Let_def)

lemma settle_submit_page [simp]:
  "ap_pending (sg_page (settle_submit i env s)) = ap_pending (sg_page s)"
  "ap_analyzing (sg_page (settle_submit i env s)) = ap_analyzing (sg_page s)"
  by (simp_all add: settle_submit_def Let_def split: option.split sum.split prod.split)

lemma settle_subs_keep_analyses:
  assumes "ev_run submit_page_enabled submit_page_step s (ev_answers SSubmitSettle env ps) = Some t"
  shows "(ap_pending (sg_page t), ap_analyzing (sg_page t)) = (ap_pending (sg_page s), ap_analyzing (sg_page s))"
  by (rule ev_run_keeps [where g = "\<lambda>s. (ap_pending (sg_page s), ap_analyzing (sg_page s))", OF _ assms])
     (auto simp: ev_answers_def)

lemma submit_page_quiesces:
  assumes "submit_page_reachable s"
  shows "\<exists>t. ev_run submit_page_enabled submit_page_step s
      (ev_answers (\<lambda>i r. SAnalyze (Settle i r)) out (ap_pending (sg_page s)) @ ev_answers SSubmitSettle env (sg_subs s))
      = Some t \<and> ap_pending (sg_page t) = [] \<and> \<not> ap_analyzing (sg_page t) \<and> sg_subs t = [] \<and> \<not> sg_submitting t"
proof -
  have an: "an_inv (sg_page s)" and sp: "sp_inv s"
    using assms by (simp_all add: submit_page_reachable_an_inv submit_page_reachable_inv)
  obtain t1 where r1: "ev_run submit_page_enabled submit_page_step s
      (ev_answers (\<lambda>i r. SAnalyze (Settle i r)) out (ap_pending (sg_page s))) = Some t1"
    and t1: "ap_pending (sg_page t1) = []" "\<not> ap_analyzing (sg_page t1)"
    using submit_page_settle_analyses [of s out] an by (auto simp: an_inv_def fresh_ids_def)
  have k1: "sg_subs t1 = sg_subs s" "sg_submitting t1 = sg_submitting s"
    using settle_analyses_keep_subs [OF r1] by simp_all
  obtain t2 where r2: "ev_run submit_page_enabled submit_page_step t1 (ev_answers SSubmitSettle env (sg_subs t1)) = Some t2"
    and t2: "sg_subs t2 = []" "\<not> sg_submitting t2"
    using submit_page_settle_all [of t1 env] sp k1 by (auto simp: sp_inv_def fresh_ids_def)
  have "ap_pending (sg_page t2) = []" "\<not> ap_analyzing (sg_page t2)"
    using settle_subs_keep_analyses [OF r2] t1 by simp_all
  then show ?thesis
    using r1 r2 t2 k1 by (auto simp: ev_run_append)
qed

lemma submit_page_run_reachable:
  assumes "storage_ok st" and run: "ev_run submit_page_enabled submit_page_step (submit_page_init st) es = Some t"
  shows "submit_page_reachable t"
proof -
  have "ev_reachable (\<lambda>s. \<exists>st. storage_ok st \<and> s = submit_page_init st) submit_page_enabled submit_page_step
      (submit_page_init st)"
    using assms(1) by (intro ev_reachable.init) blast
  from this run show ?thesis
    unfolding submit_page_reachable_def by (rule ev_run_reachable)
qed

lemma submit_chain_no_signer: "\<not> pera_present env \<Longrightarrow> \<exists>m. submit_chain env a = Inl m"
  by (auto simp: submit_chain_def bind_res_def split: option.split sum.split)

lemma settle_submit_unsigned:
  assumes "map_of (sg_subs s) i = Some job" and "\<not> sj_pera job"
  shows "sg_box (settle_submit i env s) = sg_box s \<and> sg_result (settle_submit i env s) = sg_result s
    \<and> sg_wallet (settle_submit i env s) = sg_wallet s"
proof -
  obtain m where "submit_chain (env\<lparr>pera_present := sj_pera job\<rparr>) (sj_analysis job) = Inl m"
    using submit_chain_no_signer assms(2) by fastforce
  then show ?thesis
    using assms(1) by (simp add: settle_submit_def Let_def)
qed

lemma settle_submit_subs: "set (sg_subs (settle_submit i env s)) \<subseteq> set (sg_subs s)"
  by (auto simp: settle_submit_def Let_def split: option.split sum.split prod.split)

lemma unsigned_session_step:
  assumes "unsigned_session s" and "submit_page_enabled s e"
    and "case e of SWallet _ \<Rightarrow> False | _ \<Rightarrow> True"
  shows "unsigned_session (submit_page_step s e)"
proof (cases e)
  case (SSubmitSettle i env)
  then obtain job where job: "map_of (sg_subs s) i = Some job"
    using assms(2) by (auto dest: weak_map_of_SomeI simp: map_of_eq_None_iff [symmetric])
  then have "\<not> sj_pera job"
    using assms(1) map_of_SomeD [OF job] by (fastforce simp: unsigned_session_def)
  then show ?thesis
    using SSubmitSettle assms(1) settle_submit_unsigned [OF job, of env] settle_submit_subs [of i env s]
    by (auto simp: unsigned_session_def)
qed (use assms in \<open>auto simp: unsigned_session_def sp_analyze_def start_submit_def sp_another_def
       Let_def split: option.split\<close>)

lemma box_inv_step: "box_inv s \<Longrightarrow> box_inv (submit_page_step s e)"
proof (cases e)
  case (SSubmitSettle i env)
  assume inv: "box_inv s"
  show ?thesis
  proof (cases "map_of (sg_subs s) i")
    case (Some job)
    then have "58 \<le> length (sj_wallet job)"
      using inv map_of_SomeD [OF Some] by (fastforce simp: box_inv_def)
    then show ?thesis
      using inv Some SSubmitSettle
      by (auto simp: box_inv_def settle_submit_def Let_def split: sum.split prod.split)
  qed (use inv SSubmitSettle in \<open>simp add: settle_submit_def\<close>)
qed (auto simp: box_inv_def sp_analyze_def start_submit_def sp_another_def set_wallet_def Let_def
       not_less split: option.split)

lemma box_inv_init: "box_inv (submit_page_init st)"
  by (simp add: submit_page_init_def box_inv_def)

lemma submit_page_reachable_box: "submit_page_reachable s \<Longrightarrow> box_inv s"
  unfolding submit_page_reachable_def
  by (erule ev_invariant) (auto simp: box_inv_init box_inv_step)

section \<open>Properties of the Submit page\<close>

text \<open>
  C6. Submissions are single-flight and go out only for an address: in every reachable
  state of the page at most one submission is in flight, the page is submitting exactly
  while one is (the Submit button is disabled while \<open>submitting\<close>, line 716, and
  \<open>finally\<close> clears it, line 338), and every record the page has sent to the chain went
  from a wallet of Algorand address length (the check of line 251).
\<close>

theorem submit_single_flight:
  assumes "submit_page_reachable s"
  shows "length (sg_subs s) \<le> 1 \<and> (sg_submitting s \<longleftrightarrow> sg_subs s \<noteq> [])
    \<and> (\<forall>p \<in> set (sg_box s). 58 \<le> length (fst p))"
  using submit_page_reachable_inv [OF assms] submit_page_reachable_box [OF assms]
  by (simp add: sp_inv_def box_inv_def)

theorem submit_single_flight_witness:
  "\<exists>t. ev_run submit_page_enabled submit_page_step (submit_page_init (Some sample_wallet))
         (take 4 restored_submit) = Some t \<and> sg_submitting t \<and> length (sg_subs t) = 1"
proof -
  obtain t where run: "ev_run submit_page_enabled submit_page_step (submit_page_init (Some sample_wallet))
      (take 4 restored_submit) = Some t" and subs: "sg_subs t \<noteq> []"
    by (simp add: restored_submit_def submit_page_init_def wallet_init_def analyze_init_def
        sp_analyze_def start_analyze_def analyze_request_def settle_analyze_def response_ok_def
        start_submit_def analysis_of_json_def opt_get_def str_field_def first_domain_def
        json_a_def submit_button_def needs_wallet_def truthy_def context_address_def
        Let_def has_input_def sample_wallet_def js_or_def)
  have "submit_page_reachable t"
    using _ run by (rule submit_page_run_reachable) (simp add: storage_ok_def sample_wallet_def)
  then have "length (sg_subs t) \<le> 1 \<and> (sg_submitting t \<longleftrightarrow> sg_subs t \<noteq> [])"
    using submit_single_flight by blast
  then have "sg_submitting t \<and> length (sg_subs t) = 1"
    using subs by (cases "sg_subs t") auto
  then show ?thesis
    using run by blast
qed

text \<open>
  C13. A session restored from storage cannot submit. After a reload the context is
  connected to the stored address but holds no Pera instance (WalletContext.jsx, lines
  21-22), and the page enables Submit for it; unless the user goes through a wallet event
  (connecting Pera, disconnecting), no run of the page, whatever analyses, inputs, Submit
  presses and responses it contains, records anything on chain or shows a result: every
  submission fails before the call for want of a signer.
\<close>

theorem restored_session_cannot_sign:
  assumes "storage_ok (Some a)"
    and "ev_run submit_page_enabled submit_page_step (submit_page_init (Some a)) es = Some t"
    and "\<forall>e \<in> set es. case e of SWallet _ \<Rightarrow> False | _ \<Rightarrow> True"
  shows "w_connected (sg_wallet t) \<and> sg_box t = [] \<and> sg_result t = None"
proof -
  have "unsigned_session (submit_page_init (Some a))"
    using assms(1) by (simp add: unsigned_session_def submit_page_init_def wallet_init_def storage_ok_def)
  moreover have "\<And>s e. unsigned_session s \<Longrightarrow> submit_page_enabled s e
      \<Longrightarrow> (\<lambda>e. case e of SWallet _ \<Rightarrow> False | _ \<Rightarrow> True) e \<Longrightarrow> unsigned_session (submit_page_step s e)"
    using unsigned_session_step by simp
  ultimately have "unsigned_session t"
    using assms(2,3) ev_run_invariant [of unsigned_session submit_page_enabled
        "\<lambda>e. case e of SWallet _ \<Rightarrow> False | _ \<Rightarrow> True" submit_page_step] by blast
  then show ?thesis
    by (simp add: unsigned_session_def)
qed

theorem restored_session_cannot_sign_witness:
  "\<exists>t. ev_run submit_page_enabled submit_page_step (submit_page_init (Some sample_wallet)) restored_submit = Some t
     \<and> sg_box t = [] \<and> sg_result t = None"
proof -
  obtain t where run: "ev_run submit_page_enabled submit_page_step (submit_page_init (Some sample_wallet))
      restored_submit = Some t"
    by (simp add: restored_submit_def submit_page_init_def wallet_init_def analyze_init_def
        sp_analyze_def start_analyze_def analyze_request_def settle_analyze_def response_ok_def
        start_submit_def settle_submit_def analysis_of_json_def opt_get_def str_field_def first_domain_def
        json_a_def submit_button_def needs_wallet_def truthy_def context_address_def
        submit_chain_def sample_env_def method_args_def abi_uint64_def
        submit_score_def js_round_def Let_def has_input_def sample_wallet_def submit_timestamp_def js_or_def)
  have "storage_ok (Some sample_wallet)"
    by (simp add: storage_ok_def sample_wallet_def)
  moreover have "\<forall>e \<in> set restored_submit. case e of SWallet _ \<Rightarrow> False | _ \<Rightarrow> True"
    by (simp add: restored_submit_def)
  ultimately have "w_connected (sg_wallet t) \<and> sg_box t = [] \<and> sg_result t = None"
    using run by (intro restored_session_cannot_sign)
  then show ?thesis
    using run by blast
qed

text \<open>Splitting \<open>handleSubmit\<close> at its await agrees with the atomic handler of the Submit
  theory: pressing Submit and then settling that submission leaves the submitting flag, the
  error and the result as \<open>handle_submit\<close> leaves them, with the wallet and the Pera
  instance of the moment Submit was pressed, and appends the record it sends.\<close>

lemma submit_split_refines_atomic:
  assumes fresh: "fresh_ids (sg_subs s) (sg_next_sub s)"
    and shown: "ap_analysis (sg_page s) = Some j" and reads: "analysis_of_json j = Some a"
    and atomic: "handle_submit (env\<lparr>pera_present := w_pera (sg_wallet s)\<rparr>) (context_address (sg_wallet s))
        (sg_input s) \<lparr>sp_analysis = Some a, submitting = sg_submitting s, sp_error = e0,
                       sp_result = sg_result s\<rparr> = (st', ro)"
    and t: "t = settle_submit (sg_next_sub s) env (start_submit s)"
  shows "sg_submitting t = submitting st' \<and> ap_error (sg_page t) = Msg (sp_error st')
    \<and> sg_result t = sp_result st'
    \<and> sg_box t = sg_box s @ (case ro of None \<Rightarrow> [] | Some r \<Rightarrow> [(js_or (context_address (sg_wallet s)) (sg_input s), r)])"
proof (cases "length (js_or (context_address (sg_wallet s)) (sg_input s)) < 58")
  case True
  have "map_of (sg_subs s) (sg_next_sub s) = None"
    using fresh by (auto simp: fresh_ids_def map_of_eq_None_iff)
  then show ?thesis
    using True shown atomic t by (auto simp: start_submit_def settle_submit_def handle_submit_def Let_def)
next
  case False
  let ?job = "\<lparr>sj_analysis = a, sj_wallet = js_or (context_address (sg_wallet s)) (sg_input s),
               sj_pera = w_pera (sg_wallet s)\<rparr>"
  have "map_of (sg_subs s @ [(sg_next_sub s, ?job)]) (sg_next_sub s) = Some ?job"
    using fresh by (rule fresh_map_of_snoc)
  then show ?thesis
    using False shown reads atomic t
    by (auto simp: start_submit_def settle_submit_def handle_submit_def Let_def split: sum.splits)
qed

end
