(* ===== verification/ExplorerPage.thy ===== *)
theory ExplorerPage
  imports Explorer Events
begin

text \<open>
  The Explorer page (src/unnamed/part_001, \<open>ExplorerPage\<close>, lines 797-907) as an event
  system over the Events theory: the mount effect, the search input, Enter in it, the
  Search button, the domain select and the Retry button each call \<open>loadProfiles\<close>, which
  is split at its await. Its first part (lines 809-818) sets \<open>loading\<close>, clears the error
  and fixes the query from the arguments and the \<open>search\<close> and \<open>domain\<close> of the render
  that created it; its second part (lines 819-831) stores the answer and, in \<open>finally\<close>,
  clears \<open>loading\<close>. Requests carry ghost identifiers; the ghost field \<open>xp_shown\<close> is the
  query whose answer the grid shows. The atomic \<open>load_profiles\<close>, \<open>handle_search\<close> and
  \<open>select_domain\<close> of the Views theory are the handlers with no event between the two parts.
\<close>

record explorer_page =
  xp_view :: explorer_state
  xp_mounted :: bool
  xp_pending :: "(nat \<times> (string \<times> string) list) list"
  xp_next :: nat
  xp_shown :: "(string \<times> string) list option"

datatype explorer_event =
  XMount
| XType string
| XEnter
| XSearch
| XSelect string
| XRetry
| XSettle nat explore_result

text \<open>\<open>loadProfiles(searchTerm, domainFilter)\<close> up to its await, lines 809-818: the query
  is built from the arguments, falling back to the render's \<open>search\<close> and \<open>domain\<close>.\<close>

definition start_load :: "string \<Rightarrow> string \<Rightarrow> explorer_page \<Rightarrow> explorer_page" where
  "start_load search_term domain_filter p =
     p\<lparr>xp_view := (xp_view p)\<lparr>ex_loading := True, ex_error := []\<rparr>,
       xp_pending := xp_pending p @ [(xp_next p, explorer_params (ex_search (xp_view p))
                                        (ex_domain (xp_view p)) search_term domain_filter)],
       xp_next := Suc (xp_next p)\<rparr>"

text \<open>The rest of \<open>loadProfiles\<close>, lines 819-831: a response that is not ok empties the
  list and returns, a thrown error is shown with an empty list, an ok response replaces the
  list; \<open>finally\<close> clears \<open>loading\<close>, whichever request is still in flight.\<close>

definition settle_load :: "nat \<Rightarrow> explore_result \<Rightarrow> explorer_page \<Rightarrow> explorer_page" where
  "settle_load i res p =
     (case map_of (xp_pending p) i of
        None \<Rightarrow> p
      | Some q \<Rightarrow>
          p\<lparr>xp_view := (case res of
                          ExploreFail m \<Rightarrow> (xp_view p)\<lparr>ex_error := m, ex_profiles := []\<rparr>
                        | ExploreResp ok ps \<Rightarrow> (xp_view p)\<lparr>ex_profiles := (if ok then ps else [])\<rparr>)
                        \<lparr>ex_loading := False\<rparr>,
            xp_pending := filter (\<lambda>r. fst r \<noteq> i) (xp_pending p),
            xp_shown := Some q\<rparr>)"

text \<open>The handlers: the mount effect calls \<open>loadProfiles()\<close> (line 805); Enter and the
  Search button call \<open>handleSearch\<close> (lines 834-836); the select sets the domain and calls
  \<open>loadProfiles(search, v)\<close> (line 873); Retry calls \<open>loadProfiles(search, domain)\<close> (line
  895).\<close>

fun explorer_page_step :: "explorer_page \<Rightarrow> explorer_event \<Rightarrow> explorer_page" where
  "explorer_page_step p XMount = (start_load [] [] p)\<lparr>xp_mounted := True\<rparr>"
| "explorer_page_step p (XType x) = p\<lparr>xp_view := (xp_view p)\<lparr>ex_search := x\<rparr>\<rparr>"
| "explorer_page_step p XEnter = start_load (ex_search (xp_view p)) (ex_domain (xp_view p)) p"
| "explorer_page_step p XSearch = start_load (ex_search (xp_view p)) (ex_domain (xp_view p)) p"
| "explorer_page_step p (XSelect v) =
     (let p' = start_load (ex_search (xp_view p)) v p in p'\<lparr>xp_view := (xp_view p')\<lparr>ex_domain := v\<rparr>\<rparr>)"
| "explorer_page_step p XRetry = start_load (ex_search (xp_view p)) (ex_domain (xp_view p)) p"
| "explorer_page_step p (XSettle i res) = settle_load i res p"

text \<open>Which events can happen: the mount effect once; typing and Enter always (line 866 does
  not look at \<open>loading\<close>); the Search button while not loading (line 889); the select for
  its options (lines 876-885); Retry while an error shows (lines 892-899); the settling of
  a request in flight.\<close>

fun explorer_page_enabled :: "explorer_page \<Rightarrow> explorer_event \<Rightarrow> bool" where
  "explorer_page_enabled p XMount \<longleftrightarrow> \<not> xp_mounted p"
| "explorer_page_enabled p (XType x) \<longleftrightarrow> True"
| "explorer_page_enabled p XEnter \<longleftrightarrow> True"
| "explorer_page_enabled p XSearch \<longleftrightarrow> \<not> ex_loading (xp_view p)"
| "explorer_page_enabled p (XSelect v) \<longleftrightarrow> v \<in> set domain_options"
| "explorer_page_enabled p XRetry \<longleftrightarrow> ex_error (xp_view p) \<noteq> []"
| "explorer_page_enabled p (XSettle i res) \<longleftrightarrow> i \<in> fst ` set (xp_pending p)"

text \<open>The page's initial state, lines 798-802.\<close>

definition explorer_page_init :: explorer_page where
  "explorer_page_init =
     \<lparr>xp_view = \<lparr>ex_profiles = [], ex_search = [], ex_domain = [], ex_loading = False, ex_error = []\<rparr>,
      xp_mounted = False, xp_pending = [], xp_next = 0, xp_shown = None\<rparr>"

definition explorer_page_reachable :: "explorer_page \<Rightarrow> bool" where
  "explorer_page_reachable = ev_reachable (\<lambda>p. p = explorer_page_init) explorer_page_enabled explorer_page_step"

text \<open>The page invariant: loading only while a request is in flight, and fresh request
  identifiers. The converse does not hold: the first answer clears \<open>loading\<close> while a
  later request is still in flight.\<close>

definition xp_inv :: "explorer_page \<Rightarrow> bool" where
  "xp_inv p \<longleftrightarrow> (ex_loading (xp_view p) \<longrightarrow> xp_pending p \<noteq> []) \<and> fresh_ids (xp_pending p) (xp_next p)"

definition profile_a :: explore_profile where
  "profile_a = \<lparr>ep_wallet = ''A'', ep_total_reputation = 80, ep_credibility_score = 80, ep_trust_index = 0.5,
     ep_badge = True, ep_total_records = 3, ep_top_domain = ''python'', ep_domains = [''python'']\<rparr>"

definition profile_b :: explore_profile where
  "profile_b = \<lparr>ep_wallet = ''B'', ep_total_reputation = 60, ep_credibility_score = 60, ep_trust_index = 0.3,
     ep_badge = False, ep_total_records = 1, ep_top_domain = ''web'', ep_domains = [''web'']\<rparr>"

text \<open>Two searches typed and sent with Enter, answered in the reverse order.\<close>

definition explorer_race :: "explorer_event list" where
  "explorer_race =
     [XMount, XSettle 0 (ExploreResp True []), XType ''A'', XEnter, XType ''B'', XEnter,
      XSettle 2 (ExploreResp True [profile_b]), XSettle 1 (ExploreResp True [profile_a])]"

section \<open>Lemmas\<close>

lemma start_load_inv: "xp_inv p \<Longrightarrow> xp_inv (start_load a b p)"
  by (simp add: xp_inv_def start_load_def fresh_ids_snoc)

lemma settle_load_inv: "xp_inv p \<Longrightarrow> xp_inv (settle_load i res p)"
  by (auto simp: xp_inv_def settle_load_def fresh_ids_filter split: option.split explore_result.split)

lemma explorer_page_step_inv: "xp_inv p \<Longrightarrow> xp_inv (explorer_page_step p e)"
  by (cases e) (simp_all add: start_load_inv settle_load_inv Let_def,
                (simp add: xp_inv_def start_load_def fresh_ids_snoc)+)

lemma explorer_page_reachable_inv: "explorer_page_reachable p \<Longrightarrow> xp_inv p"
  unfolding explorer_page_reachable_def
  by (erule ev_invariant) (simp add: explorer_page_init_def xp_inv_def, simp add: explorer_page_step_inv)

lemma explorer_run_reachable:
  "ev_run explorer_page_enabled explorer_page_step explorer_page_init es = Some t \<Longrightarrow> explorer_page_reachable t"
  unfolding explorer_page_reachable_def
  by (rule ev_run_reachable [OF ev_reachable.init]) simp_all

lemma settle_start_load:
  assumes "fresh_ids (xp_pending p) (xp_next p)"
  shows "settle_load (xp_next p) res (start_load a b p) =
     (let q = load_profiles (xp_view p) a b res in
      p\<lparr>xp_view := snd q, xp_next := Suc (xp_next p), xp_shown := Some (fst q)\<rparr>)"
proof -
  have m: "map_of (xp_pending (start_load a b p)) (xp_next p)
      = Some (explorer_params (ex_search (xp_view p)) (ex_domain (xp_view p)) a b)"
    unfolding start_load_def using fresh_map_of_snoc [OF assms] by simp
  have "filter (\<lambda>r. fst r \<noteq> xp_next p) (xp_pending p) = xp_pending p"
    using assms by (auto simp: fresh_ids_def filter_id_conv)
  then show ?thesis
    unfolding settle_load_def m
    by (simp add: start_load_def load_profiles_def Let_def split: explore_result.split)
qed

lemma settle_load_domain:
  "settle_load i res (p\<lparr>xp_view := (xp_view p)\<lparr>ex_domain := v\<rparr>\<rparr>)
     = (settle_load i res p)\<lparr>xp_view := (xp_view (settle_load i res p))\<lparr>ex_domain := v\<rparr>\<rparr>"
  by (simp add: settle_load_def split: option.split explore_result.split)

text \<open>Answering every request in flight, oldest first, leaves none in flight and the page
  not loading.\<close>

lemma explorer_page_settle_pending:
  "distinct (map fst (xp_pending p)) \<Longrightarrow> (ex_loading (xp_view p) \<longrightarrow> xp_pending p \<noteq> [])
   \<Longrightarrow> \<exists>t. ev_run explorer_page_enabled explorer_page_step p (ev_answers XSettle res (xp_pending p)) = Some t
         \<and> xp_pending t = [] \<and> \<not> ex_loading (xp_view t)"
proof (rule ev_settle_all)
  fix p :: explorer_page and i w ps r
  assume "xp_pending p = (i, w) # ps" "i \<notin> fst ` set ps"
  moreover have "filter (\<lambda>r. fst r \<noteq> i) ps = ps"
    using \<open>i \<notin> fst ` set ps\<close> by (auto simp: filter_id_conv)
  ultimately show "xp_pending (explorer_page_step p (XSettle i r)) = ps
      \<and> \<not> ex_loading (xp_view (explorer_page_step p (XSettle i r)))"
    by (auto simp: settle_load_def split: explore_result.split)
qed simp

lemma explorer_page_settle_all:
  assumes "explorer_page_reachable p"
  shows "\<exists>t. ev_run explorer_page_enabled explorer_page_step p (ev_answers XSettle res (xp_pending p)) = Some t
           \<and> xp_pending t = [] \<and> \<not> ex_loading (xp_view t)"
proof -
  have "xp_inv p"
    using assms by (rule explorer_page_reachable_inv)
  then show ?thesis
    by (intro explorer_page_settle_pending) (simp_all add: xp_inv_def fresh_ids_def)
qed

text \<open>Two searches sent with Enter and answered in the reverse order: the first answer
  clears \<open>loading\<close> while the other request is in flight, so the Search button is enabled
  again; the last answer, to the older query, is what the grid shows while the input holds
  the newer one.\<close>

lemma explorer_stale_results:
  "(\<exists>u. ev_run explorer_page_enabled explorer_page_step explorer_page_init (take 7 explorer_race) = Some u
      \<and> \<not> ex_loading (xp_view u) \<and> xp_pending u \<noteq> [] \<and> explorer_page_enabled u XSearch)
   \<and> (\<exists>t. ev_run explorer_page_enabled explorer_page_step explorer_page_init explorer_race = Some t
      \<and> explorer_page_reachable t \<and> ex_search (xp_view t) = ''B'' \<and> ex_profiles (xp_view t) = [profile_a]
      \<and> xp_shown t = Some [(''q'', ''A''), (''limit'', ''20'')] \<and> xp_pending t = [] \<and> \<not> ex_loading (xp_view t))"
proof
  show "\<exists>u. ev_run explorer_page_enabled explorer_page_step explorer_page_init (take 7 explorer_race) = Some u
      \<and> \<not> ex_loading (xp_view u) \<and> xp_pending u \<noteq> [] \<and> explorer_page_enabled u XSearch"
    by (simp add: explorer_race_def explorer_page_init_def start_load_def settle_load_def)
  have "\<exists>t. ev_run explorer_page_enabled explorer_page_step explorer_page_init explorer_race = Some t
      \<and> ex_search (xp_view t) = ''B'' \<and> ex_profiles (xp_view t) = [profile_a]
      \<and> xp_shown t = Some [(''q'', ''A''), (''limit'', ''20'')] \<and> xp_pending t = [] \<and> \<not> ex_loading (xp_view t)"
    by (simp add: explorer_race_def explorer_page_init_def start_load_def settle_load_def
        explorer_params_def js_or_def)
  then show "\<exists>t. ev_run explorer_page_enabled explorer_page_step explorer_page_init explorer_race = Some t
      \<and> explorer_page_reachable t \<and> ex_search (xp_view t) = ''B'' \<and> ex_profiles (xp_view t) = [profile_a]
      \<and> xp_shown t = Some [(''q'', ''A''), (''limit'', ''20'')] \<and> xp_pending t = [] \<and> \<not> ex_loading (xp_view t)"
    by (auto intro: explorer_run_reachable)
qed

text \<open>Answering the requests in flight in the order they were sent leaves the grid
  showing the answer to the query of the newest one.\<close>

lemma explorer_settle_shown:
  "distinct (map fst (xp_pending p)) \<Longrightarrow> xp_pending p \<noteq> []
   \<Longrightarrow> ev_run explorer_page_enabled explorer_page_step p (ev_answers XSettle res (xp_pending p)) = Some t
   \<Longrightarrow> xp_shown t = Some (snd (last (xp_pending p)))"
proof (induction "xp_pending p" arbitrary: p)
  case Nil
  then show ?case by simp
next
  case (Cons q ps)
  obtain i w where q: "q = (i, w)"
    by (cases q)
  have pend: "xp_pending p = (i, w) # ps"
    using Cons.hyps(2) q by simp
  then have nin: "i \<notin> fst ` set ps"
    using Cons.prems(1) by auto
  let ?p' = "settle_load i (res i) p"
  have "filter (\<lambda>r. fst r \<noteq> i) ps = ps"
    using nin by (auto simp: filter_id_conv)
  then have p': "xp_pending ?p' = ps" "xp_shown ?p' = Some w"
    using pend by (simp_all add: settle_load_def split: explore_result.split)
  have run: "ev_run explorer_page_enabled explorer_page_step ?p' (ev_answers XSettle res ps) = Some t"
    using Cons.prems(3) pend by (simp add: ev_answers_def)
  show ?case
  proof (cases ps)
    case Nil
    then show ?thesis
      using run p' pend by (simp add: ev_answers_def)
  next
    case (Cons x xs)
    have "xp_shown t = Some (snd (last (xp_pending ?p')))"
      using Cons.prems(1) pend p'(1) run \<open>ps = x # xs\<close> by (intro Cons.hyps(1)) simp_all
    then show ?thesis
      using p'(1) pend \<open>ps = x # xs\<close> by simp
  qed
qed

section \<open>Properties of the Explorer page\<close>

text \<open>
  C7. In every reachable state of the Explorer page, \<open>loading\<close> is set only while a
  request of \<open>loadProfiles\<close> is in flight, and answering every request in flight, in the
  order they were sent, ends loading, leaves nothing in flight, and shows in the grid the
  answer to the newest query. (Answered in another order, the grid can show an older
  query's answer: \<open>loadProfiles\<close> stores whichever answer settles last.)
\<close>

theorem explorer_loading_settles:
  assumes "explorer_page_reachable p"
  shows "(ex_loading (xp_view p) \<longrightarrow> xp_pending p \<noteq> [])
    \<and> (\<exists>t. ev_run explorer_page_enabled explorer_page_step p (ev_answers XSettle res (xp_pending p)) = Some t
         \<and> xp_pending t = [] \<and> \<not> ex_loading (xp_view t)
         \<and> (xp_pending p \<noteq> [] \<longrightarrow> xp_shown t = Some (snd (last (xp_pending p)))))"
proof -
  have inv: "xp_inv p"
    using assms by (rule explorer_page_reachable_inv)
  obtain t where run: "ev_run explorer_page_enabled explorer_page_step p (ev_answers XSettle res (xp_pending p)) = Some t"
    and fin: "xp_pending t = [] \<and> \<not> ex_loading (xp_view t)"
    using explorer_page_settle_all [OF assms, of res] by blast
  have "xp_pending p \<noteq> [] \<longrightarrow> xp_shown t = Some (snd (last (xp_pending p)))"
    using explorer_settle_shown [OF _ _ run] inv by (simp add: xp_inv_def fresh_ids_def)
  then show ?thesis
    using inv run fin by (auto simp: xp_inv_def)
qed

theorem explorer_loading_settles_witness:
  "\<exists>t. ev_run explorer_page_enabled explorer_page_step explorer_page_init (take 6 explorer_race) = Some t
     \<and> ex_loading (xp_view t) \<and> length (xp_pending t) = 2
     \<and> (\<exists>u. ev_run explorer_page_enabled explorer_page_step t
            (ev_answers XSettle (\<lambda>_. ExploreResp True [profile_b]) (xp_pending t)) = Some u
          \<and> \<not> ex_loading (xp_view u) \<and> xp_shown u = Some [(''q'', ''B''), (''limit'', ''20'')])"
proof -
  obtain t where run: "ev_run explorer_page_enabled explorer_page_step explorer_page_init (take 6 explorer_race) = Some t"
    and st: "ex_loading (xp_view t) \<and> xp_pending t = [(1, [(''q'', ''A''), (''limit'', ''20'')]), (2, [(''q'', ''B''), (''limit'', ''20'')])]"
    by (simp add: explorer_race_def explorer_page_init_def start_load_def settle_load_def explorer_params_def
        js_or_def)
  have "explorer_page_reachable t"
    using run by (rule explorer_run_reachable)
  then have "\<exists>u. ev_run explorer_page_enabled explorer_page_step t
        (ev_answers XSettle (\<lambda>_. ExploreResp True [profile_b]) (xp_pending t)) = Some u
      \<and> xp_pending u = [] \<and> \<not> ex_loading (xp_view u)
      \<and> (xp_pending t \<noteq> [] \<longrightarrow> xp_shown u = Some (snd (last (xp_pending t))))"
    by (rule conjunct2 [OF explorer_loading_settles])
  then show ?thesis
    using run st by auto
qed

text \<open>Split at its await, \<open>loadProfiles\<close> agrees with the atomic handlers of the Views
  theory when its request is answered before any other event.\<close>

lemma explorer_split_refines_atomic:
  assumes "fresh_ids (xp_pending p) (xp_next p)"
  shows "xp_view (explorer_page_step (explorer_page_step p XSearch) (XSettle (xp_next p) res))
           = snd (handle_search (xp_view p) res)
     \<and> xp_shown (explorer_page_step (explorer_page_step p XSearch) (XSettle (xp_next p) res))
           = Some (fst (handle_search (xp_view p) res))
     \<and> xp_view (explorer_page_step (explorer_page_step p (XSelect v)) (XSettle (xp_next p) res))
           = snd (select_domain (xp_view p) v res)
     \<and> xp_shown (explorer_page_step (explorer_page_step p (XSelect v)) (XSettle (xp_next p) res))
           = Some (fst (select_domain (xp_view p) v res))
     \<and> xp_pending (explorer_page_step (explorer_page_step p (XSelect v)) (XSettle (xp_next p) res))
           = xp_pending p"
proof -
  have "settle_load (xp_next p) res (explorer_page_step p (XSelect v)) =
     (settle_load (xp_next p) res (start_load (ex_search (xp_view p)) v p))
       \<lparr>xp_view := (xp_view (settle_load (xp_next p) res (start_load (ex_search (xp_view p)) v p)))\<lparr>ex_domain := v\<rparr>\<rparr>"
    by (simp add: Let_def settle_load_domain)
  then show ?thesis
    using assms by (simp add: settle_start_load handle_search_def select_domain_def Let_def split: prod.split)
qed

end
