(* ===== verification/AnalysisPanel.thy ===== *)
theory AnalysisPanel
  imports SubmitPage Scoring Views
begin

text \<open>
  What the Submit page shows of an analysis (src/unnamed/part_001, lines 491-705): the
  skeleton while analysing, and, once an analysis is on screen and no analysis runs, the
  panel: the score hero, the community, certificate or project row, the signal cards, the
  detected domains and the AI assessment. The panel reads the JSON the backend returned
  with JavaScript's property access: an absent field is \<open>undefined\<close>, \<open>a || b\<close> falls back on
  a falsy value, and a method called on a value of the wrong type throws, which unmounts the
  page (\<open>Inl ()\<close>). Numbers are kept as the values the page formats; the formatting
  (\<open>toLocaleString\<close>, string conversion) is rendering and is not modelled.
\<close>

section \<open>Reading values\<close>

text \<open>\<open>v || d\<close> on a value that may be absent.\<close>

definition js_or_val :: "json option \<Rightarrow> json \<Rightarrow> json" where
  "js_or_val v d = (case v of Some x \<Rightarrow> if json_truthy x then x else d | None \<Rightarrow> d)"

text \<open>\<open>analysis?.metadata || {}\<close>, line 342.\<close>

definition panel_meta :: "json \<Rightarrow> json" where
  "panel_meta j = js_or_val (opt_get (Some j) ''metadata'') (JObj [])"

text \<open>\<open>x * 100\<close> rounded by \<open>toFixed(0)\<close>, for a number; \<open>None\<close> for any other value, whose
  product the page shows as \<open>NaN\<close> or after a coercion the model does not compute.\<close>

definition pct0 :: "json option \<Rightarrow> int option" where
  "pct0 v = (case v of Some (JNum x) \<Rightarrow> Some (to_fixed0 (x * 100)) | _ \<Rightarrow> None)"

text \<open>\<open>s.replace(/_/g, ' ')\<close>.\<close>

definition underscores_to_spaces :: "string \<Rightarrow> string" where
  "underscores_to_spaces s = map (\<lambda>c. if c = CHR ''_'' then CHR '' '' else c) s"

section \<open>The score hero\<close>

text \<open>Line 194: \<open>Math.round(analysis.overall_score * 100)\<close>, \<open>None\<close> for a score that is
  not a number (\<open>NaN\<close>).\<close>

definition panel_score :: "json \<Rightarrow> int option" where
  "panel_score j = (case opt_get (Some j) ''overall_score'' of Some (JNum x) \<Rightarrow> Some (js_round (x * 100)) | _ \<Rightarrow> None)"

text \<open>Line 195: the tier label; every comparison with \<open>NaN\<close> is false, so it is minimal.\<close>

definition panel_tier :: "int option \<Rightarrow> string" where
  "panel_tier sc = (case sc of Some s \<Rightarrow> tier_class (score_tier s) | None \<Rightarrow> ''minimal'')"

text \<open>The title, lines 524-529, by source type.\<close>

definition hero_title :: "string \<Rightarrow> json \<Rightarrow> json" where
  "hero_title src meta =
     (if src = ''repo'' then js_or_val (opt_get (Some meta) ''full_name'')
                               (js_or_val (opt_get (Some meta) ''repo'') (JStr ''Repository Analysis''))
      else if src = ''certificate'' then js_or_val (opt_get (Some meta) ''original_filename'')
                               (js_or_val (opt_get (Some meta) ''filename'') (JStr ''Certificate Analysis''))
      else js_or_val (opt_get (Some meta) ''original_filename'') (JStr ''Project Analysis''))"

section \<open>The detail rows\<close>

text \<open>A community figure, lines 553-571: \<open>v?.toLocaleString() || 0\<close>; the value shown before
  \<open>toLocaleString\<close> formats it.\<close>

definition stat_value :: "json option \<Rightarrow> json" where
  "stat_value v = (case v of None \<Rightarrow> JNum 0 | Some JNull \<Rightarrow> JNum 0 | Some (JStr []) \<Rightarrow> JNum 0 | Some x \<Rightarrow> x)"

text \<open>The community row (repositories only, lines 550-573) shows when \<open>meta.stars\<close> is not
  \<open>undefined\<close>: a \<open>null\<close> count still shows the row.\<close>

definition community_row :: "string \<Rightarrow> json \<Rightarrow> json list option" where
  "community_row src meta =
     (if src = ''repo'' \<and> opt_get (Some meta) ''stars'' \<noteq> None
      then Some (map (\<lambda>k. stat_value (opt_get (Some meta) k)) [''stars'', ''forks'', ''contributor_count'', ''file_count''])
      else None)"

text \<open>\<open>(h || '').slice(0, 8)\<close> (lines 590 and 618), which the page follows with an
  ellipsis: a string or an array is sliced, a falsy value gives \<open>''\<close>, and any other value
  has no \<open>slice\<close> and throws.\<close>

definition hash_prefix :: "json option \<Rightarrow> unit + json" where
  "hash_prefix v =
     (case js_or_val v (JStr []) of
        JStr s \<Rightarrow> Inr (JStr (take 8 s))
      | JArr xs \<Rightarrow> Inr (JArr (take 8 xs))
      | _ \<Rightarrow> Inl ())"

text \<open>\<open>((meta.size_bytes || 0) / 1024).toFixed(0)\<close>, line 585, for a number or a falsy value.\<close>

definition size_kb :: "json option \<Rightarrow> int option" where
  "size_kb v = (case js_or_val v (JNum 0) of JNum x \<Rightarrow> Some (to_fixed0 (x / 1024)) | _ \<Rightarrow> None)"

record detail_row =
  dr_first :: json
  dr_second :: "json + int option"
  dr_hash :: json
  dr_status :: string

text \<open>The certificate row (lines 576-601): format, size, SHA-256 prefix, Valid or Check; the
  project row (lines 604-629): total files, code files, hash prefix, Valid or Minimal.\<close>

definition detail_row :: "string \<Rightarrow> json \<Rightarrow> json \<Rightarrow> unit + detail_row option" where
  "detail_row src j meta =
     (let ok = json_truthy (js_or_val (opt_get (Some j) ''verified'') (JBool False)) in
      if src = ''certificate'' then
        (case hash_prefix (opt_get (Some meta) ''sha256'') of
           Inl u \<Rightarrow> Inl u
         | Inr h \<Rightarrow> Inr (Some \<lparr>dr_first = js_or_val (opt_get (Some meta) ''extension'') (JStr ''?''),
                                dr_second = Inr (size_kb (opt_get (Some meta) ''size_bytes'')),
                                dr_hash = h, dr_status = (if ok then ''Valid'' else ''Check'')\<rparr>))
      else if src = ''project'' then
        (case hash_prefix (opt_get (Some meta) ''project_hash'') of
           Inl u \<Rightarrow> Inl u
         | Inr h \<Rightarrow> Inr (Some \<lparr>dr_first = js_or_val (opt_get (Some meta) ''total_files'') (JNum 0),
                                dr_second = Inl (js_or_val (opt_get (Some meta) ''code_files'') (JNum 0)),
                                dr_hash = h, dr_status = (if ok then ''Valid'' else ''Minimal'')\<rparr>))
      else Inr None)"

section \<open>Signal cards and domains\<close>

record signal_card =
  sc_icon :: string
  sc_label :: string
  sc_score :: "int option"
  sc_width :: "real option"
  sc_detail :: "json option"

text \<open>A signal card, lines 660-671: the icon of \<open>SIGNAL_ICONS\<close>, the name with its
  underscores replaced, the normalised value in percent (the score and the width of the
  bar) and the detail. A signal that is \<open>null\<close>, or whose name is not a string, throws.\<close>

definition signal_card :: "json \<Rightarrow> unit + signal_card" where
  "signal_card s =
     (case js_get s ''signal_name'' of
        Inr (Some (JStr n)) \<Rightarrow>
          Inr \<lparr>sc_icon = signal_icon n, sc_label = underscores_to_spaces n,
               sc_score = pct0 (case js_get s ''normalized'' of Inr v \<Rightarrow> v | Inl _ \<Rightarrow> None),
               sc_width = (case js_get s ''normalized'' of Inr (Some (JNum x)) \<Rightarrow> Some (x * 100) | _ \<Rightarrow> None),
               sc_detail = (case js_get s ''detail'' of Inr v \<Rightarrow> v | Inl _ \<Rightarrow> None)\<rparr>
      | _ \<Rightarrow> Inl ())"

text \<open>\<open>xs?.length > 0 && xs.map(f)\<close> (lines 653 and 678): an array is mapped, a non-empty
  string or an object with a positive numeric \<open>length\<close> has no \<open>map\<close> and throws, any
  other value shows nothing.\<close>

definition js_map_section :: "(json \<Rightarrow> unit + 'a) \<Rightarrow> json option \<Rightarrow> unit + 'a list" where
  "js_map_section f v =
     (case v of
        Some (JArr xs) \<Rightarrow>
          (case those (map (\<lambda>x. case f x of Inr c \<Rightarrow> Some c | Inl _ \<Rightarrow> None) xs) of
             Some cs \<Rightarrow> Inr cs
           | None \<Rightarrow> Inl ())
      | Some (JStr s) \<Rightarrow> if s = [] then Inr [] else Inl ()
      | Some (JObj kvs) \<Rightarrow> (case map_of (rev kvs) ''length'' of Some (JNum x) \<Rightarrow> if 0 < x then Inl () else Inr []
                                | _ \<Rightarrow> Inr [])
      | _ \<Rightarrow> Inr [])"

text \<open>A domain tag, lines 685-688: the domain and its confidence in percent.\<close>

definition domain_tag :: "json \<Rightarrow> unit + (json option \<times> int option)" where
  "domain_tag d =
     (case (js_get d ''domain'', js_get d ''confidence'') of
        (Inr dm, Inr c) \<Rightarrow> Inr (dm, pct0 c)
      | _ \<Rightarrow> Inl ())"

section \<open>The panel\<close>

record analysis_panel =
  pn_score :: "int option"
  pn_tier :: string
  pn_title :: json
  pn_community :: "json list option"
  pn_details :: "detail_row option"
  pn_signals :: "signal_card list"
  pn_domains :: "(json option \<times> int option) list"
  pn_explanation :: "json option"
  pn_submit :: bool

text \<open>The AI assessment, lines 695-702: \<open>meta.explanation || analysis.explanation\<close>, shown
  when truthy.\<close>

definition panel_explanation :: "json \<Rightarrow> json \<Rightarrow> json option" where
  "panel_explanation j meta =
     (let e = (case opt_get (Some meta) ''explanation'' of
                 Some x \<Rightarrow> if json_truthy x then Some x else opt_get (Some j) ''explanation''
               | None \<Rightarrow> opt_get (Some j) ''explanation'')
      in case e of Some x \<Rightarrow> if json_truthy x then Some x else None | None \<Rightarrow> None)"

text \<open>The analysis panel, lines 517-705: shown while an analysis is on screen and none runs
  (line 517); \<open>Inl ()\<close> when rendering it throws. The Submit block shows while no result
  does (line 705); the language pills are the SubmitView theory's \<open>lang_pills\<close>.\<close>

definition analysis_panel :: "submit_page \<Rightarrow> (unit + analysis_panel) option" where
  "analysis_panel s =
     (case ap_analysis (sg_page s) of
        None \<Rightarrow> None
      | Some j \<Rightarrow>
          if \<not> json_truthy j \<or> ap_analyzing (sg_page s) then None
          else
            let meta = panel_meta j; src = ap_source (sg_page s) in
            Some (case (detail_row src j meta, js_map_section signal_card (opt_get (Some j) ''signals''),
                        js_map_section domain_tag (opt_get (Some j) ''domains'')) of
                    (Inr dr, Inr cards, Inr tags) \<Rightarrow>
                      Inr \<lparr>pn_score = panel_score j, pn_tier = panel_tier (panel_score j),
                           pn_title = hero_title src meta, pn_community = community_row src meta,
                           pn_details = dr, pn_signals = cards, pn_domains = tags,
                           pn_explanation = panel_explanation j meta, pn_submit = (sg_result s = None)\<rparr>
                  | _ \<Rightarrow> Inl ()))"

text \<open>The skeleton while analysing, lines 491-512: what is being analysed.\<close>

definition analyzing_skeleton :: "submit_page \<Rightarrow> string option" where
  "analyzing_skeleton s =
     (if ap_analyzing (sg_page s)
      then Some (if ap_source (sg_page s) = ''repo'' then ''repository''
                 else if ap_source (sg_page s) = ''certificate'' then ''certificate'' else ''project'')
      else None)"

section \<open>Analysis results on the wire\<close>

text \<open>
  A scoring result with the field names of the specification (section 3, \<open>Signal\<close> and
  \<open>ScoringResult\<close>): \<open>overall_score\<close> in \<open>[0, 1]\<close>, \<open>domain\<close>, \<open>subdomain\<close>,
  \<open>confidence\<close>, \<open>signals\<close> with \<open>name\<close>, \<open>weight\<close>, \<open>raw_score\<close>, \<open>weighted_score\<close> and
  \<open>explanation\<close>, and \<open>artifact_hash\<close>; the explanations are a parameter.
\<close>

definition spec_signal_json :: "(string \<Rightarrow> string) \<Rightarrow> signal \<Rightarrow> json" where
  "spec_signal_json expl s =
     JObj [(''name'', JStr (sig_name s)), (''weight'', JNum (sig_weight s)), (''raw_score'', JNum (sig_raw s)),
           (''weighted_score'', JNum (weighted_score s)), (''explanation'', JStr (expl (sig_name s)))]"

definition spec_result_json :: "(string \<Rightarrow> string) \<Rightarrow> scoring_result \<Rightarrow> string \<Rightarrow> string \<Rightarrow> string \<Rightarrow> json" where
  "spec_result_json expl r dm sub h =
     JObj [(''overall_score'', JNum (overall_score_of r)), (''domain'', JStr dm), (''subdomain'', JStr sub),
           (''confidence'', JNum (confidence r)), (''signals'', JArr (map (spec_signal_json expl) (signals r))),
           (''artifact_hash'', JStr h)]"

text \<open>The analyser output documented in the architecture notes (part_000, lines 206-224):
  \<open>credibility_score\<close> out of 100, \<open>domain\<close>, \<open>subdomain\<close>, \<open>confidence\<close>, \<open>explanation\<close>,
  the \<open>breakdown\<close> of factors and \<open>artifact_hash\<close>.\<close>

definition notes_output_json :: "int \<Rightarrow> string \<Rightarrow> string \<Rightarrow> real \<Rightarrow> string \<Rightarrow> json list \<Rightarrow> string \<Rightarrow> json" where
  "notes_output_json cs dm sub c ex bd h =
     JObj [(''credibility_score'', JNum (real_of_int cs)), (''domain'', JStr dm), (''subdomain'', JStr sub),
           (''confidence'', JNum c), (''explanation'', JStr ex), (''breakdown'', JArr bd), (''artifact_hash'', JStr h)]"

section \<open>Lemmas\<close>

lemma underscores_to_spaces_clean:
  "CHR ''_'' \<notin> set (underscores_to_spaces n) \<and> length (underscores_to_spaces n) = length n"
  by (auto simp: underscores_to_spaces_def)

lemma pct0_bounds:
  "0 \<le> x \<Longrightarrow> x \<le> 1 \<Longrightarrow> \<exists>k. pct0 (Some (JNum x)) = Some k \<and> 0 \<le> k \<and> k \<le> 100"
  using to_fixed0_mono [of "x * 100" 100] by (simp add: pct0_def to_fixed0_nonneg to_fixed0_100)

text \<open>A card of a signal whose normalised value lies in \<open>[0, 1]\<close> shows a score and a bar
  width in \<open>[0, 100]\<close>, and its label has no underscore left.\<close>

lemma signal_card_bounds:
  assumes card: "signal_card s = Inr c" and nv: "js_get s ''normalized'' = Inr (Some (JNum x))"
    and "0 \<le> x" and "x \<le> 1"
  shows "(\<exists>k. sc_score c = Some k \<and> 0 \<le> k \<and> k \<le> 100) \<and> sc_width c = Some (x * 100)
    \<and> 0 \<le> x * 100 \<and> x * 100 \<le> 100 \<and> CHR ''_'' \<notin> set (sc_label c)"
proof -
  obtain n where n: "js_get s ''signal_name'' = Inr (Some (JStr n))"
    and c: "c = \<lparr>sc_icon = signal_icon n, sc_label = underscores_to_spaces n,
               sc_score = pct0 (Some (JNum x)), sc_width = Some (x * 100),
               sc_detail = (case js_get s ''detail'' of Inr v \<Rightarrow> v | Inl _ \<Rightarrow> None)\<rparr>"
    using card nv by (auto simp: signal_card_def split: sum.splits option.splits json.splits)
  then show ?thesis
    using pct0_bounds [OF assms(3,4)] assms(3,4) underscores_to_spaces_clean [of n] by simp
qed

text \<open>The hero shows the score \<open>handleSubmit\<close> sends.\<close>

lemma panel_score_submit:
  "analysis_of_json j = Some a \<Longrightarrow> panel_score j = Some (submit_score a)"
  by (auto simp: analysis_of_json_def panel_score_def submit_score_def Let_def
      split: option.splits json.splits prod.splits)

lemma spec_result_reads:
  "\<exists>a. analysis_of_json (spec_result_json expl r dm sub h) = Some a \<and> submit_domain a = ''general''
     \<and> submit_artifact_hash a = default_hash \<and> submit_score a = js_round (overall_score_of r * 100)"
  by (simp add: analysis_of_json_def spec_result_json_def opt_get_def str_field_def first_domain_def
      submit_domain_def submit_artifact_hash_def submit_score_def js_or_def)

lemma spec_result_panel_throws:
  assumes "ap_analysis (sg_page s) = Some (spec_result_json expl r dm sub h)" "\<not> ap_analyzing (sg_page s)"
    and "signals r \<noteq> []"
  shows "analysis_panel s = Some (Inl ())"
proof -
  obtain x xs where "signals r = x # xs"
    using assms(3) by (cases "signals r") auto
  then show ?thesis
    using assms(1,2) by (simp add: analysis_panel_def spec_result_json_def spec_signal_json_def signal_card_def
        js_map_section_def opt_get_def Let_def split: sum.split)
qed

lemma notes_output_unread:
  "analysis_of_json (notes_output_json cs dm sub c ex bd h) = None"
  by (simp add: analysis_of_json_def notes_output_json_def opt_get_def)

lemma notes_output_panel:
  assumes "ap_analysis (sg_page t) = Some (notes_output_json cs dm sub c ex bd h)" "\<not> ap_analyzing (sg_page t)"
  shows "\<exists>p. analysis_panel t = Some (Inr p) \<and> pn_score p = None \<and> pn_tier p = ''minimal''
           \<and> pn_signals p = [] \<and> pn_domains p = []"
  using assms by (simp add: analysis_panel_def notes_output_json_def detail_row_def hash_prefix_def
      js_or_val_def panel_meta_def js_map_section_def opt_get_def panel_score_def panel_tier_def Let_def)

end
