(* ===== verification/Contract.thy ===== *)
theory Contract
  imports Codec
begin

text \<open>
  The VerifiedProtocol smart contract as the architecture notes describe it
  (src/unnamed/part_000, lines 48-55 and 78-82): one box per wallet, keyed by the wallet
  address, whose value is the length-prefixed ARC-4 record array; \<open>submit_skill_record\<close>
  appends the encoded record to the sender's box, \<open>get_skill_records\<close> returns the decoded
  records, and \<open>get_record_count\<close> their number, which the specification (section 4.1) says
  is derived by decoding, there being no count field. A box holds at most 32KB (line 384).
  The contract's own code is not in the repository: the box store is a map from addresses
  to byte strings, the only failure of an append is a box that would exceed its limit.
\<close>

type_synonym boxes = "string \<rightharpoonup> byte list"

datatype contract_error = BoxTooLarge

definition MAX_BOX_SIZE :: nat where
  "MAX_BOX_SIZE = 32768"

text \<open>The box of a wallet; a wallet that never submitted has an empty box.\<close>

definition box_of :: "boxes \<Rightarrow> string \<Rightarrow> byte list" where
  "box_of bx w = (case bx w of None \<Rightarrow> [] | Some b \<Rightarrow> b)"

definition submit_skill_record :: "string \<Rightarrow> skill_record \<Rightarrow> boxes \<Rightarrow> contract_error + boxes" where
  "submit_skill_record w r bx =
     (let b = append_record (box_of bx w) r in
      if MAX_BOX_SIZE < length b then Inl BoxTooLarge else Inr (bx(w \<mapsto> b)))"

definition get_skill_records :: "boxes \<Rightarrow> string \<Rightarrow> decode_error + skill_record list" where
  "get_skill_records bx w = decode_records (box_of bx w)"

definition get_record_count :: "boxes \<Rightarrow> string \<Rightarrow> decode_error + nat" where
  "get_record_count bx w = (case get_skill_records bx w of Inl e \<Rightarrow> Inl e | Inr rs \<Rightarrow> Inr (length rs))"

text \<open>A sequence of submissions, each by a wallet, as the ledger orders them; the first
  failing one stops the sequence.\<close>

fun submit_all :: "boxes \<Rightarrow> (string \<times> skill_record) list \<Rightarrow> contract_error + boxes" where
  "submit_all bx [] = Inr bx"
| "submit_all bx ((w, r) # ops) = bind_res (submit_skill_record w r bx) (\<lambda>bx'. submit_all bx' ops)"

text \<open>The abstract ledger the contract promises: each wallet's records are the ones it
  submitted, in the order of submission.\<close>

definition wallet_log :: "(string \<times> skill_record) list \<Rightarrow> string \<Rightarrow> skill_record list" where
  "wallet_log ops w = map snd (filter (\<lambda>p. fst p = w) ops)"

definition typed_record :: "skill_record \<Rightarrow> bool" where
  "typed_record r \<longleftrightarrow> decodable r \<and> encodable r"

definition late_record :: skill_record where
  "late_record = sample_record\<lparr>timestamp := 1800000000\<rparr>"

definition early_record :: skill_record where
  "early_record = sample_record\<lparr>timestamp := 1600000000\<rparr>"

section \<open>Lemmas\<close>

text \<open>The decoder reads a box that decodes up to its end, so bytes appended after it are
  decoded after its records.\<close>

lemma decode_loop_prefix:
  "decode_loop b off acc = Inr rs \<Longrightarrow> off \<le> length b
   \<Longrightarrow> decode_loop (b @ e) off acc = decode_loop (b @ e) (length b) rs"
proof (induction b off acc rule: decode_loop.induct)
  case (1 b off acc)
  show ?case
  proof (cases "length b \<le> off")
    case True
    then show ?thesis
      using "1.prems" by (simp add: decode_loop_end)
  next
    case False
    let ?n = "read_u16 b off"
    have fits: "off + 2 + ?n \<le> length b"
      using "1.prems"(1) False by (auto simp: decode_loop.simps [of b off] Let_def split: if_splits)
    obtain r where r: "decode_struct (take ?n (drop (off + 2) b)) = Inr r"
      and rec: "decode_loop b (off + 2 + ?n) (acc @ [r]) = Inr rs"
      using "1.prems"(1) False fits
      by (auto simp: decode_loop.simps [of b off] Let_def split: if_splits sum.splits)
    have u16: "read_u16 (b @ e) off = ?n"
      using fits by (simp add: read_u16_def)
    have str: "take ?n (drop (off + 2) (b @ e)) = take ?n (drop (off + 2) b)"
      using fits by simp
    have a: "\<not> length b < off + 2" and c: "\<not> length b < off + 2 + ?n"
      using fits by simp_all
    have "decode_loop (b @ e) off acc = decode_loop (b @ e) (off + 2 + ?n) (acc @ [r])"
      using False fits u16 str r by (simp add: decode_loop.simps [of "b @ e" off] Let_def)
    also have "\<dots> = decode_loop (b @ e) (length b) rs"
      using "1.IH" [OF False a refl c r] rec fits by simp
    finally show ?thesis .
  qed
qed

lemma decode_records_append:
  assumes "decode_records b = Inr rs" and "typed_record r"
  shows "decode_records (append_record b r) = Inr (rs @ [r])"
proof -
  have "decode_loop (b @ encode_records [r] @ []) (length b) rs
      = decode_loop (b @ encode_records [r] @ []) (length b + length (encode_records [r])) (rs @ [r])"
    using assms(2) by (intro decode_loop_records) (simp add: typed_record_def)
  moreover have "decode_loop (b @ encode_record r) 0 [] = decode_loop (b @ encode_record r) (length b) rs"
    using decode_loop_prefix [of b 0 "[]" rs] assms(1) by (simp add: decode_records_def)
  ultimately show ?thesis
    by (simp add: decode_records_def append_record_def decode_loop_end)
qed

lemma submit_skill_record_Inr:
  "submit_skill_record w r bx = Inr bx' \<Longrightarrow> bx' = bx(w \<mapsto> append_record (box_of bx w) r)"
  by (simp add: submit_skill_record_def Let_def split: if_splits)

lemma get_skill_records_submit:
  assumes "submit_skill_record w r bx = Inr bx'"
  shows "get_skill_records bx' w' = (if w' = w then decode_records (append_record (box_of bx w) r)
                                    else get_skill_records bx w')"
  using submit_skill_record_Inr [OF assms] by (simp add: get_skill_records_def box_of_def)

lemma submit_all_log:
  assumes "submit_all bx ops = Inr bx'" and "\<forall>p\<in>set ops. typed_record (snd p)"
    and "\<forall>w. get_skill_records bx w = Inr (L w)"
  shows "\<forall>w. get_skill_records bx' w = Inr (L w @ wallet_log ops w)"
  using assms
proof (induction ops arbitrary: bx L)
  case Nil
  then show ?case by (simp add: wallet_log_def)
next
  case (Cons p ops)
  obtain w r where p: "p = (w, r)"
    by (cases p)
  obtain bx1 where s1: "submit_skill_record w r bx = Inr bx1" and rest: "submit_all bx1 ops = Inr bx'"
    using Cons.prems(1) p by (auto simp: bind_res_eq_Inr)
  let ?L1 = "L(w := L w @ [r])"
  have h1: "\<forall>v. get_skill_records bx1 v = Inr (?L1 v)"
    using get_skill_records_submit [OF s1] decode_records_append Cons.prems(2,3) p
    by (auto simp: get_skill_records_def)
  have "\<forall>v. get_skill_records bx' v = Inr (?L1 v @ wallet_log ops v)"
    by (rule Cons.IH [OF rest _ h1]) (use Cons.prems(2) in simp)
  then show ?case
    using p by (simp add: wallet_log_def)
qed

lemma encode_records_length_hash:
  "\<forall>r\<in>set rs. length (artifact_hash r) = 64 \<Longrightarrow> 94 * length rs \<le> length (encode_records rs)"
  by (induction rs) (simp_all add: encode_record_def struct_size_def head_size_def)

lemma box_of_empty [simp]: "box_of Map.empty w = []"
  by (simp add: box_of_def)

lemma get_skill_records_empty: "get_skill_records Map.empty w = Inr []"
  by (simp add: get_skill_records_def decode_records_def decode_loop_end)

lemma submit_all_boxes:
  assumes "submit_all bx ops = Inr bx'"
  shows "box_of bx' w = box_of bx w @ encode_records (wallet_log ops w)
         \<and> (length (box_of bx w) \<le> MAX_BOX_SIZE \<longrightarrow> length (box_of bx' w) \<le> MAX_BOX_SIZE)"
  using assms
proof (induction ops arbitrary: bx)
  case Nil
  then show ?case by (simp add: wallet_log_def)
next
  case (Cons p ops)
  obtain v r where p: "p = (v, r)"
    by (cases p)
  obtain bx1 where s1: "submit_skill_record v r bx = Inr bx1" and rest: "submit_all bx1 ops = Inr bx'"
    using Cons.prems p by (auto simp: bind_res_eq_Inr)
  have b1: "box_of bx1 w = (if w = v then append_record (box_of bx v) r else box_of bx w)"
    and lim: "length (append_record (box_of bx v) r) \<le> MAX_BOX_SIZE"
    using s1 by (auto simp: submit_skill_record_def box_of_def Let_def split: if_splits)
  show ?case
    using Cons.IH [OF rest] b1 lim p by (auto simp: wallet_log_def append_record_def)
qed

section \<open>Properties of the contract\<close>

text \<open>
  C22. The contract refines an append-only log per wallet: after any sequence of accepted
  submissions of typed records, starting from no boxes, each wallet's records are exactly
  the ones it submitted, in the order they were submitted, and the count is their number;
  submissions of one wallet never touch another's records. The order is the order of
  submission, not of timestamps: a record submitted after another with an earlier
  timestamp stays after it, so the notes' "chronological record sequence" (part_000,
  line 356) holds only as long as clients' clocks do.
\<close>

theorem contract_refines_log:
  "(submit_all Map.empty ops = Inr bx \<and> (\<forall>p\<in>set ops. typed_record (snd p))
      \<longrightarrow> get_skill_records bx w = Inr (wallet_log ops w)
        \<and> get_record_count bx w = Inr (length (wallet_log ops w)))
   \<and> (\<exists>bx'. submit_all Map.empty [(a, late_record), (a, early_record)] = Inr bx'
        \<and> get_skill_records bx' a = Inr [late_record, early_record]
        \<and> timestamp early_record < timestamp late_record)"
proof (rule conjI, rule impI)
  have empty: "\<forall>w. get_skill_records Map.empty w = Inr ([] :: skill_record list)"
    by (simp add: get_skill_records_empty)
  assume a: "submit_all Map.empty ops = Inr bx \<and> (\<forall>p\<in>set ops. typed_record (snd p))"
  then have "get_skill_records bx w = Inr (wallet_log ops w)"
    using submit_all_log [of Map.empty ops bx "\<lambda>_. []"] empty by simp
  then show "get_skill_records bx w = Inr (wallet_log ops w)
        \<and> get_record_count bx w = Inr (length (wallet_log ops w))"
    by (simp add: get_record_count_def)
next
  have typed: "typed_record late_record" "typed_record early_record"
    using sample_record_ok decodable_if_wf
    by (auto simp: typed_record_def late_record_def early_record_def skill_record_wf_def
        encodable_def struct_size_def decodable_def)
  obtain bx' where run: "submit_all Map.empty [(a, late_record), (a, early_record)] = Inr bx'"
    by (simp add: submit_skill_record_def box_of_def append_record_def Let_def MAX_BOX_SIZE_def
        late_record_def early_record_def sample_record_def struct_size_def head_size_def)
  have empty: "\<forall>w. get_skill_records Map.empty w = Inr ([] :: skill_record list)"
    by (simp add: get_skill_records_empty)
  have "get_skill_records bx' a = Inr [late_record, early_record]"
    using submit_all_log [OF run _ empty] typed by (simp add: wallet_log_def)
  moreover have "timestamp early_record < timestamp late_record"
    by (simp add: late_record_def early_record_def)
  ultimately show "\<exists>bx'. submit_all Map.empty [(a, late_record), (a, early_record)] = Inr bx'
        \<and> get_skill_records bx' a = Inr [late_record, early_record]
        \<and> timestamp early_record < timestamp late_record"
    using run by blast
qed

theorem contract_refines_log_witness:
  "\<exists>bx. submit_all Map.empty [(''W'', sample_record)] = Inr bx
     \<and> get_skill_records bx ''W'' = Inr [sample_record] \<and> get_record_count bx ''V'' = Inr 0"
proof -
  obtain bx where run: "submit_all Map.empty [(''W'', sample_record)] = Inr bx"
    by (simp add: submit_skill_record_def box_of_def append_record_def Let_def MAX_BOX_SIZE_def
        sample_record_def struct_size_def head_size_def)
  have t: "\<forall>p\<in>set [(''W'', sample_record)]. typed_record (snd p)"
    using sample_record_ok decodable_if_wf by (simp add: typed_record_def)
  have "get_skill_records bx ''W'' = Inr (wallet_log [(''W'', sample_record)] ''W'')"
    and "get_record_count bx ''V'' = Inr (length (wallet_log [(''W'', sample_record)] ''V''))"
    using contract_refines_log [of "[(''W'', sample_record)]" bx] run t by blast+
  then show ?thesis
    using run by (simp add: wallet_log_def)
qed

text \<open>
  C28. A box holds at most 348 records with SHA-256 artifact hashes: the contract refuses
  an append past 32KB, and each such record takes at least 94 bytes (the 2-byte prefix, the
  22-byte head, three 2-byte string lengths and the 64-character hash). The notes' "~500
  records per wallet" (part_000, line 410) cannot be reached.
\<close>

theorem box_capacity:
  assumes "submit_all Map.empty ops = Inr bx"
    and "\<forall>p\<in>set ops. length (artifact_hash (snd p)) = 64"
  shows "length (wallet_log ops w) \<le> 348"
proof -
  note b = submit_all_boxes [OF assms(1), of w]
  have e: "box_of bx w = encode_records (wallet_log ops w)"
    using conjunct1 [OF b] by simp
  have "length (box_of bx w) \<le> MAX_BOX_SIZE"
    using conjunct2 [OF b] by simp
  then have "length (encode_records (wallet_log ops w)) \<le> MAX_BOX_SIZE"
    by (simp only: e)
  moreover have "\<forall>r\<in>set (wallet_log ops w). length (artifact_hash r) = 64"
    using assms(2) by (auto simp: wallet_log_def)
  ultimately have "94 * length (wallet_log ops w) \<le> 32768"
    using encode_records_length_hash [of "wallet_log ops w"] by (simp add: MAX_BOX_SIZE_def)
  then show ?thesis
    by simp
qed

theorem box_capacity_witness:
  "length (wallet_log [(''W'', sample_record)] ''W'') \<le> 348"
proof -
  obtain bx where run: "submit_all Map.empty [(''W'', sample_record)] = Inr bx"
    by (simp add: submit_skill_record_def box_of_def append_record_def Let_def MAX_BOX_SIZE_def
        sample_record_def struct_size_def head_size_def)
  have "\<forall>p\<in>set [(''W'', sample_record)]. length (artifact_hash (snd p)) = 64"
    by (simp add: sample_record_def)
  then show ?thesis
    by (rule box_capacity [OF run])
qed

end
