(* ===== verification/Spec2Isabelle.thy ===== *)
theory Spec2Isabelle
  imports Submit Views Wallet ApiClient Analyze Launch Dashboard Scoring Trust Navbar Verifier SubmitView Explorer SubmitPage
    ExplorerPage AnalysisPanel Contract
begin

text \<open>
  A verification library for verifi.ED (VerifiedProtocol), a skill-reputation system on
  Algorand. The repository's sources under src/ are the React frontend (the API client,
  the wallet context and the pages) and documentation; the backend core the frontend
  talks to (the ARC-4 record codec, the evidence scoring engine and the reputation
  engine, under backend/ and ai_scoring/) is not in the repository and is modelled from
  the specification (spec.md, sections 3 and 4) and from the wire format and formulas of
  the architecture notes (src/unnamed/part_000).

  \<^bold>\<open>Theories.\<close>
  \<^item> \<open>Prelude\<close>: the result type \<open>error + 'a\<close> with \<open>bind_res\<close>, bytes as
    \<open>8 word\<close>, big-endian integers (\<open>be_nat\<close>, \<open>nat_of_be\<close>) and the JavaScript
    conventions the frontend relies on (\<open>js_or\<close> for \<open>a || b\<close> on strings,
    \<open>js_round\<close> for \<open>Math.round\<close>); the collections \<open>wire_simps\<close> and \<open>js_simps\<close>.
  \<^item> \<open>Codec\<close> (from the specification, section 4.1): the \<open>skill_record\<close> record, the
    encoder (\<open>encode_struct\<close>, \<open>encode_record\<close>, \<open>encode_records\<close>), the decoder
    (\<open>read_string\<close>, \<open>decode_struct\<close>, and \<open>decode_loop\<close>, the loop over the blob
    with its termination measure), the contract's box append (\<open>append_record\<close>) and the
    decode errors as a datatype. Lemmas: round trip of every list of decodable,
    encodable records (\<open>decode_records_roundtrip\<close>); a truncated record is an error and
    never a partial list (\<open>decode_truncated\<close>); a record whose score exceeds 100 makes
    the whole box fail to decode (\<open>decode_records_poisoned\<close>); whatever bytes a box
    holds, every record the decoder returns is typed as the schema says: score at most 100,
    strings valid UTF-8 (\<open>decode_records_typed\<close>); the loop consumes the whole blob
    (\<open>decode_records_consumes\<close>).
  \<^item> \<open>Contract\<close> (part_000, lines 48-55, 78-82, 336-357, 384, 410): the VerifiedProtocol
    contract's box storage as a map from wallet addresses to byte strings (\<open>boxes\<close>),
    \<open>submit_skill_record\<close> (append with the 32KB limit as its only failure),
    \<open>get_skill_records\<close> (decode the box), \<open>get_record_count\<close> (count by decoding, spec
    4.1), a ledger's sequence of submissions (\<open>submit_all\<close>) and the per-wallet log the
    notes promise (\<open>wallet_log\<close>). Lemmas: the contract refines the log, per wallet and in
    submission order (not timestamp order), and a box holds at most 348 records with
    SHA-256 hashes, against the notes' "~500".
  \<^item> \<open>Submit\<close> (src/unnamed/part_001, \<open>SubmitPage\<close>): the analysis returned by the
    backend, the method arguments \<open>handleSubmit\<close> composes (\<open>submit_mode\<close>,
    \<open>submit_domain\<close>, \<open>submit_score\<close>, \<open>submit_artifact_hash\<close>,
    \<open>submit_timestamp\<close>, \<open>abi_uint64\<close>), the steps of its \<open>try\<close> block
    (\<open>submit_chain\<close>) and the page state after the handler (\<open>handle_submit\<close>).
    The outcome of each network or wallet call is a field of \<open>submit_env\<close>.

  \<^item> \<open>Reputation\<close> (from the specification, section 4.3): the reputation engine's
    aggregation of a wallet's records (\<open>aggregate\<close>): time-decayed mean score
    (\<open>decay_weight\<close>, half-life 180 days), consistency, diversity, volume and longevity,
    the trust index \<open>trust_raw\<close>, credibility levels, badge and per-domain trends.
    Lemmas: every component lies in its range, and the profile's scalar fields do not
    depend on the order of the records (\<open>aggregate_perm\<close>). The specification leaves
    open the order of \<open>domain_scores\<close> and the tie-break of \<open>top_domain\<close>; the model
    takes domains in order of first occurrence, so those two fields can depend on the order.
  \<^item> \<open>Views\<close> (RecordsPage.jsx, ScoreCircle in part_004, the verifier page in part_002,
    \<open>ExplorerPage\<close> in part_001): what the pages compute from a profile or a record list:
    tiers and colours (\<open>score_tier\<close>, \<open>tier_class\<close>), the score circle
    (\<open>score_circle\<close>, whose arc stays within the circle exactly for scores up to 100), the
    dashboard (\<open>dashboard_view\<close>: score, trust meter, level, badge, score circle and
    record count; the top domain, the active-since date and the domain chart are not
    modelled), the lookup and verify handlers, and the explorer's search and domain filter.
  \<^item> \<open>Wallet\<close> (WalletContext.jsx): \<open>WalletProvider\<close> as a step function
    (\<open>wallet_step\<close>) over its state and the \<open>localStorage\<close> entry, with
    \<open>connectWallet\<close> split at its awaits into events, and the reachable states as an
    inductive relation. Lemmas: the stored entry mirrors the session, and a reload restores
    it; two runs exhibit the empty-account and manual-entry defects (findings, not claims).
  \<^item> \<open>ApiClient\<close> (part_001, lines 1-146): \<open>fetchWithRetry\<close> (\<open>fetch_with_retry\<close>) over
    a server given as the outcome of each attempt, JSON values and JavaScript property access,
    and the endpoint table (\<open>api_request\<close>, \<open>api_run\<close>). Lemmas: refinement of the loop
    to a recursion-free specification (\<open>retry_spec\<close>), the backoff delays and their bound,
    and the error path: a non-2xx answer with a \<open>null\<close> body fails at once with a TypeError
    for every server and status, where any other 429 or 5xx answer is retried.
  \<^item> \<open>Analyze\<close> (part_001, \<open>handleAnalyze\<close> and the evidence inputs): the analysis step
    of the Submit page as an event system whose start and settling events interleave.
    Lemmas: with the button alone one analysis runs at a time and the analysis shown answers
    the latest request; a run shows that the Enter key breaks this (a finding).
  \<^item> \<open>Launch\<close> (start.sh in part_005, start.bat): each script as a function from its
    environment (\<open>.env\<close> present, what the health probe meets, when the user interrupts)
    to its exit status and the services it leaves running; for start.sh the final
    \<open>wait\<close> ends by Ctrl+C or by both services exiting on their own.
  \<^item> \<open>Dashboard\<close> (RecordsPage.jsx with WalletContext.jsx): \<open>DashboardPage\<close> as an event
    system over the page state and the wallet context: typing, the manual lookup button, the
    retry button, wallet events (\<open>DWallet\<close>, through \<open>wallet_step\<close>), the
    \<open>useEffect\<close> that loads the connected account's profile when the address changes
    (\<open>dash_step\<close>), and the settling of each \<open>Promise.all\<close> lookup (\<open>DSettle\<close>, with a
    ghost request id). Lemmas: the loading flag is set exactly while a lookup is in flight;
    answering every pending lookup ends the loading state (liveness); two lookups that settle
    out of order leave the page showing another wallet's reputation.
  \<^item> \<open>Scoring\<close> (specification sections 4.2-4.3, the weight tables of part_000): signals
    with name, weight and raw value, the GitHub evaluator's weight table
    (\<open>repo_weights\<close>), the recency and community policies, the issuer trust table, and the
    engine's \<open>score_evidence\<close>, which skips the evaluators that did not run and renormalises
    by the weights that did. Lemmas: the score stays in \<open>[0, 1]\<close> and the confidence in
    \<open>(0, 1]\<close>; with every evaluator run the score is the plain weighted sum; skipped
    evaluators do not lower the ceiling.
  \<^item> \<open>Trust\<close> (part_000 lines 261-270, part_006 lines 78-85): the architecture notes'
    trust formula next to the engine's; on a strong box the notes' value exceeds 1.
  \<^item> \<open>Navbar\<close> (part_003): the links and react-router's active-link rule of
    \<open>NavLink\<close> (case-insensitive, \<open>end\<close>, path-segment boundary), the wallet area rendered
    from the wallet context, and \<open>handleConnect\<close>. Lemma: for every location at most one
    link is active, each page's path activates its own link only, and the Submit link only
    the root.
  \<^item> \<open>Verifier\<close> (part_002, \<open>VerifierPage\<close>, with WalletContext.jsx): the page as an event
    system like the dashboard's: typing (ignored while connected), the Verify button and
    Enter (\<open>handleVerify\<close> or \<open>handleManualVerify\<close>), Connect & Verify, which awaits
    \<open>connectWallet\<close> and verifies the address it returns, wallet events from the other
    components, flagged when they advance one of this page's connect calls, and the settling
    of each verification; and the results view (\<open>verifier_view\<close>, the record rows).
    Lemmas: loading only while a verification is in flight, fresh request identifiers, the
    wallet part of every reachable state is a reachable wallet state, the page's connect calls
    are among those the context counts, answering every request ends the loading state,
    and the split handler agrees with the atomic \<open>handle_verify\<close> of Views; two runs (for
    findings) show one wallet's data while connected to another, and the input card
    (\<open>verifier_header\<close>) throwing on the absent address an empty account list leaves.
  \<^item> \<open>SubmitView\<close> (part_001, \<open>SubmitPage\<close> around the analysis): the language breakdown
    (\<open>lang_pills\<close>: entries sorted by size, colour from \<open>LANG_COLORS\<close>, share rounded by
    \<open>toFixed(0)\<close>), the wallet prompt (\<open>needs_wallet\<close>), \<open>handleSetWallet\<close>, the Submit
    button's guard, the result panel and Submit Another. Lemmas: the pills are a
    permutation of the languages, largest first, each share in \<open>[0, 100]\<close> and each with
    its colour; a repository of no bytes shows 0 percent everywhere, and three equal
    languages show shares adding up to 99; in a reachable wallet state the prompt shows
    exactly when not connected, and an empty account list enables a button whose handler
    refuses; every result panel of a submission shows Confirmed, the explorer link of its
    transaction and the domain and score recorded on chain; Submit Another does not cancel an
    analysis in flight.
  \<^item> \<open>Explorer\<close> (part_001, \<open>ExplorerPage\<close> cards): the domain colour table and select
    options, the card of a profile (\<open>explorer_card\<close>) and the grid or empty state.
    Lemmas: at most three domain pills, the trust percentage in \<open>[0, 100]\<close> for a trust
    index in \<open>[0, 1]\<close>, every selectable domain has its own colour, and an address's card
    shows its first 8 and last 6 characters.
  \<^item> \<open>Events\<close>: the shape the page theories share, an event system given by an
    initial-state predicate, an enabled predicate and a step function; \<open>ev_run\<close> runs a
    list of events, \<open>ev_reachable\<close> is the reachable states as an inductive predicate.
    Lemmas: runs compose, runs from a reachable state stay reachable, an invariant proved
    on the steps holds in every reachable state and, for the events of some kind, after every
    run of such events, runs of events that keep a projection keep it, and answering every
    request in flight, oldest first, ends the busy state.
  \<^item> \<open>SubmitPage\<close> (part_001, \<open>SubmitPage\<close>, with WalletContext.jsx): the whole Submit
    page as an event system over \<open>Events\<close>: the analysis step of \<open>Analyze\<close>, wallet
    events, the wallet input and Use Address, \<open>handleSubmit\<close> split at its first await
    (\<open>start_submit\<close>, \<open>settle_submit\<close>, with the analysis, wallet and Pera instance the
    closure captured and a ghost request id), Submit Another, and the reading of the
    analysis JSON (\<open>analysis_of_json\<close>). Lemmas: a result shows exactly when the
    analysis step says so; at most one submission is in flight and the page is submitting
    exactly while it is; every record sent went from an address of 58 characters; the
    wallet part of a reachable state is a reachable wallet state; answering every analysis
    and submission in flight quiesces the page; from a session restored from storage, no
    run without a wallet event records anything, for want of a signer; and the split
    handler agrees with \<open>handle_submit\<close> when nothing happens between its two parts.
  \<^item> \<open>ExplorerPage\<close> (part_001, \<open>ExplorerPage\<close>): the Explorer as an event system over
    \<open>Events\<close>: the mount effect, typing, Enter, the Search button, the domain select and
    Retry each call \<open>loadProfiles\<close>, split at its await (\<open>start_load\<close>,
    \<open>settle_load\<close>), with ghost request ids and the query whose answer the grid shows
    (\<open>xp_shown\<close>). Lemmas: loading only while a request is in flight; answering every
    request in sending order ends loading and shows the answer to the newest query; the
    split handler agrees with \<open>handle_search\<close> and \<open>select_domain\<close> of \<open>Views\<close>; and a run
    in which the grid shows the answer to an older search (a finding).
  \<^item> \<open>AnalysisPanel\<close> (part_001, lines 491-705): what the Submit page shows of an
    analysis, read from its JSON with JavaScript's property access and \<open>||\<close> fallbacks:
    the skeleton while analysing, the score and tier of the hero, its title, the community,
    certificate and project rows, the signal cards, the domain tags and the assessment,
    with \<open>Inl ()\<close> for the \<open>TypeError\<close> a wrongly typed field throws
    (\<open>analysis_panel\<close>); and the two wire shapes the repository documents for an analysis,
    the specification's \<open>ScoringResult\<close> (\<open>spec_result_json\<close>) and the analyser output of
    the architecture notes (\<open>notes_output_json\<close>). Lemmas: a card of a normalised value in
    \<open>[0, 1]\<close> shows a score and bar in \<open>[0, 100]\<close> and a label without underscores; the
    hero shows the score \<open>handleSubmit\<close> sends; what each documented shape gives.

  The theories meet at shared types: the codec's \<open>skill_record\<close> is what \<open>handle_submit\<close>
  sends and what the reputation engine and the pages read back; the wallet address of the
  \<open>Wallet\<close> theory is the \<open>address\<close> argument of the Submit and Analyze handlers; the
  \<open>json\<close> values and \<open>response_ok\<close> of \<open>ApiClient\<close> are those \<open>Analyze\<close> receives.

  \<^bold>\<open>Plan.\<close> Done: the codec and the Submit page's record, the reputation engine and the
  pages that display it, the wallet context, the API client, the analysis step, the
  launch scripts, the dashboard page as an event system composed with the wallet context,
  the scoring engine with the weight tables the repository gives, the contract's box
  storage, the navigation bar, the
  verifier, Submit and Explorer pages as event systems, the Submit page's views and the
  Explorer's cards. The Dashboard, Verifier and SubmitPage theories compose two step
  functions: a page event runs \<open>wallet_step\<close> on the wallet part of the page state
  through an enabled wallet event, so the wallet part of every reachable page state is a
  reachable wallet state (\<open>dash_reachable_wallet\<close>, \<open>verifier_reachable_wallet\<close>,
  \<open>submit_page_reachable_wallet\<close>) and the Wallet theory's invariants hold there.
  The Explorer page is an event system of its own, with no wallet part. The root theory
  states what spans the Submit page, its analysis panel and the documented wire shapes:
  the page reads an analysis under field names neither documented shape has. Concrete
  runs that exhibit a defect (the Enter-key races, the empty account list, the stale
  Verifier data) are lemmas of their theories backing the findings; the claims are the
  general properties.
  Left: the hero's subtitle and the analysis time, the file upload and the mode tabs; the certificate and project evaluators' weight tables, which the repository does
  not contain.

  \<^bold>\<open>Bounds.\<close> Lengths and offsets on the wire are 16-bit: \<open>encodable\<close> asks that a
  struct's size stays below \<open>2^16\<close>, which bounds every offset as well; scores and
  timestamps are \<open>64 word\<close>, and the Submit page's arguments pass \<open>abi_uint64\<close>, which
  refuses values outside \<open>[0, 2^64)\<close> as algosdk does. No loop of the model needs fuel:
  the decoder's loop terminates by the measure \<open>length bs - off\<close>, and
  \<open>fetch_with_retry\<close> by its \<open>retries\<close> argument, which every endpoint sets to
  \<open>MAX_RETRIES = 3\<close>. The asynchronous handlers of the Analyze, Dashboard, Verifier,
  SubmitPage, ExplorerPage and Wallet theories are split at their awaits (\<open>handleSubmit\<close> at its
  first, since it writes the page only when it finishes), and the outcome of each network call is an
  event's argument, so every interleaving of those events is a run of a step function;
  the other handlers are functions of the outcomes of their awaits.

  \<^bold>\<open>Not modelled.\<close> Rendering (JSX markup, styles, animation, and the conversion of
  numbers to text by \<open>toLocaleString\<close> and \<open>toFixed\<close>: the model keeps the numbers
  shown), routing, the Pera
  Wallet SDK and algosdk internals (their results are inputs of the model), HTTP
  transport and timers (their outcomes are inputs), hashing (SHA-256 of the evidence; its
  hex digest is an input), and the backend's GitHub, certificate and project analysers,
  whose metadata is the scoring engine's input: the backend sources are not part of the
  repository, and only the weight tables the notes of part_000 quote are modelled. The
  backend's routers, its \<open>ContractService\<close> (transactions, retries against Algorand, box
  funding) and the rate limiter are I/O around the contract and are not modelled; the
  contract itself is modelled from the notes' description, its PyTeal code not being in
  the repository. Documentation (README, DEPLOYMENT, the status summaries) is prose, used
  only to fix formulas, weights and the wire format.
\<close>

section \<open>Tier labels across pages\<close>

text \<open>The tier label of the Submit page (part_001, lines 194-195), from the rounded score
  of the analysis, 0 without one.\<close>

definition submit_tier_label :: "analysis option \<Rightarrow> string" where
  "submit_tier_label an = tier_class (score_tier (case an of None \<Rightarrow> 0 | Some a \<Rightarrow> submit_score a))"

text \<open>The tier label of a record in the Verifier page's record list (part_002, lines
  191-192), from the record's score.\<close>

definition record_tier_label :: "skill_record \<Rightarrow> string" where
  "record_tier_label r = tier_class (score_tier (int (unat (score r))))"

section \<open>Analysis results on the wire\<close>

text \<open>
  C26. The Submit page reads an analysis under field names that neither the specification
  nor the architecture notes give. A scoring result with the specification's field names
  (section 3) reads, but \<open>handleSubmit\<close> sends it with domain \<open>general\<close> and the all-zero
  hash, whatever its \<open>domain\<close> and \<open>artifact_hash\<close>; and the analysis panel throws on its
  first signal, which has a \<open>name\<close> and no \<open>signal_name\<close>. The analyser output of the notes
  (part_000, lines 206-224) does not read at all: the panel shows no score (\<open>NaN\<close>), the
  minimal tier, and neither signals nor domains.
\<close>

theorem analysis_wire_divergence:
  "(\<exists>a. analysis_of_json (spec_result_json expl r dm sub h) = Some a \<and> submit_domain a = ''general''
      \<and> submit_artifact_hash a = default_hash \<and> submit_score a = js_round (overall_score_of r * 100))
   \<and> (ap_analysis (sg_page s) = Some (spec_result_json expl r dm sub h) \<and> \<not> ap_analyzing (sg_page s)
      \<and> signals r \<noteq> [] \<longrightarrow> analysis_panel s = Some (Inl ()))
   \<and> analysis_of_json (notes_output_json cs dm sub c ex bd h) = None
   \<and> (ap_analysis (sg_page t) = Some (notes_output_json cs dm sub c ex bd h) \<and> \<not> ap_analyzing (sg_page t)
      \<longrightarrow> (\<exists>p. analysis_panel t = Some (Inr p) \<and> pn_score p = None \<and> pn_tier p = ''minimal''
             \<and> pn_signals p = [] \<and> pn_domains p = []))"
  apply (intro conjI impI)
  subgoal by (rule spec_result_reads)
  subgoal by (elim conjE) (rule spec_result_panel_throws)
  subgoal by (rule notes_output_unread)
  subgoal by (elim conjE) (rule notes_output_panel)
  done

definition sample_signal :: signal where
  "sample_signal = \<lparr>sig_name = ''commit_activity'', sig_weight = 0.2, sig_raw = 0.85\<rparr>"

definition sample_scoring :: scoring_result where
  "sample_scoring = \<lparr>overall_score_of = 0.85, confidence = 0.92, signals = [sample_signal]\<rparr>"

theorem analysis_wire_divergence_witness:
  "analysis_panel (submit_page_init None\<lparr>sg_page := (sg_page (submit_page_init None))
      \<lparr>ap_analysis := Some (spec_result_json (\<lambda>_. []) sample_scoring ''python'' ''web3'' ''abc'')\<rparr>\<rparr>) = Some (Inl ())
   \<and> (\<exists>p. analysis_panel (submit_page_init None\<lparr>sg_page := (sg_page (submit_page_init None))
      \<lparr>ap_analysis := Some (notes_output_json 85 ''python'' ''web3'' 0.92 ''Strong'' [] ''abc'')\<rparr>\<rparr>)
        = Some (Inr p) \<and> pn_score p = None)"
proof -
  let ?s = "submit_page_init None\<lparr>sg_page := (sg_page (submit_page_init None))
      \<lparr>ap_analysis := Some (spec_result_json (\<lambda>_. []) sample_scoring ''python'' ''web3'' ''abc'')\<rparr>\<rparr>"
  let ?t = "submit_page_init None\<lparr>sg_page := (sg_page (submit_page_init None))
      \<lparr>ap_analysis := Some (notes_output_json 85 ''python'' ''web3'' 0.92 ''Strong'' [] ''abc'')\<rparr>\<rparr>"
  have "\<not> ap_analyzing (sg_page ?s)" "\<not> ap_analyzing (sg_page ?t)" "signals sample_scoring \<noteq> []"
    by (simp_all add: submit_page_init_def analyze_init_def sample_scoring_def)
  then show ?thesis
    using analysis_wire_divergence [of "\<lambda>_. []" sample_scoring "''python''" "''web3''" "''abc''" ?s 85 "0.92" "''Strong''" "[]" ?t]
    by auto
qed


end
